theory Spec2Isabelle
  imports Complex_Main
begin

section \<open>The numbers of the program\<close>

text \<open>
  Every quantity of \<^verbatim>\<open>advance.cpp\<close> is a C++ \<^verbatim>\<open>double\<close>. The code
  tests for not-a-number values and divides by quantities that vanish in dilute cells, so
  the special values are part of the model: a \<open>double\<close> is not-a-number, an infinity, the
  negative zero, or a finite real, \<open>Fin 0\<close> being the positive zero. The operations follow
  IEEE 754 on the special values: not-a-number is absorbing, \<open>\<infinity> - \<infinity>\<close>, \<open>0 \<times> \<infinity>\<close>,
  \<open>0 / 0\<close> and \<open>\<infinity> / \<infinity>\<close> are not-a-number, a nonzero value divided by a zero is the
  infinity whose sign is the product of the two signs, a zero product or quotient carries
  the product of the signs, a sum of two zeros is negative only if both are, an exact
  cancellation gives the positive zero, and every ordered comparison with not-a-number
  is false. The two zeros compare equal. Finite nonzero values are exact reals: rounding,
  overflow and underflow are not modelled.
\<close>

datatype double = NaN | PInf | NInf | MZero | Fin real

instantiation double :: "{zero, one, plus, uminus, minus, times, inverse, abs, ord}"
begin

definition zero_double :: double where
  "zero_double = Fin 0"

definition one_double :: double where
  "one_double = Fin 1"

fun plus_double :: "double \<Rightarrow> double \<Rightarrow> double" where
  "plus_double (Fin a) (Fin b) = Fin (a + b)"
| "plus_double MZero MZero = MZero"
| "plus_double MZero (Fin b) = Fin b"
| "plus_double (Fin a) MZero = Fin a"
| "plus_double NaN y = NaN"
| "plus_double x NaN = NaN"
| "plus_double PInf NInf = NaN"
| "plus_double NInf PInf = NaN"
| "plus_double PInf y = PInf"
| "plus_double x PInf = PInf"
| "plus_double NInf y = NInf"
| "plus_double x NInf = NInf"

fun uminus_double :: "double \<Rightarrow> double" where
  "uminus_double (Fin a) = (if a = 0 then MZero else Fin (- a))"
| "uminus_double MZero = Fin 0"
| "uminus_double NaN = NaN"
| "uminus_double PInf = NInf"
| "uminus_double NInf = PInf"

definition minus_double :: "double \<Rightarrow> double \<Rightarrow> double" where
  "minus_double (x::double) y = x + (- y)"

fun times_double :: "double \<Rightarrow> double \<Rightarrow> double" where
  "times_double (Fin a) (Fin b) =
     (if a * b = 0 \<and> (a < 0 \<or> b < 0) then MZero else Fin (a * b))"
| "times_double MZero MZero = Fin 0"
| "times_double MZero (Fin b) = (if b < 0 then Fin 0 else MZero)"
| "times_double (Fin a) MZero = (if a < 0 then Fin 0 else MZero)"
| "times_double NaN y = NaN"
| "times_double x NaN = NaN"
| "times_double PInf PInf = PInf"
| "times_double PInf NInf = NInf"
| "times_double NInf PInf = NInf"
| "times_double NInf NInf = PInf"
| "times_double PInf MZero = NaN"
| "times_double NInf MZero = NaN"
| "times_double MZero PInf = NaN"
| "times_double MZero NInf = NaN"
| "times_double PInf (Fin b) = (if b = 0 then NaN else if 0 < b then PInf else NInf)"
| "times_double NInf (Fin b) = (if b = 0 then NaN else if 0 < b then NInf else PInf)"
| "times_double (Fin a) PInf = (if a = 0 then NaN else if 0 < a then PInf else NInf)"
| "times_double (Fin a) NInf = (if a = 0 then NaN else if 0 < a then NInf else PInf)"

fun divide_double :: "double \<Rightarrow> double \<Rightarrow> double" where
  "divide_double (Fin a) (Fin b) =
     (if b = 0 then (if a = 0 then NaN else if 0 < a then PInf else NInf)
      else if a = 0 \<and> b < 0 then MZero
      else Fin (a / b))"
| "divide_double (Fin a) MZero = (if a = 0 then NaN else if 0 < a then NInf else PInf)"
| "divide_double MZero (Fin b) = (if b = 0 then NaN else if 0 < b then MZero else Fin 0)"
| "divide_double MZero MZero = NaN"
| "divide_double NaN y = NaN"
| "divide_double x NaN = NaN"
| "divide_double (Fin a) PInf = (if a < 0 then MZero else Fin 0)"
| "divide_double (Fin a) NInf = (if a < 0 then Fin 0 else MZero)"
| "divide_double MZero PInf = MZero"
| "divide_double MZero NInf = Fin 0"
| "divide_double PInf (Fin b) = (if b < 0 then NInf else PInf)"
| "divide_double NInf (Fin b) = (if b < 0 then PInf else NInf)"
| "divide_double PInf MZero = NInf"
| "divide_double NInf MZero = PInf"
| "divide_double PInf PInf = NaN"
| "divide_double PInf NInf = NaN"
| "divide_double NInf PInf = NaN"
| "divide_double NInf NInf = NaN"

fun inverse_double :: "double \<Rightarrow> double" where
  "inverse_double (Fin a) = (if a = 0 then PInf else Fin (1 / a))"
| "inverse_double MZero = NInf"
| "inverse_double NaN = NaN"
| "inverse_double PInf = Fin 0"
| "inverse_double NInf = MZero"

fun abs_double :: "double \<Rightarrow> double" where
  "abs_double (Fin a) = Fin \<bar>a\<bar>"
| "abs_double MZero = Fin 0"
| "abs_double NaN = NaN"
| "abs_double PInf = PInf"
| "abs_double NInf = PInf"

fun less_double :: "double \<Rightarrow> double \<Rightarrow> bool" where
  "less_double (Fin a) (Fin b) = (a < b)"
| "less_double MZero (Fin b) = (0 < b)"
| "less_double (Fin a) MZero = (a < 0)"
| "less_double MZero MZero = False"
| "less_double NaN y = False"
| "less_double x NaN = False"
| "less_double PInf y = False"
| "less_double x NInf = False"
| "less_double NInf y = True"
| "less_double x PInf = True"

fun less_eq_double :: "double \<Rightarrow> double \<Rightarrow> bool" where
  "less_eq_double (Fin a) (Fin b) = (a \<le> b)"
| "less_eq_double MZero (Fin b) = (0 \<le> b)"
| "less_eq_double (Fin a) MZero = (a \<le> 0)"
| "less_eq_double MZero MZero = True"
| "less_eq_double NaN y = False"
| "less_eq_double x NaN = False"
| "less_eq_double NInf y = True"
| "less_eq_double x PInf = True"
| "less_eq_double PInf y = False"
| "less_eq_double x NInf = False"

instance ..

end

text \<open>
  The comparison \<^verbatim>\<open>==\<close> of two doubles: false on not-a-number, and true on the two
  zeros.
\<close>

fun is_zero :: "double \<Rightarrow> bool" where
  "is_zero (Fin a) = (a = 0)"
| "is_zero MZero = True"
| "is_zero x = False"

definition eq_d :: "double \<Rightarrow> double \<Rightarrow> bool" where
  "eq_d x y = (x \<le> y \<and> y \<le> x)"

text \<open>\<^verbatim>\<open>std::isnan\<close>, and the library functions \<^verbatim>\<open>sqrt\<close>, \<^verbatim>\<open>exp\<close> and
  \<^verbatim>\<open>std::max\<close> (which returns its first argument unless it is less than the second).\<close>

fun isnan :: "double \<Rightarrow> bool" where
  "isnan NaN = True"
| "isnan x = False"

fun sqrt_d :: "double \<Rightarrow> double" where
  "sqrt_d (Fin a) = (if a < 0 then NaN else Fin (sqrt a))"
| "sqrt_d MZero = MZero"
| "sqrt_d NaN = NaN"
| "sqrt_d PInf = PInf"
| "sqrt_d NInf = NaN"

fun exp_d :: "double \<Rightarrow> double" where
  "exp_d (Fin a) = Fin (exp a)"
| "exp_d MZero = Fin 1"
| "exp_d NaN = NaN"
| "exp_d PInf = PInf"
| "exp_d NInf = Fin 0"

definition std_max :: "double \<Rightarrow> double \<Rightarrow> double" where
  "std_max a b = (if a < b then b else a)"

text \<open>\<^verbatim>\<open>std::isfinite\<close>: neither not-a-number nor an infinity.\<close>

fun isfinite :: "double \<Rightarrow> bool" where
  "isfinite (Fin a) = True"
| "isfinite MZero = True"
| "isfinite x = False"

text \<open>The conversion of an \<^verbatim>\<open>int\<close> operand in mixed arithmetic.\<close>

definition of_int_d :: "int \<Rightarrow> double" where
  "of_int_d i = Fin (of_int i)"

section \<open>Cells, configuration and collaborators\<close>

text \<open>
  A reconstructed face state (\<^verbatim>\<open>ReconstCell\<close>) and a grid cell
  (\<^verbatim>\<open>Cell_small\<close>), with the fields \<^verbatim>\<open>advance.cpp\<close> reads and writes. The fixed-size
  arrays \<^verbatim>\<open>u[4]\<close>, \<^verbatim>\<open>Wmunu[14]\<close> and \<^verbatim>\<open>Lambdas[3]\<close> are functions of the index;
  the code only ever uses indices inside the arrays.
\<close>

record ReconstCell =
  e :: double
  rhob :: double
  u :: "nat \<Rightarrow> double"

record Cell_small =
  epsilon :: double
  rhob :: double
  u :: "nat \<Rightarrow> double"
  Wmunu :: "nat \<Rightarrow> double"
  pi_b :: double
  Lambdas :: "nat \<Rightarrow> double"

text \<open>The fields of the run configuration \<^verbatim>\<open>DATA\<close> that the code reads.\<close>

record InitData =
  delta_tau :: double
  turn_on_rhob :: int
  turn_on_shear :: int
  turn_on_bulk :: int
  turn_on_diff :: int
  Initial_profile :: int
  causality_method :: int
  quest_revert_strength :: double
  echo_level :: int

text \<open>
  The equation of state is an external collaborator: its functions are parameters of the
  model. So are the constants and the index map of \<^verbatim>\<open>util.h\<close>.
\<close>

record EOS =
  get_pressure :: "double \<Rightarrow> double \<Rightarrow> double"
  get_cs2 :: "double \<Rightarrow> double \<Rightarrow> double"
  get_dpde :: "double \<Rightarrow> double \<Rightarrow> double"

record Util =
  hbarc :: double
  small_eps :: double
  map_2d_idx_to_1d :: "nat \<Rightarrow> nat \<Rightarrow> nat"
  map_1d_idx_to_2d :: "nat \<Rightarrow> nat \<times> nat"

text \<open>
  \<^verbatim>\<open>TransportCoeffs\<close> (\<^verbatim>\<open>transport_coeffs.h\<close>): the two relaxation-time factors are
  set from the configuration, the second-order coefficients are constants.
\<close>

record TransportCoeffs =
  shear_relax_time_factor :: double
  bulk_relax_time_factor :: double

definition get_shear_relax_time_factor :: "TransportCoeffs \<Rightarrow> double" where
  "get_shear_relax_time_factor tc = shear_relax_time_factor tc"

definition get_bulk_relax_time_factor :: "TransportCoeffs \<Rightarrow> double" where
  "get_bulk_relax_time_factor tc = bulk_relax_time_factor tc"

definition get_tau_pipi_coeff :: double where
  "get_tau_pipi_coeff = Fin 10 / Fin 7"

definition get_delta_pipi_coeff :: double where
  "get_delta_pipi_coeff = Fin 4 / Fin 3"

definition get_lambda_piPi_coeff :: double where
  "get_lambda_piPi_coeff = Fin 6 / Fin 5"

definition get_lambda_Pipi_coeff :: double where
  "get_lambda_Pipi_coeff = Fin 8 / Fin 5"

definition get_delta_PiPi_coeff :: double where
  "get_delta_PiPi_coeff = Fin 2 / Fin 3"

text \<open>
  What the code writes besides the cell: warnings through \<^verbatim>\<open>music_message\<close> (with the
  values they print), lines on the standard output, and records appended to a
  reduction-factor file (file name, factor, energy density, proper time).
\<close>

datatype event =
    Shear_warning int int int double double
  | Bulk_warning int int int double double
  | Qmu_negative_warning double
  | Qmu_reset_warning
  | Qmu_warning int int int double double double
  | Stdout string
  | File_record string double double double

section \<open>QuestRevert\<close>

text \<open>The logistic gate \<^verbatim>\<open>factor\<close>, shared by \<^verbatim>\<open>QuestRevert\<close> and \<^verbatim>\<open>QuestRevert_qmu\<close>.\<close>

definition QuestRevert_factor :: "InitData \<Rightarrow> double \<Rightarrow> double" where
  "QuestRevert_factor DATA e_local =
     (let eps_scale = Fin (1 / 10);
          xi = Fin (5 / 100)
      in Fin 10 * quest_revert_strength DATA
           * (Fin 1 / (exp_d ((- (e_local - eps_scale)) / xi) + Fin 1)
              - Fin 1 / (exp_d (eps_scale / xi) + Fin 1)))"

definition QuestRevert_pisize :: "Cell_small \<Rightarrow> double" where
  "QuestRevert_pisize grid_pt =
     (let pi_00 = Wmunu grid_pt 0; pi_01 = Wmunu grid_pt 1; pi_02 = Wmunu grid_pt 2;
          pi_03 = Wmunu grid_pt 3; pi_11 = Wmunu grid_pt 4; pi_12 = Wmunu grid_pt 5;
          pi_13 = Wmunu grid_pt 6; pi_22 = Wmunu grid_pt 7; pi_23 = Wmunu grid_pt 8;
          pi_33 = Wmunu grid_pt 9
      in pi_00 * pi_00 + pi_11 * pi_11 + pi_22 * pi_22 + pi_33 * pi_33
         - Fin 2 * (pi_01 * pi_01 + pi_02 * pi_02 + pi_03 * pi_03)
         + Fin 2 * (pi_12 * pi_12 + pi_13 * pi_13 + pi_23 * pi_23))"

definition QuestRevert_eq_size :: "EOS \<Rightarrow> Cell_small \<Rightarrow> double" where
  "QuestRevert_eq_size eos grid_pt =
     (let e_local = epsilon grid_pt;
          p_local = get_pressure eos e_local (rhob grid_pt)
      in e_local * e_local + Fin 3 * p_local * p_local)"

text \<open>The two ratios \<^verbatim>\<open>rho_shear\<close> and \<^verbatim>\<open>rho_bulk\<close>.\<close>

definition QuestRevert_rho_shear :: "InitData \<Rightarrow> EOS \<Rightarrow> Cell_small \<Rightarrow> double" where
  "QuestRevert_rho_shear DATA eos grid_pt =
     sqrt_d (QuestRevert_pisize grid_pt / QuestRevert_eq_size eos grid_pt)
       / QuestRevert_factor DATA (epsilon grid_pt)"

definition QuestRevert_rho_bulk :: "InitData \<Rightarrow> EOS \<Rightarrow> Cell_small \<Rightarrow> double" where
  "QuestRevert_rho_bulk DATA eos grid_pt =
     (let pi_local = pi_b grid_pt;
          bulksize = Fin 3 * pi_local * pi_local;
          factor_bulk = QuestRevert_factor DATA (epsilon grid_pt)
      in sqrt_d (bulksize / QuestRevert_eq_size eos grid_pt) / factor_bulk)"

text \<open>
  \<^verbatim>\<open>QuestRevert\<close> itself: the cell after the call and the warnings it printed. Both
  ratios are computed from the cell as it enters.
\<close>

definition QuestRevert ::
  "InitData \<Rightarrow> EOS \<Rightarrow> Util \<Rightarrow> double \<Rightarrow> Cell_small \<Rightarrow> int \<Rightarrow> int \<Rightarrow> int
     \<Rightarrow> Cell_small \<times> event list" where
  "QuestRevert DATA eos util tau grid_pt ieta ix iy =
     (let eps_scale = Fin (1 / 10);
          e_local = epsilon grid_pt;
          rho_shear = QuestRevert_rho_shear DATA eos grid_pt;
          rho_bulk = QuestRevert_rho_bulk DATA eos grid_pt;
          rho_shear_max = Fin (1 / 10);
          (grid_pt1, out1) =
            (if isnan rho_shear then
               (grid_pt\<lparr>Wmunu := (\<lambda>mu. if mu < 10 then Fin 0 else Wmunu grid_pt mu)\<rparr>, [])
             else if rho_shear > rho_shear_max then
               (grid_pt\<lparr>Wmunu := (\<lambda>mu. if mu < 10
                                         then (rho_shear_max / rho_shear) * Wmunu grid_pt mu
                                         else Wmunu grid_pt mu)\<rparr>,
                if e_local > eps_scale \<and> echo_level DATA > 5
                then [Shear_warning ieta ix iy (e_local * hbarc util) rho_shear] else [])
             else (grid_pt, []));
          rho_bulk_max = Fin (1 / 10)
      in if rho_bulk > rho_bulk_max then
           (grid_pt1\<lparr>pi_b := (rho_bulk_max / rho_bulk) * pi_b grid_pt1\<rparr>,
            out1 @ (if e_local > eps_scale \<and> echo_level DATA > 5
                    then [Bulk_warning ieta ix iy (e_local * hbarc util) rho_bulk] else []))
         else (grid_pt1, out1))"

section \<open>The necessary causality conditions\<close>

text \<open>
  The locals of \<^verbatim>\<open>nCausalityConstraints\<close>. The unqualified \<^verbatim>\<open>abs\<close> of the source is
  read as the absolute value of a \<^verbatim>\<open>double\<close>.
\<close>

definition transportPart_n13 :: "TransportCoeffs \<Rightarrow> double" where
  "transportPart_n13 tc = Fin 2 * Fin 1 / get_shear_relax_time_factor tc"

definition viscousPart1_n13 :: double where
  "viscousPart1_n13 = get_lambda_piPi_coeff"

definition viscousPart2_n13 :: double where
  "viscousPart2_n13 = (- Fin 1) / Fin 2 * get_tau_pipi_coeff"

definition transportPart_n56 :: "TransportCoeffs \<Rightarrow> double \<Rightarrow> double" where
  "transportPart_n56 tc cs2 =
     cs2 + Fin 4 / Fin 3 * Fin 1 / get_shear_relax_time_factor tc
       + Fin 1 / get_bulk_relax_time_factor tc * (Fin 1 / Fin 3 - cs2) * (Fin 1 / Fin 3 - cs2)"

definition viscousPart1_n56 :: "double \<Rightarrow> double" where
  "viscousPart1_n56 cs2 =
     Fin 2 / Fin 3 * get_lambda_piPi_coeff + get_delta_PiPi_coeff + cs2"

definition viscousPart2_n56 :: "double \<Rightarrow> double" where
  "viscousPart2_n56 cs2 =
     get_delta_pipi_coeff + Fin 1 / Fin 3 * get_tau_pipi_coeff
       + get_lambda_Pipi_coeff * (Fin 1 / Fin 3 - cs2) + cs2"

text \<open>
  The part of each condition that carries the dissipative quantities: it is the
  denominator of the candidate factor in the \<^verbatim>\<open>switch\<close>. The index runs over
  \<^verbatim>\<open>n1, n3, n5, n6\<close> in the order of the vector \<^verbatim>\<open>nCondition\<close>.
\<close>

definition nViscous :: "TransportCoeffs \<Rightarrow> EOS \<Rightarrow> Cell_small \<Rightarrow> nat \<Rightarrow> double" where
  "nViscous tc eos grid_pt i =
     (let eps = epsilon grid_pt;
          cs2 = get_cs2 eos eps (rhob grid_pt);
          P = get_pressure eos eps (rhob grid_pt)
      in if i = 0 then
           viscousPart1_n13 * pi_b grid_pt / (eps + P)
             + viscousPart2_n13 * \<bar>Lambdas grid_pt 0\<bar> / (eps + P)
         else if i = 1 then
           viscousPart1_n13 * pi_b grid_pt / (eps + P)
             + viscousPart2_n13 * Lambdas grid_pt 2 / (eps + P)
         else if i = 2 then
           viscousPart1_n56 cs2 * pi_b grid_pt / (eps + P)
             + viscousPart2_n56 cs2 * Lambdas grid_pt 0 / (eps + P)
         else
           (Fin 1 - viscousPart1_n56 cs2) * pi_b grid_pt / (eps + P)
             + (Fin 1 - viscousPart2_n56 cs2) * Lambdas grid_pt 2 / (eps + P))"

text \<open>The transport part of each condition: the constant term.\<close>

definition nTransport :: "TransportCoeffs \<Rightarrow> EOS \<Rightarrow> Cell_small \<Rightarrow> nat \<Rightarrow> double" where
  "nTransport tc eos grid_pt i =
     (let cs2 = get_cs2 eos (epsilon grid_pt) (rhob grid_pt)
      in if i = 0 then transportPart_n13 tc
         else if i = 1 then transportPart_n13 tc
         else if i = 2 then transportPart_n56 tc cs2
         else Fin 1 - transportPart_n56 tc cs2)"

text \<open>The four condition values \<^verbatim>\<open>n1, n3, n5, n6\<close>, summed as the source sums them.\<close>

definition nCondition :: "TransportCoeffs \<Rightarrow> EOS \<Rightarrow> Cell_small \<Rightarrow> nat \<Rightarrow> double" where
  "nCondition tc eos grid_pt i =
     (let eps = epsilon grid_pt;
          cs2 = get_cs2 eos eps (rhob grid_pt);
          P = get_pressure eos eps (rhob grid_pt)
      in if i = 0 then
           transportPart_n13 tc + viscousPart1_n13 * pi_b grid_pt / (eps + P)
             + viscousPart2_n13 * \<bar>Lambdas grid_pt 0\<bar> / (eps + P)
         else if i = 1 then
           transportPart_n13 tc + viscousPart1_n13 * pi_b grid_pt / (eps + P)
             + viscousPart2_n13 * Lambdas grid_pt 2 / (eps + P)
         else if i = 2 then
           transportPart_n56 tc cs2 + viscousPart1_n56 cs2 * pi_b grid_pt / (eps + P)
             + viscousPart2_n56 cs2 * Lambdas grid_pt 0 / (eps + P)
         else
           (Fin 1 - transportPart_n56 tc cs2)
             + (Fin 1 - viscousPart1_n56 cs2) * pi_b grid_pt / (eps + P)
             + (Fin 1 - viscousPart2_n56 cs2) * Lambdas grid_pt 2 / (eps + P))"

text \<open>The candidate \<^verbatim>\<open>alp\<close> of loop round \<open>i\<close>: 1 unless the condition is negative.\<close>

definition nCandidate :: "TransportCoeffs \<Rightarrow> EOS \<Rightarrow> Cell_small \<Rightarrow> nat \<Rightarrow> double" where
  "nCandidate tc eos grid_pt i =
     (if nCondition tc eos grid_pt i < Fin 0
      then (- nTransport tc eos grid_pt i) / nViscous tc eos grid_pt i
      else Fin 1)"

text \<open>The update of the running minimum at the end of each loop round.\<close>

definition min_step :: "double \<Rightarrow> double \<Rightarrow> double" where
  "min_step minAlp alp =
     (if alp > Fin 0 \<and> alp < minAlp then alp
      else if alp < Fin 0 then Fin 0
      else minAlp)"

definition nCausality_minAlp :: "TransportCoeffs \<Rightarrow> EOS \<Rightarrow> Cell_small \<Rightarrow> double" where
  "nCausality_minAlp tc eos grid_pt =
     foldl min_step (Fin 1) (map (nCandidate tc eos grid_pt) [0, 1, 2, 3])"

text \<open>The uniform rescaling of the dissipative quantities, shared by both methods.\<close>

definition rescale :: "double \<Rightarrow> Cell_small \<Rightarrow> Cell_small" where
  "rescale factor grid_pt =
     grid_pt\<lparr>pi_b := pi_b grid_pt * factor,
             Wmunu := (\<lambda>i. Wmunu grid_pt i * factor),
             Lambdas := (\<lambda>i. Lambdas grid_pt i * factor)\<rparr>"

definition nCausalityConstraints ::
  "TransportCoeffs \<Rightarrow> EOS \<Rightarrow> Cell_small \<Rightarrow> double \<Rightarrow> Cell_small \<times> event list" where
  "nCausalityConstraints tc eos grid_pt tau =
     (let eps = epsilon grid_pt;
          minAlp = nCausality_minAlp tc eos grid_pt
      in (rescale minAlp grid_pt,
          if eps > Fin (1 / 100)
          then [File_record ''necessary_causality_reduction_factor_wtau.dat'' minAlp eps tau]
          else []))"

section \<open>The sufficient causality conditions\<close>

text \<open>
  \<^verbatim>\<open>BinarySearch\<close>: the bracket, the function, and the current content of the reference
  parameter \<^verbatim>\<open>result\<close>. It yields the returned flag, the final \<^verbatim>\<open>result\<close> and what it
  printed. The loop need not end for every bracket (an infinite bound never shrinks), so
  the function is partial: \<open>None\<close> stands for a loop that runs forever.
\<close>

partial_function (option) BinarySearch ::
  "double \<Rightarrow> double \<Rightarrow> (double \<Rightarrow> double) \<Rightarrow> double \<Rightarrow> (bool \<times> double \<times> event list) option" where
  "BinarySearch left right func result =
     (if right - left > Fin (1 / 10000) then
        (if right < left then
           Some (False, result,
                 [Stdout ''Upper beta bound is smaller than the lower beta bound''])
         else if func right * func left > Fin 0 then Some (False, result, [])
         else if func ((left + right) / Fin 2) < Fin 0
              then BinarySearch left ((left + right) / Fin 2) func ((left + right) / Fin 2)
              else BinarySearch ((left + right) / Fin 2) right func ((left + right) / Fin 2))
      else Some (True, result, []))"

declare BinarySearch.simps [code]

definition Suff5 :: "TransportCoeffs \<Rightarrow> EOS \<Rightarrow> double \<Rightarrow> Cell_small \<Rightarrow> double" where
  "Suff5 tc eos beta grid_pt =
     (let eps = epsilon grid_pt;
          rhob = rhob grid_pt;
          cs2 = get_cs2 eos eps rhob;
          P = get_pressure eos eps rhob;
          L1 = Lambdas grid_pt 0 / (eps + P);
          L3 = Lambdas grid_pt 2 / (eps + P);
          Pi = pi_b grid_pt / (eps + P);
          s_relax = Fin 1 / get_shear_relax_time_factor tc;
          b_relax = Fin 1 / get_bulk_relax_time_factor tc
                      * (Fin 1 / Fin 3 - cs2) * (Fin 1 / Fin 3 - cs2);
          lam_piPi = get_lambda_piPi_coeff;
          tau_pipi = get_tau_pipi_coeff;
          del_PiPi = get_delta_PiPi_coeff;
          del_pipi = get_delta_pipi_coeff;
          lam_Pipi = get_lambda_Pipi_coeff
      in Fin 1 - cs2 - Fin 4 / Fin 3 * s_relax - b_relax
         - beta * ((cs2 - Fin 1 + Fin 2 / Fin 3 * lam_piPi + del_PiPi) * Pi
                   + (del_pipi + Fin 1 / Fin 3 * tau_pipi + lam_Pipi + cs2) * L3 + \<bar>L1\<bar>)
         - beta * beta * (del_pipi - Fin 1 / Fin 12 * tau_pipi)
             * (lam_Pipi + cs2 - Fin 1 / Fin 12 * tau_pipi) * (L3 + \<bar>L1\<bar>) * (L3 + \<bar>L1\<bar>)
             / (Fin 1 - s_relax
                + beta * ((Fin 1 - Fin 1 / Fin 2 * lam_piPi) * Pi - \<bar>L1\<bar>
                          - Fin 1 / Fin 2 * tau_pipi * L3)))"

definition Suff7 :: "TransportCoeffs \<Rightarrow> EOS \<Rightarrow> double \<Rightarrow> Cell_small \<Rightarrow> double" where
  "Suff7 tc eos beta grid_pt =
     (let eps = epsilon grid_pt;
          rhob = rhob grid_pt;
          cs2 = get_cs2 eos eps rhob;
          P = get_pressure eos eps rhob;
          L1 = Lambdas grid_pt 0 / (eps + P);
          L3 = Lambdas grid_pt 2 / (eps + P);
          Pi = pi_b grid_pt / (eps + P);
          s_relax = Fin 1 / get_shear_relax_time_factor tc;
          lam_piPi = get_lambda_piPi_coeff;
          tau_pipi = get_tau_pipi_coeff;
          del_pipi = get_delta_pipi_coeff;
          lam_Pipi = get_lambda_Pipi_coeff
      in (s_relax + beta * (Fin 1 / Fin 2 * lam_piPi * Pi - Fin 1 / Fin 2 * tau_pipi * \<bar>L1\<bar>))
           * (s_relax + beta * (Fin 1 / Fin 2 * lam_piPi * Pi - Fin 1 / Fin 2 * tau_pipi * \<bar>L1\<bar>))
         - beta * beta * (del_pipi - Fin 1 / Fin 12 * tau_pipi)
             * (lam_Pipi + cs2 - Fin 1 / Fin 12 * tau_pipi) * (L3 + \<bar>L1\<bar>) * (L3 + \<bar>L1\<bar>))"

definition Suff8 :: "TransportCoeffs \<Rightarrow> EOS \<Rightarrow> double \<Rightarrow> Cell_small \<Rightarrow> double" where
  "Suff8 tc eos beta grid_pt =
     (let eps = epsilon grid_pt;
          rhob = rhob grid_pt;
          cs2 = get_cs2 eos eps rhob;
          P = get_pressure eos eps rhob;
          L1 = Lambdas grid_pt 0 / (eps + P);
          L2 = Lambdas grid_pt 1 / (eps + P);
          L3 = Lambdas grid_pt 2 / (eps + P);
          Pi = pi_b grid_pt / (eps + P);
          s_relax = Fin 1 / get_shear_relax_time_factor tc;
          b_relax = Fin 1 / get_bulk_relax_time_factor tc
                      * (Fin 1 / Fin 3 - cs2) * (Fin 1 / Fin 3 - cs2);
          lam_piPi = get_lambda_piPi_coeff;
          tau_pipi = get_tau_pipi_coeff;
          del_PiPi = get_delta_PiPi_coeff;
          del_pipi = get_delta_pipi_coeff;
          lam_Pipi = get_lambda_Pipi_coeff
      in Fin 4 / Fin 3 * s_relax + b_relax + cs2
         + beta * ((Fin 2 / Fin 3 * lam_piPi + del_PiPi + cs2) * Pi
                   - (del_pipi + Fin 1 / Fin 3 * tau_pipi - lam_Pipi + cs2) * \<bar>L1\<bar>)
         - (Fin 1 + beta * (Pi + L2)) * (Fin 1 + beta * (Pi + L3)) / Fin 3
             / (Fin 1 + beta * (Pi - \<bar>L1\<bar>)) / (Fin 1 + beta * (Pi - \<bar>L1\<bar>))
             * (Fin 1 + Fin 2 * s_relax
                + beta * ((Fin 1 + lam_piPi) * Pi - \<bar>Pi\<bar> + tau_pipi * L3)))"

text \<open>
  The three closed-form conditions \<^verbatim>\<open>s1, s2, s6\<close> of \<^verbatim>\<open>sCausalityConstraints\<close> and
  the candidate \<^verbatim>\<open>beta\<close> of each loop round.
\<close>

definition sCondition :: "TransportCoeffs \<Rightarrow> EOS \<Rightarrow> Cell_small \<Rightarrow> nat \<Rightarrow> double" where
  "sCondition tc eos grid_pt i =
     (let eps = epsilon grid_pt;
          rhob = rhob grid_pt;
          cs2 = get_cs2 eos eps rhob;
          P = get_pressure eos eps rhob;
          L1 = Lambdas grid_pt 0 / (eps + P);
          L3 = Lambdas grid_pt 2 / (eps + P);
          Pi = pi_b grid_pt / (eps + P);
          s_relax = Fin 1 / get_shear_relax_time_factor tc;
          b_relax = Fin 1 / get_bulk_relax_time_factor tc
                      * (Fin 1 / Fin 3 - cs2) * (Fin 1 / Fin 3 - cs2);
          lam_piPi = get_lambda_piPi_coeff;
          tau_pipi = get_tau_pipi_coeff;
          del_PiPi = get_delta_PiPi_coeff;
          del_pipi = get_delta_pipi_coeff;
          lam_Pipi = get_lambda_Pipi_coeff
      in if i = 0 then
           Fin 1 - s_relax - L1 + (Fin 1 - Fin 1 / Fin 2 * lam_piPi) * Pi
             - Fin 1 / Fin 2 * tau_pipi * L3
         else if i = 1 then
           Fin 2 * s_relax + lam_piPi * Pi - tau_pipi * \<bar>L1\<bar>
         else
           Fin 1 / Fin 3 * s_relax + b_relax + cs2
             + (Fin 1 / Fin 6 * lam_piPi + del_PiPi + cs2) * Pi
             + (Fin 1 / Fin 6 * tau_pipi - del_pipi + lam_Pipi - cs2) * \<bar>L1\<bar>)"

definition sCandidate :: "TransportCoeffs \<Rightarrow> EOS \<Rightarrow> Cell_small \<Rightarrow> nat \<Rightarrow> double" where
  "sCandidate tc eos grid_pt i =
     (let eps = epsilon grid_pt;
          rhob = rhob grid_pt;
          cs2 = get_cs2 eos eps rhob;
          P = get_pressure eos eps rhob;
          L1 = Lambdas grid_pt 0 / (eps + P);
          L3 = Lambdas grid_pt 2 / (eps + P);
          Pi = pi_b grid_pt / (eps + P);
          s_relax = Fin 1 / get_shear_relax_time_factor tc;
          b_relax = Fin 1 / get_bulk_relax_time_factor tc
                      * (Fin 1 / Fin 3 - cs2) * (Fin 1 / Fin 3 - cs2);
          lam_piPi = get_lambda_piPi_coeff;
          tau_pipi = get_tau_pipi_coeff;
          del_PiPi = get_delta_PiPi_coeff;
          del_pipi = get_delta_pipi_coeff;
          lam_Pipi = get_lambda_Pipi_coeff
      in if sCondition tc eos grid_pt i < Fin 0 then
           (if i = 0 then
              (s_relax - Fin 1)
                / (- \<bar>L1\<bar> + (Fin 1 - Fin 1 / Fin 2 * lam_piPi) * Pi
                   - Fin 1 / Fin 2 * tau_pipi * L3)
            else if i = 1 then
              ((- Fin 2) * s_relax) / (lam_piPi * Pi - tau_pipi * \<bar>L1\<bar>)
            else
              (- (Fin 1 / Fin 3 * s_relax + b_relax + cs2))
                / ((Fin 1 / Fin 6 * lam_piPi + del_PiPi + cs2) * Pi
                   + (Fin 1 / Fin 6 * tau_pipi - del_pipi + lam_Pipi - cs2) * \<bar>L1\<bar>))
         else Fin 1)"

definition sCausality_minBeta :: "TransportCoeffs \<Rightarrow> EOS \<Rightarrow> Cell_small \<Rightarrow> double" where
  "sCausality_minBeta tc eos grid_pt =
     foldl min_step (Fin 1) (map (sCandidate tc eos grid_pt) [0, 1, 2])"

text \<open>
  What each of the three blocks does with the flag and the result of its bisection: the
  new \<^verbatim>\<open>minBeta\<close> and what is printed.
\<close>

definition Suff5_status :: "double \<Rightarrow> double \<Rightarrow> bool \<Rightarrow> double \<Rightarrow> double \<times> event list" where
  "Suff5_status cs2 minBeta status result =
     (if status then (result, [])
      else if cs2 < Fin (15 / 100) then (Fin 0, [])
      else (minBeta, [Stdout ''Suff5 Fails Binary Search'']))"

definition Suff7_status :: "double \<Rightarrow> bool \<Rightarrow> double \<Rightarrow> double \<times> event list" where
  "Suff7_status minBeta status result =
     (if status then (result, [])
      else (minBeta, [Stdout ''Suff7 Fails Binary Search'']))"

definition Suff8_status :: "double \<Rightarrow> bool \<Rightarrow> double \<Rightarrow> double \<times> event list" where
  "Suff8_status minBeta status result =
     (if status then (result, [])
      else (minBeta, [Stdout ''Suff8 Fails Binary Search'']))"

text \<open>
  The three blocks. Each takes the current \<^verbatim>\<open>minBeta\<close> and yields the new one with the
  lines printed in the block: those of \<^verbatim>\<open>BinarySearch\<close>, then its own.
\<close>

definition Suff5_block ::
  "TransportCoeffs \<Rightarrow> EOS \<Rightarrow> Cell_small \<Rightarrow> double \<Rightarrow> (double \<times> event list) option" where
  "Suff5_block tc eos grid_pt minBeta =
     (if Suff5 tc eos minBeta grid_pt < Fin 0 then
        (case BinarySearch (Fin 0) minBeta (\<lambda>beta. Suff5 tc eos beta grid_pt) (Fin 0) of
           None \<Rightarrow> None
         | Some (status, result, out) \<Rightarrow>
             (case Suff5_status (get_cs2 eos (epsilon grid_pt) (rhob grid_pt))
                     minBeta status result of
                (minBeta', out') \<Rightarrow> Some (minBeta', out @ out')))
      else Some (minBeta, []))"

definition Suff7_block ::
  "TransportCoeffs \<Rightarrow> EOS \<Rightarrow> Cell_small \<Rightarrow> double \<Rightarrow> (double \<times> event list) option" where
  "Suff7_block tc eos grid_pt minBeta =
     (if Suff7 tc eos minBeta grid_pt < Fin 0 then
        (case BinarySearch (Fin 0) minBeta (\<lambda>beta. Suff7 tc eos beta grid_pt) (Fin 0) of
           None \<Rightarrow> None
         | Some (status, result, out) \<Rightarrow>
             (case Suff7_status minBeta status result of
                (minBeta', out') \<Rightarrow> Some (minBeta', out @ out')))
      else Some (minBeta, []))"

definition Suff8_block ::
  "TransportCoeffs \<Rightarrow> EOS \<Rightarrow> Cell_small \<Rightarrow> double \<Rightarrow> (double \<times> event list) option" where
  "Suff8_block tc eos grid_pt minBeta =
     (if Suff8 tc eos minBeta grid_pt < Fin 0 then
        (case BinarySearch (Fin 0) minBeta (\<lambda>beta. Suff8 tc eos beta grid_pt) (Fin 0) of
           None \<Rightarrow> None
         | Some (status, result, out) \<Rightarrow>
             (case Suff8_status minBeta status result of
                (minBeta', out') \<Rightarrow> Some (minBeta', out @ out')))
      else Some (minBeta, []))"

definition sCausalityConstraints ::
  "TransportCoeffs \<Rightarrow> EOS \<Rightarrow> Cell_small \<Rightarrow> double \<Rightarrow> (Cell_small \<times> event list) option" where
  "sCausalityConstraints tc eos grid_pt tau =
     (case Suff5_block tc eos grid_pt (sCausality_minBeta tc eos grid_pt) of
        None \<Rightarrow> None
      | Some (minBeta5, out5) \<Rightarrow>
          (case Suff7_block tc eos grid_pt minBeta5 of
             None \<Rightarrow> None
           | Some (minBeta7, out7) \<Rightarrow>
               (case Suff8_block tc eos grid_pt minBeta7 of
                  None \<Rightarrow> None
                | Some (minBeta, out8) \<Rightarrow>
                    Some (rescale minBeta grid_pt,
                          out5 @ out7 @ out8
                            @ (if epsilon grid_pt > Fin (1 / 100)
                               then [File_record
                                       ''sufficient_causality_reduction_factor_wtau.dat''
                                       minBeta (epsilon grid_pt) tau]
                               else [])))))"

section \<open>QuestRevert\_qmu\<close>

definition QuestRevert_qmu ::
  "InitData \<Rightarrow> Util \<Rightarrow> double \<Rightarrow> Cell_small \<Rightarrow> int \<Rightarrow> int \<Rightarrow> int
     \<Rightarrow> Cell_small \<times> event list" where
  "QuestRevert_qmu DATA util tau grid_pt ieta ix iy =
     (let eps_scale = Fin (1 / 10);
          factor = QuestRevert_factor DATA (epsilon grid_pt);
          q_mu_local = (\<lambda>i. Wmunu grid_pt (10 + i));
          q_size = foldl (\<lambda>q i. q + (if i = 0 then Fin (- 1) else Fin 1)
                                       * q_mu_local i * q_mu_local i)
                     (Fin 0) [0, 1, 2, 3];
          (W1, out1) =
            (if q_size < Fin 0 then
               (foldl (\<lambda>W i. W(map_2d_idx_to_1d util 4 i := Fin 0)) (Wmunu grid_pt)
                  [0, 1, 2, 3],
                [Qmu_negative_warning q_size, Qmu_reset_warning])
             else (Wmunu grid_pt, []));
          e_local = epsilon grid_pt;
          rhob_local = rhob grid_pt;
          rho_q = sqrt_d (q_size / (rhob_local * rhob_local)) / factor;
          rho_q_max = Fin (1 / 10)
      in if rho_q > rho_q_max then
           (grid_pt\<lparr>Wmunu := (\<lambda>j. if 10 \<le> j \<and> j < 14
                                    then (rho_q_max / rho_q) * q_mu_local (j - 10)
                                    else W1 j)\<rparr>,
            out1 @ (if e_local > eps_scale \<and> echo_level DATA > 5
                    then [Qmu_warning ieta ix iy (e_local * hbarc util) rhob_local rho_q]
                    else []))
         else (grid_pt\<lparr>Wmunu := W1\<rparr>, out1))"

section \<open>The ideal update of one cell\<close>

text \<open>The ways the code ends the process, named after the message printed before \<^verbatim>\<open>exit\<close>.\<close>

datatype fatal =
    Qi_source_is_nan nat
  | MaxSpeed_exiting
  | SpeedMax_is_negative
  | SpeedMax_is_smaller_than_v
  | SpeedMax_is_bigger_than_1

text \<open>
  \<^verbatim>\<open>get_TJb\<close> for a grid cell. Its assertions (\<open>mu < 5\<close>, \<open>nu < 4\<close>) hold at every call
  modelled here.
\<close>

definition get_TJb :: "EOS \<Rightarrow> Cell_small \<Rightarrow> nat \<Rightarrow> nat \<Rightarrow> double" where
  "get_TJb eos grid_p mu nu =
     (let rhob = rhob grid_p;
          u_nu = u grid_p nu
      in if mu = 4 then rhob * u_nu
         else
           (let e = epsilon grid_p;
                gfac = (if mu = nu then (if mu = 0 then Fin (- 1) else Fin 1) else Fin 0);
                u_mu = (if mu = nu then u_nu else u grid_p mu);
                pressure = get_pressure eos e rhob;
                T_munu = (e + pressure) * u_mu * u_nu + pressure * gfac
            in T_munu))"

text \<open>
  The collaborators of \<^verbatim>\<open>FirstRKStepT\<close>, for the cell at hand: the source terms, the flux
  update \<^verbatim>\<open>MakeDeltaQI\<close> (it runs over the neighbours of the cell through the grid and
  the reconstruction, and can end the process in \<^verbatim>\<open>MaxSpeed\<close>), the dissipative
  source \<^verbatim>\<open>MakeWSource\<close> and the reconstruction \<^verbatim>\<open>ReconstIt_shell\<close>.
\<close>

record IdealCollaborators =
  flag_add_hydro_source :: bool
  get_hydro_energy_source ::
    "double \<Rightarrow> double \<Rightarrow> double \<Rightarrow> double \<Rightarrow> (nat \<Rightarrow> double) \<Rightarrow> nat \<Rightarrow> double"
  get_hydro_rhob_source ::
    "double \<Rightarrow> double \<Rightarrow> double \<Rightarrow> double \<Rightarrow> (nat \<Rightarrow> double) \<Rightarrow> double"
  MakeDeltaQI :: "double \<Rightarrow> int \<Rightarrow> fatal + (nat \<Rightarrow> double)"
  MakeWSource :: "double \<Rightarrow> nat \<Rightarrow> double"
  ReconstIt_shell :: "double \<Rightarrow> (nat \<Rightarrow> double) \<Rightarrow> Cell_small \<Rightarrow> ReconstCell"

text \<open>The loop over the four energy-momentum sources, which leaves at the first
  not-a-number.\<close>

fun qi_source_loop ::
  "double \<Rightarrow> (nat \<Rightarrow> double) \<Rightarrow> nat list \<Rightarrow> (nat \<Rightarrow> double) \<Rightarrow> fatal + (nat \<Rightarrow> double)" where
  "qi_source_loop tau_rk j_mu [] qi_source = Inr qi_source"
| "qi_source_loop tau_rk j_mu (ii # rest) qi_source =
     (if isnan (tau_rk * j_mu ii) then Inl (Qi_source_is_nan ii)
      else qi_source_loop tau_rk j_mu rest (qi_source(ii := tau_rk * j_mu ii)))"

text \<open>The vector \<^verbatim>\<open>qi_source\<close> after the block guarded by \<^verbatim>\<open>flag_add_hydro_source\<close>.\<close>

definition FirstRKStepT_source ::
  "InitData \<Rightarrow> IdealCollaborators \<Rightarrow> double \<Rightarrow> double \<Rightarrow> double \<Rightarrow> double
     \<Rightarrow> Cell_small \<Rightarrow> fatal + (nat \<Rightarrow> double)" where
  "FirstRKStepT_source DATA co tau_rk x_local y_local eta_s_local cell_current =
     (if flag_add_hydro_source co then
        (let u_local = u cell_current;
             j_mu = get_hydro_energy_source co tau_rk x_local y_local eta_s_local u_local
         in case qi_source_loop tau_rk j_mu [0, 1, 2, 3] (\<lambda>i. Fin 0) of
              Inl stop \<Rightarrow> Inl stop
            | Inr qi_source \<Rightarrow>
                Inr (if turn_on_rhob DATA = 1
                     then qi_source(4 := tau_rk * get_hydro_rhob_source co tau_rk x_local
                                                    y_local eta_s_local u_local)
                     else qi_source))
      else Inr (\<lambda>i. Fin 0))"

text \<open>
  The conserved vector before the sub-step weighting (the flux update, minus the
  dissipative source, plus the external source), and after it.
\<close>

definition FirstRKStepT_raw ::
  "InitData \<Rightarrow> (nat \<Rightarrow> double) \<Rightarrow> (nat \<Rightarrow> double) \<Rightarrow> (nat \<Rightarrow> double) \<Rightarrow> nat \<Rightarrow> double" where
  "FirstRKStepT_raw DATA qi dwmn qi_source alpha =
     qi alpha - dwmn alpha * delta_tau DATA + qi_source alpha * delta_tau DATA"

definition FirstRKStepT_qi ::
  "InitData \<Rightarrow> EOS \<Rightarrow> IdealCollaborators \<Rightarrow> double \<Rightarrow> double \<Rightarrow> double \<Rightarrow> double
     \<Rightarrow> Cell_small \<Rightarrow> Cell_small \<Rightarrow> int \<Rightarrow> fatal + (nat \<Rightarrow> double)" where
  "FirstRKStepT_qi DATA eos co tau x_local y_local eta_s_local cell_current cell_prev rk_flag =
     (let tau_rk = tau + of_int_d rk_flag * delta_tau DATA
      in case MakeDeltaQI co tau_rk rk_flag of
           Inl stop \<Rightarrow> Inl stop
         | Inr qi \<Rightarrow>
             (case FirstRKStepT_source DATA co tau_rk x_local y_local eta_s_local
                     cell_current of
                Inl stop \<Rightarrow> Inl stop
              | Inr qi_source \<Rightarrow>
                  (let dwmn = MakeWSource co tau_rk
                   in Inr (\<lambda>alpha.
                        if alpha < 5 then
                          (FirstRKStepT_raw DATA qi dwmn qi_source alpha
                             + of_int_d rk_flag * get_TJb eos cell_prev alpha 0 * tau)
                            * (Fin 1 / (Fin 1 + of_int_d rk_flag))
                        else qi alpha))))"

definition UpdateTJbRK :: "ReconstCell \<Rightarrow> Cell_small \<Rightarrow> Cell_small" where
  "UpdateTJbRK grid_rk grid_pt =
     grid_pt\<lparr>epsilon := e grid_rk, rhob := ReconstCell.rhob grid_rk,
             u := ReconstCell.u grid_rk\<rparr>"

text \<open>\<^verbatim>\<open>FirstRKStepT\<close>: the future cell, unless the process ended.\<close>

definition FirstRKStepT ::
  "InitData \<Rightarrow> EOS \<Rightarrow> IdealCollaborators \<Rightarrow> double \<Rightarrow> double \<Rightarrow> double \<Rightarrow> double
     \<Rightarrow> Cell_small \<Rightarrow> Cell_small \<Rightarrow> Cell_small \<Rightarrow> int \<Rightarrow> fatal + Cell_small" where
  "FirstRKStepT DATA eos co tau x_local y_local eta_s_local cell_current cell_future
       cell_prev rk_flag =
     (case FirstRKStepT_qi DATA eos co tau x_local y_local eta_s_local cell_current
             cell_prev rk_flag of
        Inl stop \<Rightarrow> Inl stop
      | Inr qi \<Rightarrow>
          (let tau_next = tau + delta_tau DATA;
               grid_rk_t = ReconstIt_shell co tau_next qi cell_current
           in Inr (UpdateTJbRK grid_rk_t cell_future)))"

section \<open>The maximum signal speed\<close>

text \<open>The numerator \<^verbatim>\<open>num\<close> of \<^verbatim>\<open>MaxSpeed\<close>, with the exit of its inner branch.\<close>

definition MaxSpeed_num :: "EOS \<Rightarrow> nat \<Rightarrow> ReconstCell \<Rightarrow> fatal + double" where
  "MaxSpeed_num eos direc grid_p =
     (let utau = ReconstCell.u grid_p 0;
          utau2 = utau * utau;
          ux = \<bar>ReconstCell.u grid_p direc\<bar>;
          ut2mux2 = utau2 - ux * ux;
          eps = e grid_p;
          rhob = ReconstCell.rhob grid_p;
          vs2 = get_cs2 eos eps rhob;
          num_temp_sqrt = (ut2mux2 - (ut2mux2 - Fin 1) * vs2) * vs2
      in if Fin 0 \<le> num_temp_sqrt then
           Inr (utau * ux * (Fin 1 - vs2) + sqrt_d num_temp_sqrt)
         else
           (let dpde = get_dpde eos eps rhob;
                p = get_pressure eos eps rhob;
                h = p + eps
            in if dpde < Fin (1 / 1000) then
                 Inr (sqrt_d (- (h * dpde * h * (dpde * (Fin (- 1) + ut2mux2) - ut2mux2)))
                      - h * (Fin (- 1) + dpde) * utau * ux)
               else Inl MaxSpeed_exiting))"

text \<open>The quotient \<^verbatim>\<open>f = num/std::max(den, Util::small_eps)\<close>.\<close>

definition MaxSpeed_quotient :: "EOS \<Rightarrow> Util \<Rightarrow> nat \<Rightarrow> ReconstCell \<Rightarrow> double \<Rightarrow> double" where
  "MaxSpeed_quotient eos util direc grid_p num =
     (let utau = ReconstCell.u grid_p 0;
          utau2 = utau * utau;
          vs2 = get_cs2 eos (e grid_p) (ReconstCell.rhob grid_p);
          den = utau2 * (Fin 1 - vs2) + vs2
      in num / std_max den (small_eps util))"

text \<open>
  The checks on \<^verbatim>\<open>f\<close> (``check for problems''): the value of \<^verbatim>\<open>f\<close> when the chain is
  left, or the exit taken. The assignment \<^verbatim>\<open>f = 1.\<close> before the last exit has no effect
  that survives the process.
\<close>

definition MaxSpeed_check :: "double \<Rightarrow> double \<Rightarrow> double \<Rightarrow> double \<Rightarrow> fatal + double" where
  "MaxSpeed_check num f ux utau =
     (if f < Fin 0 then Inl SpeedMax_is_negative
      else if f < ux / utau then
        (if \<not> eq_d num (Fin 0) then
           (if \<bar>f - ux / utau\<bar> < Fin (1 / 10000) then Inr (ux / utau)
            else Inl SpeedMax_is_smaller_than_v)
         else Inr f)
      else if f > Fin 1 then Inl SpeedMax_is_bigger_than_1
      else Inr f)"

text \<open>The speed before the geometric factor \<^verbatim>\<open>g[direc-1]\<close> is applied.\<close>

definition MaxSpeed_f :: "EOS \<Rightarrow> Util \<Rightarrow> nat \<Rightarrow> ReconstCell \<Rightarrow> fatal + double" where
  "MaxSpeed_f eos util direc grid_p =
     (case MaxSpeed_num eos direc grid_p of
        Inl stop \<Rightarrow> Inl stop
      | Inr num \<Rightarrow>
          MaxSpeed_check num (MaxSpeed_quotient eos util direc grid_p num)
            \<bar>ReconstCell.u grid_p direc\<bar> (ReconstCell.u grid_p 0))"

text \<open>\<^verbatim>\<open>MaxSpeed\<close>, for a direction 1, 2 or 3.\<close>

definition MaxSpeed :: "EOS \<Rightarrow> Util \<Rightarrow> double \<Rightarrow> nat \<Rightarrow> ReconstCell \<Rightarrow> fatal + double" where
  "MaxSpeed eos util tau direc grid_p =
     (let g = (\<lambda>i::nat. if i = 2 then Fin 1 / tau else Fin 1)
      in case MaxSpeed_f eos util direc grid_p of
           Inl stop \<Rightarrow> Inl stop
         | Inr f \<Rightarrow> Inr (f * g (direc - 1)))"

section \<open>The dissipative update of one cell\<close>

text \<open>
  The collaborators of \<^verbatim>\<open>FirstRKStepW\<close>, for the cell at hand and its kinematic
  gradients: the flux terms and the sources of the dissipative helper, and the real parts
  of the eigenvalues that the eigenvalue solver returns for a 4 by 4 matrix.
\<close>

record DissCollaborators =
  Make_uWRHS :: "double \<Rightarrow> nat \<Rightarrow> nat \<Rightarrow> double"
  Make_uWSource :: "double \<Rightarrow> Cell_small \<Rightarrow> Cell_small \<Rightarrow> nat \<Rightarrow> nat \<Rightarrow> int \<Rightarrow> double"
  Make_uPRHS :: "double \<Rightarrow> double"
  Make_uPiSource :: "double \<Rightarrow> Cell_small \<Rightarrow> Cell_small \<Rightarrow> int \<Rightarrow> double"
  Make_uqRHS :: "double \<Rightarrow> nat \<Rightarrow> nat \<Rightarrow> double"
  Make_uqSource :: "double \<Rightarrow> Cell_small \<Rightarrow> Cell_small \<Rightarrow> nat \<Rightarrow> int \<Rightarrow> double"
  eigenvalues_real :: "(nat \<Rightarrow> nat \<Rightarrow> double) \<Rightarrow> nat \<Rightarrow> double"

text \<open>
  The value written to \<^verbatim>\<open>grid_pt_f->Wmunu[idx_1d]\<close> in the shear loop, to
  \<^verbatim>\<open>grid_pt_f->pi_b\<close> in the bulk block, and to \<^verbatim>\<open>grid_pt_f->Wmunu[idx_1d]\<close> in the
  diffusion loop. The three cells are distinct objects.
\<close>

definition shear_update ::
  "InitData \<Rightarrow> Util \<Rightarrow> DissCollaborators \<Rightarrow> double \<Rightarrow> int
     \<Rightarrow> Cell_small \<Rightarrow> Cell_small \<Rightarrow> Cell_small \<Rightarrow> nat \<Rightarrow> double" where
  "shear_update DATA util diss tau_now rk_flag grid_pt_prev grid_pt_c grid_pt_f idx_1d =
     (let (mu, nu) = map_1d_idx_to_2d util idx_1d;
          w_rhs = Make_uWRHS diss tau_now mu nu;
          tempf0 = (Fin 1 - of_int_d rk_flag) * (Wmunu grid_pt_c idx_1d * u grid_pt_c 0)
                   + of_int_d rk_flag * (Wmunu grid_pt_prev idx_1d * u grid_pt_prev 0);
          temps = Make_uWSource diss tau_now grid_pt_c grid_pt_prev mu nu rk_flag;
          tempf1 = tempf0 + temps * delta_tau DATA;
          tempf2 = tempf1 + w_rhs;
          tempf3 = tempf2 + of_int_d rk_flag * (Wmunu grid_pt_c idx_1d * u grid_pt_c 0);
          tempf4 = tempf3 * (Fin 1 / (Fin 1 + of_int_d rk_flag))
      in tempf4 / u grid_pt_f 0)"

definition bulk_update ::
  "InitData \<Rightarrow> DissCollaborators \<Rightarrow> double \<Rightarrow> int
     \<Rightarrow> Cell_small \<Rightarrow> Cell_small \<Rightarrow> Cell_small \<Rightarrow> double" where
  "bulk_update DATA diss tau_now rk_flag grid_pt_prev grid_pt_c grid_pt_f =
     (let p_rhs = Make_uPRHS diss tau_now;
          tempf0 = (Fin 1 - of_int_d rk_flag) * (pi_b grid_pt_c * u grid_pt_c 0)
                   + of_int_d rk_flag * (pi_b grid_pt_prev * u grid_pt_prev 0);
          temps = Make_uPiSource diss tau_now grid_pt_c grid_pt_prev rk_flag;
          tempf1 = tempf0 + temps * delta_tau DATA;
          tempf2 = tempf1 + p_rhs;
          tempf3 = tempf2 + of_int_d rk_flag * (pi_b grid_pt_c * u grid_pt_c 0);
          tempf4 = tempf3 * (Fin 1 / (Fin 1 + of_int_d rk_flag))
      in tempf4 / u grid_pt_f 0)"

definition diff_update ::
  "InitData \<Rightarrow> DissCollaborators \<Rightarrow> double \<Rightarrow> int
     \<Rightarrow> Cell_small \<Rightarrow> Cell_small \<Rightarrow> Cell_small \<Rightarrow> nat \<Rightarrow> double" where
  "diff_update DATA diss tau_now rk_flag grid_pt_prev grid_pt_c grid_pt_f idx_1d =
     (let mu = 4;
          nu = idx_1d - 10;
          w_rhs = Make_uqRHS diss tau_now mu nu;
          tempf0 = (Fin 1 - of_int_d rk_flag) * (Wmunu grid_pt_c idx_1d * u grid_pt_c 0)
                   + of_int_d rk_flag * (Wmunu grid_pt_prev idx_1d * u grid_pt_prev 0);
          temps = Make_uqSource diss tau_now grid_pt_c grid_pt_prev nu rk_flag;
          tempf1 = tempf0 + temps * delta_tau DATA;
          tempf2 = tempf1 + w_rhs;
          tempf3 = tempf2 + of_int_d rk_flag * (Wmunu grid_pt_c idx_1d * u grid_pt_c 0);
          tempf4 = tempf3 * (Fin 1 / (Fin 1 + of_int_d rk_flag))
      in tempf4 / u grid_pt_f 0)"

text \<open>
  The future cell after the three evolution blocks: shear components 4 to 8, the bulk
  pressure, and the diffusion components 11 to 13 (10 to 13 are zeroed when diffusion is
  off).
\<close>

definition FirstRKStepW_evolve ::
  "InitData \<Rightarrow> Util \<Rightarrow> DissCollaborators \<Rightarrow> double \<Rightarrow> int
     \<Rightarrow> Cell_small \<Rightarrow> Cell_small \<Rightarrow> Cell_small \<Rightarrow> Cell_small" where
  "FirstRKStepW_evolve DATA util diss tau_now rk_flag grid_pt_prev grid_pt_c grid_pt_f =
     (let W1 = (\<lambda>idx_1d.
                  if 4 \<le> idx_1d \<and> idx_1d < 9 then
                    (if turn_on_shear DATA = 1
                     then shear_update DATA util diss tau_now rk_flag grid_pt_prev grid_pt_c
                            grid_pt_f idx_1d
                     else Fin 0)
                  else Wmunu grid_pt_f idx_1d);
          pi_b1 = (if turn_on_bulk DATA = 1
                   then bulk_update DATA diss tau_now rk_flag grid_pt_prev grid_pt_c grid_pt_f
                   else Fin 0);
          W2 = (\<lambda>idx_1d.
                  if turn_on_diff DATA = 1 then
                    (if 11 \<le> idx_1d \<and> idx_1d < 14
                     then diff_update DATA diss tau_now rk_flag grid_pt_prev grid_pt_c
                            grid_pt_f idx_1d
                     else W1 idx_1d)
                  else (if 10 \<le> idx_1d \<and> idx_1d < 14 then Fin 0 else W1 idx_1d))
      in grid_pt_f\<lparr>Wmunu := W2, pi_b := pi_b1\<rparr>)"

text \<open>
  The components derived from the evolved ones: \<^verbatim>\<open>Wmunu[9]\<close> from tracelessness, then
  \<^verbatim>\<open>Wmunu[1..3]\<close> and \<^verbatim>\<open>Wmunu[0]\<close> from transversality, each loop round reading the
  array as the rounds before left it.
\<close>

definition make_W33 :: "Cell_small \<Rightarrow> Cell_small" where
  "make_W33 grid_pt_f =
     grid_pt_f\<lparr>Wmunu := (Wmunu grid_pt_f)(9 :=
       (Fin 2 * (u grid_pt_f 1 * u grid_pt_f 2 * Wmunu grid_pt_f 5
                 + u grid_pt_f 1 * u grid_pt_f 3 * Wmunu grid_pt_f 6
                 + u grid_pt_f 2 * u grid_pt_f 3 * Wmunu grid_pt_f 8)
        - (u grid_pt_f 0 * u grid_pt_f 0 - u grid_pt_f 1 * u grid_pt_f 1) * Wmunu grid_pt_f 4
        - (u grid_pt_f 0 * u grid_pt_f 0 - u grid_pt_f 2 * u grid_pt_f 2) * Wmunu grid_pt_f 7)
       / (u grid_pt_f 0 * u grid_pt_f 0 - u grid_pt_f 3 * u grid_pt_f 3))\<rparr>"

definition make_Wi0_round :: "Util \<Rightarrow> Cell_small \<Rightarrow> nat \<Rightarrow> Cell_small" where
  "make_Wi0_round util grid_pt_f mu =
     (let tempf = foldl (\<lambda>t nu. t + Wmunu grid_pt_f (map_2d_idx_to_1d util mu nu)
                                      * u grid_pt_f nu)
                    (Fin 0) [1, 2, 3]
      in grid_pt_f\<lparr>Wmunu := (Wmunu grid_pt_f)(mu := tempf / u grid_pt_f 0)\<rparr>)"

definition make_Wi0 :: "Util \<Rightarrow> Cell_small \<Rightarrow> Cell_small" where
  "make_Wi0 util grid_pt_f = foldl (make_Wi0_round util) grid_pt_f [1, 2, 3]"

definition make_W00 :: "Cell_small \<Rightarrow> Cell_small" where
  "make_W00 grid_pt_f =
     (let tempf = foldl (\<lambda>t nu. t + Wmunu grid_pt_f nu * u grid_pt_f nu) (Fin 0) [1, 2, 3]
      in grid_pt_f\<lparr>Wmunu := (Wmunu grid_pt_f)(0 := tempf / u grid_pt_f 0)\<rparr>)"

text \<open>
  \<^verbatim>\<open>solveEigenvaluesWmunu\<close>: the matrix handed to the solver and the scan for the
  smallest and the largest real part.
\<close>

definition Wmunu_matrix :: "Cell_small \<Rightarrow> nat \<Rightarrow> nat \<Rightarrow> double" where
  "Wmunu_matrix grid_pt i j =
     (let W = Wmunu grid_pt
      in if i = 0 then (if j = 0 then - W 0 else if j = 1 then W 1
                        else if j = 2 then W 2 else W 3)
         else if i = 1 then (if j = 0 then - W 1 else if j = 1 then W 4
                             else if j = 2 then W 5 else W 6)
         else if i = 2 then (if j = 0 then - W 2 else if j = 1 then W 5
                             else if j = 2 then W 7 else W 8)
         else (if j = 0 then - W 3 else if j = 1 then W 6
               else if j = 2 then W 8 else W 9))"

definition min_max_round :: "double \<times> double \<Rightarrow> double \<Rightarrow> double \<times> double" where
  "min_max_round mm temp =
     (case mm of (min_v, max_v) \<Rightarrow>
        if temp > max_v then (min_v, temp)
        else if temp < min_v then (temp, max_v)
        else (min_v, max_v))"

definition solveEigenvaluesWmunu :: "DissCollaborators \<Rightarrow> Cell_small \<Rightarrow> Cell_small" where
  "solveEigenvaluesWmunu diss grid_pt =
     (let ev = eigenvalues_real diss (Wmunu_matrix grid_pt);
          (min_v, max_v) = foldl min_max_round (ev 0, ev 0) (map ev [1, 2, 3])
      in grid_pt\<lparr>Lambdas := (\<lambda>i. if i = 0 then min_v
                                  else if i = 1 then (- min_v) - max_v
                                  else if i = 2 then max_v
                                  else Lambdas grid_pt i)\<rparr>)"

definition make_q0 :: "InitData \<Rightarrow> Util \<Rightarrow> Cell_small \<Rightarrow> Cell_small" where
  "make_q0 DATA util grid_pt_f =
     (let tempf = foldl (\<lambda>t nu. t + Wmunu grid_pt_f (map_2d_idx_to_1d util 4 nu)
                                      * u grid_pt_f nu)
                    (Fin 0) [1, 2, 3]
      in grid_pt_f\<lparr>Wmunu := (Wmunu grid_pt_f)(10 :=
           of_int_d (turn_on_diff DATA) * tempf / u grid_pt_f 0)\<rparr>)"

text \<open>The regularization at the end of \<^verbatim>\<open>FirstRKStepW\<close>.\<close>

definition regularize ::
  "InitData \<Rightarrow> EOS \<Rightarrow> Util \<Rightarrow> TransportCoeffs \<Rightarrow> double \<Rightarrow> Cell_small
     \<Rightarrow> int \<Rightarrow> int \<Rightarrow> int \<Rightarrow> (Cell_small \<times> event list) option" where
  "regularize DATA eos util tc tau grid_pt_f ieta ix iy =
     (if Initial_profile DATA \<noteq> 0 \<and> Initial_profile DATA \<noteq> 1 then
        (case QuestRevert DATA eos util tau grid_pt_f ieta ix iy of
           (grid_pt1, out1) \<Rightarrow>
             (case (if causality_method DATA = 1
                    then Some (nCausalityConstraints tc eos grid_pt1 tau)
                    else if causality_method DATA = 2
                    then sCausalityConstraints tc eos grid_pt1 tau
                    else Some (grid_pt1, [])) of
                None \<Rightarrow> None
              | Some (grid_pt2, out2) \<Rightarrow>
                  (if turn_on_diff DATA = 1 then
                     (case QuestRevert_qmu DATA util tau grid_pt2 ieta ix iy of
                        (grid_pt3, out3) \<Rightarrow> Some (grid_pt3, out1 @ out2 @ out3))
                   else Some (grid_pt2, out1 @ out2))))
      else Some (grid_pt_f, []))"

text \<open>
  \<^verbatim>\<open>FirstRKStepW\<close>: the future cell and what was printed; \<open>None\<close> if a bisection of the
  sufficient method never ends.
\<close>

definition FirstRKStepW ::
  "InitData \<Rightarrow> EOS \<Rightarrow> Util \<Rightarrow> TransportCoeffs \<Rightarrow> DissCollaborators \<Rightarrow> double
     \<Rightarrow> Cell_small \<Rightarrow> Cell_small \<Rightarrow> Cell_small \<Rightarrow> int \<Rightarrow> int \<Rightarrow> int \<Rightarrow> int
     \<Rightarrow> (Cell_small \<times> event list) option" where
  "FirstRKStepW DATA eos util tc diss tau grid_pt_prev grid_pt_c grid_pt_f rk_flag ieta ix iy =
     (let tau_now = tau + of_int_d rk_flag * delta_tau DATA;
          f1 = FirstRKStepW_evolve DATA util diss tau_now rk_flag grid_pt_prev grid_pt_c
                 grid_pt_f;
          f2 = make_W33 f1;
          f3 = make_Wi0 util f2;
          f4 = make_W00 f3;
          f5 = solveEigenvaluesWmunu diss f4;
          f6 = make_q0 DATA util f5
      in regularize DATA eos util tc tau f6 ieta ix iy)"

text \<open>
  The update rule of the dissipative quantities in two forms. The first is the rule as the
  specification words it: \<open>(1 - w)\<close> times the current value times the current \<open>u\<^sup>0\<close>,
  plus \<open>w\<close> times the previous value times the previous \<open>u\<^sup>0\<close>, plus the flux divergence,
  plus the source times the time step, all divided by \<open>1 + w\<close> and then by the future
  \<open>u\<^sup>0\<close>. The second is the rule that the three blocks of \<^verbatim>\<open>FirstRKStepW\<close> share: it has
  one more term, \<open>w\<close> times the current value times the current \<open>u\<^sup>0\<close>.
\<close>

definition spec_dissipative_update ::
  "double \<Rightarrow> double \<Rightarrow> double \<Rightarrow> double \<Rightarrow> double \<Rightarrow> double \<Rightarrow> double \<Rightarrow> double \<Rightarrow> double
     \<Rightarrow> double" where
  "spec_dissipative_update w current u0_current previous u0_previous flux source dtau u0_future =
     ((Fin 1 - w) * (current * u0_current) + w * (previous * u0_previous) + flux
        + source * dtau) / (Fin 1 + w) / u0_future"

definition rk_dissipative_update ::
  "double \<Rightarrow> double \<Rightarrow> double \<Rightarrow> double \<Rightarrow> double \<Rightarrow> double \<Rightarrow> double \<Rightarrow> double \<Rightarrow> double
     \<Rightarrow> double" where
  "rk_dissipative_update w current u0_current previous u0_previous flux source dtau u0_future =
     ((Fin 1 - w) * (current * u0_current) + w * (previous * u0_previous) + source * dtau
        + flux + w * (current * u0_current)) * (Fin 1 / (Fin 1 + w)) / u0_future"

section \<open>Example inputs\<close>

text \<open>
  Concrete collaborators and cells at which the properties below are evaluated: a
  conformal equation of state (\<open>P = e/3\<close>), the index map of the 14 components of
  \<^verbatim>\<open>Wmunu\<close>, a configuration, an empty cell, and a cell at the threshold energy density
  of the gate with large dissipative quantities.
\<close>

definition conformal_eos :: EOS where
  "conformal_eos =
     \<lparr>get_pressure = (\<lambda>e n. e / Fin 3), get_cs2 = (\<lambda>e n. Fin (1 / 3)),
      get_dpde = (\<lambda>e n. Fin (1 / 3))\<rparr>"

definition example_util :: Util where
  "example_util =
     \<lparr>hbarc = Fin (19733 / 100000), small_eps = Fin (1 / 10 ^ 16),
      map_2d_idx_to_1d =
        (\<lambda>a b. [[0, 1, 2, 3], [1, 4, 5, 6], [2, 5, 7, 8], [3, 6, 8, 9], [10, 11, 12, 13]]
                 ! a ! b),
      map_1d_idx_to_2d =
        (\<lambda>i. [(0, 0), (0, 1), (0, 2), (0, 3), (1, 1), (1, 2), (1, 3), (2, 2), (2, 3), (3, 3),
               (4, 0), (4, 1), (4, 2), (4, 3)] ! i)\<rparr>"

definition example_DATA :: InitData where
  "example_DATA =
     \<lparr>delta_tau = Fin (1 / 100), turn_on_rhob = 1, turn_on_shear = 1, turn_on_bulk = 1,
      turn_on_diff = 0, Initial_profile = 0, causality_method = 1,
      quest_revert_strength = Fin 1, echo_level = 1\<rparr>"

definition empty_cell :: Cell_small where
  "empty_cell =
     \<lparr>epsilon = Fin 0, rhob = Fin 0, u = (\<lambda>i. if i = 0 then Fin 1 else Fin 0),
      Wmunu = (\<lambda>i. Fin 0), pi_b = Fin 0, Lambdas = (\<lambda>i. Fin 0)\<rparr>"

definition sheared_cell :: Cell_small where
  "sheared_cell =
     \<lparr>epsilon = Fin (1 / 10), rhob = Fin 0, u = (\<lambda>i. if i = 0 then Fin 1 else Fin 0),
      Wmunu = (\<lambda>i. if i = 4 \<or> i = 7 \<or> i = 9 then Fin (2 / 15) else Fin 0),
      pi_b = Fin (1 / 15), Lambdas = (\<lambda>i. Fin 0)\<rparr>"

definition soft_eos :: EOS where
  "soft_eos =
     \<lparr>get_pressure = (\<lambda>e n. e / Fin 3), get_cs2 = (\<lambda>e n. Fin (1 / 10)),
      get_dpde = (\<lambda>e n. Fin (1 / 10))\<rparr>"

text \<open>Transport coefficients with given relaxation-time factors, and a cell with
  \<open>e + P = 1\<close> under the conformal equation of state and no dissipative quantities.\<close>

definition tc_of :: "real \<Rightarrow> real \<Rightarrow> TransportCoeffs" where
  "tc_of s b = \<lparr>shear_relax_time_factor = Fin s, bulk_relax_time_factor = Fin b\<rparr>"

definition quiet_cell :: Cell_small where
  "quiet_cell =
     \<lparr>epsilon = Fin (3 / 4), rhob = Fin 0, u = (\<lambda>i. if i = 0 then Fin 1 else Fin 0),
      Wmunu = (\<lambda>i. Fin 0), pi_b = Fin 0, Lambdas = (\<lambda>i. Fin 0)\<rparr>"

text \<open>
  Collaborators of the ideal update: one with no external source and a flux update that
  yields 1 in every component, and one whose charge source is not-a-number. The
  reconstruction divides the energy and charge components by the proper time.
\<close>

definition plain_ideal :: IdealCollaborators where
  "plain_ideal =
     \<lparr>flag_add_hydro_source = False,
      get_hydro_energy_source = (\<lambda>tau x y eta u_local i. Fin 0),
      get_hydro_rhob_source = (\<lambda>tau x y eta u_local. Fin 0),
      MakeDeltaQI = (\<lambda>tau rk_flag. Inr (\<lambda>alpha. Fin 1)),
      MakeWSource = (\<lambda>tau alpha. Fin 0),
      ReconstIt_shell = (\<lambda>tau qi cell. \<lparr>e = qi 0 / tau, rhob = qi 4 / tau, u = Cell_small.u cell\<rparr>)\<rparr>"

definition nan_charge_source :: IdealCollaborators where
  "nan_charge_source =
     \<lparr>flag_add_hydro_source = True,
      get_hydro_energy_source = (\<lambda>tau x y eta u_local i. Fin 0),
      get_hydro_rhob_source = (\<lambda>tau x y eta u_local. NaN),
      MakeDeltaQI = (\<lambda>tau rk_flag. Inr (\<lambda>alpha. Fin 0)),
      MakeWSource = (\<lambda>tau alpha. Fin 0),
      ReconstIt_shell = (\<lambda>tau qi cell. \<lparr>e = qi 0 / tau, rhob = qi 4 / tau, u = Cell_small.u cell\<rparr>)\<rparr>"

text \<open>Collaborators of the dissipative update with no flux and no source.\<close>

definition still_diss :: DissCollaborators where
  "still_diss =
     \<lparr>Make_uWRHS = (\<lambda>tau mu nu. Fin 0),
      Make_uWSource = (\<lambda>tau c p mu nu rk_flag. Fin 0),
      Make_uPRHS = (\<lambda>tau. Fin 0),
      Make_uPiSource = (\<lambda>tau c p rk_flag. Fin 0),
      Make_uqRHS = (\<lambda>tau mu nu. Fin 0),
      Make_uqSource = (\<lambda>tau c p nu rk_flag. Fin 0),
      eigenvalues_real = (\<lambda>A i. Fin 0)\<rparr>"

text \<open>
  An equation of state as a table can give it in the dilute region (no pressure, a
  negative sound speed squared, a vanishing derivative of the pressure), and a face
  state with given energy density and velocity components \<open>u\<^sup>0\<close>, \<open>u\<^sup>1\<close>.
\<close>

definition dilute_eos :: EOS where
  "dilute_eos =
     \<lparr>get_pressure = (\<lambda>e n. Fin 0), get_cs2 = (\<lambda>e n. Fin (- 1)),
      get_dpde = (\<lambda>e n. Fin 0)\<rparr>"

definition face :: "real \<Rightarrow> real \<Rightarrow> real \<Rightarrow> ReconstCell" where
  "face eps utau ux =
     \<lparr>e = Fin eps, rhob = Fin 0,
      u = (\<lambda>i. if i = 0 then Fin utau else if i = 1 then Fin ux else Fin 0)\<rparr>"

text \<open>The quiet cell with a large third eigenvalue.\<close>

definition stretched_cell :: Cell_small where
  "stretched_cell = quiet_cell\<lparr>Lambdas := (\<lambda>i. if i = 2 then Fin (7 / 5) else Fin 0)\<rparr>"

text \<open>The quiet cell with a negative bulk pressure, with a positive one, and with a
  nonzero first eigenvalue.\<close>

definition compressed_cell :: Cell_small where
  "compressed_cell = quiet_cell\<lparr>pi_b := Fin (- 1 / 2)\<rparr>"

definition swollen_cell :: Cell_small where
  "swollen_cell = quiet_cell\<lparr>pi_b := Fin 1\<rparr>"

definition pulled_cell :: Cell_small where
  "pulled_cell = quiet_cell\<lparr>Lambdas := (\<lambda>i. if i = 0 then Fin 1 else Fin 0)\<rparr>"

text \<open>The quiet cell with a first eigenvalue 3000 times the enthalpy.\<close>

definition hauled_cell :: Cell_small where
  "hauled_cell = quiet_cell\<lparr>Lambdas := (\<lambda>i. if i = 0 then Fin 3000 else Fin 0)\<rparr>"

section \<open>Verified properties\<close>

subsection \<open>Facts about the numbers\<close>

lemma isnan_iff: "isnan x \<longleftrightarrow> x = NaN"
  by (cases x) simp_all

lemma not_less_NaN [simp]: "\<not> x < NaN" "\<not> NaN < x"
  by (cases x; simp)+

lemma exp_plus_one_neq [simp]: "exp (x::real) + 1 \<noteq> 0"
proof -
  have "exp x + 1 > 0" by (simp add: add_pos_pos)
  then show ?thesis by simp
qed

lemma gate_bounds:
  "0 < 1 / 2 - 1 / (exp (2::real) + 1)" "1 / 2 - 1 / (exp (2::real) + 1) < 1 / 2"
proof -
  have "exp (2::real) > 1" by simp
  then have "1 / (exp (2::real) + 1) < 1 / 2"
    by (intro divide_strict_left_mono) (simp_all add: add_pos_pos)
  then show "0 < 1 / 2 - 1 / (exp (2::real) + 1)" by simp
  have "0 < 1 / (exp (2::real) + 1)" by (simp add: add_pos_pos)
  then show "1 / 2 - 1 / (exp (2::real) + 1) < 1 / 2" by simp
qed

lemma Fin_one_mult [simp]: "Fin 1 * x = x" "x * Fin 1 = x"
  by (cases x; simp)+

lemma add_MZero [simp]: "x + MZero = x" "MZero + x = x"
  by (cases x; simp)+

lemma minus_Fin [simp]: "Fin a - Fin b = Fin (a - b)"
  by (simp add: minus_double_def)

lemma minus_Fin_zero [simp]: "x - Fin 0 = x"
  by (cases x) (simp_all add: minus_double_def)

lemma minus_zeros [simp]:
  "Fin a - MZero = Fin a" "MZero - MZero = Fin 0"
  "MZero - Fin b = (if b = 0 then MZero else Fin (- b))"
  by (simp_all add: minus_double_def)

lemma is_zero_iff: "is_zero x \<longleftrightarrow> x = Fin 0 \<or> x = MZero"
  by (cases x) simp_all

lemma zero_weight: "isfinite t \<Longrightarrow> isfinite tau \<Longrightarrow> is_zero (Fin 0 * t * tau)"
  by (cases t; cases tau; simp)

lemma add_zero_cases: "is_zero z \<Longrightarrow> x + z = x \<or> (x = MZero \<and> x + z = Fin 0)"
  by (cases x; cases z) simp_all

lemma add_assoc_double: "(x + y) + z = x + (y + (z::double))"
  by (cases x; cases y; cases z) simp_all

lemma less_imp_le_double: "(x::double) < y \<Longrightarrow> x \<le> y"
  by (cases x; cases y) auto

lemma eq_d_Fin [simp]: "eq_d (Fin a) (Fin b) \<longleftrightarrow> a = b"
  by (auto simp add: eq_d_def)

subsection \<open>The running minimum of the candidate loops\<close>

lemma min_step_cases:
  "(\<exists>x. alp = Fin x \<and> 0 < x \<and> x < m \<and> min_step (Fin m) alp = Fin x)
   \<or> (alp < Fin 0 \<and> min_step (Fin m) alp = Fin 0)
   \<or> (\<not> alp < Fin 0 \<and> \<not> (Fin 0 < alp \<and> alp < Fin m) \<and> min_step (Fin m) alp = Fin m)"
  by (cases alp) (auto simp add: min_step_def)

lemma foldl_min_step_props:
  assumes "0 \<le> m"
  shows "\<exists>a. foldl min_step (Fin m) cs = Fin a \<and> 0 \<le> a \<and> a \<le> m
           \<and> (\<forall>c\<in>set cs. (Fin 0 < c \<longrightarrow> Fin a \<le> c) \<and> (c < Fin 0 \<longrightarrow> a = 0))
           \<and> (a = m \<or> (\<exists>c\<in>set cs. c < Fin 0 \<and> a = 0) \<or> (\<exists>c\<in>set cs. c = Fin a \<and> 0 < a))"
  using assms
proof (induction cs arbitrary: m)
  case Nil
  then show ?case by simp
next
  case (Cons c cs)
  consider (take) x where "c = Fin x" "0 < x" "x < m" "min_step (Fin m) c = Fin x"
    | (zero) "c < Fin 0" "min_step (Fin m) c = Fin 0"
    | (keep) "\<not> c < Fin 0" "\<not> (Fin 0 < c \<and> c < Fin m)" "min_step (Fin m) c = Fin m"
    using min_step_cases [of c m] by blast
  then show ?case
  proof cases
    case take
    from Cons.IH [of x] take obtain a where a: "foldl min_step (Fin x) cs = Fin a" "0 \<le> a" "a \<le> x"
      "\<forall>c\<in>set cs. (Fin 0 < c \<longrightarrow> Fin a \<le> c) \<and> (c < Fin 0 \<longrightarrow> a = 0)"
      "a = x \<or> (\<exists>c\<in>set cs. c < Fin 0 \<and> a = 0) \<or> (\<exists>c\<in>set cs. c = Fin a \<and> 0 < a)"
      by force
    show ?thesis
    proof (intro exI [of _ a] conjI)
      show "foldl min_step (Fin m) (c # cs) = Fin a" using take a by simp
      show "0 \<le> a" by fact
      show "a \<le> m" using a take by simp
      show "\<forall>c\<in>set (c # cs). (Fin 0 < c \<longrightarrow> Fin a \<le> c) \<and> (c < Fin 0 \<longrightarrow> a = 0)"
        using a take by auto
      show "a = m \<or> (\<exists>c\<in>set (c # cs). c < Fin 0 \<and> a = 0) \<or> (\<exists>c\<in>set (c # cs). c = Fin a \<and> 0 < a)"
        using a(5) take by auto
    qed
  next
    case zero
    from Cons.IH [of 0] obtain a where a: "foldl min_step (Fin 0) cs = Fin a" "0 \<le> a" "a \<le> 0"
      by force
    then have "a = 0" by simp
    with a zero Cons.prems show ?thesis by (auto intro: less_imp_le_double)
  next
    case keep
    from Cons.IH [of m] Cons.prems obtain a where a: "foldl min_step (Fin m) cs = Fin a" "0 \<le> a" "a \<le> m"
      "\<forall>c\<in>set cs. (Fin 0 < c \<longrightarrow> Fin a \<le> c) \<and> (c < Fin 0 \<longrightarrow> a = 0)"
      "a = m \<or> (\<exists>c\<in>set cs. c < Fin 0 \<and> a = 0) \<or> (\<exists>c\<in>set cs. c = Fin a \<and> 0 < a)"
      by force
    have "Fin 0 < c \<longrightarrow> Fin a \<le> c"
      using keep a(3) by (cases c) auto
    with a keep show ?thesis by auto
  qed
qed

subsection \<open>QuestRevert\<close>

text \<open>The two ratios at the example cells.\<close>

lemma factor_at_threshold:
  "QuestRevert_factor example_DATA (Fin (1 / 10)) = Fin (10 * (1 / 2 - 1 / (exp 2 + 1)))"
  by (simp add: QuestRevert_factor_def example_DATA_def minus_double_def)

lemma rho_shear_empty_cell: "QuestRevert_rho_shear DATA conformal_eos empty_cell = NaN"
  by (simp add: QuestRevert_rho_shear_def QuestRevert_pisize_def QuestRevert_eq_size_def
      empty_cell_def conformal_eos_def minus_double_def)

lemma rho_shear_sheared_cell:
  "QuestRevert_rho_shear example_DATA conformal_eos sheared_cell
     = Fin (2 / (10 * (1 / 2 - 1 / (exp 2 + 1))))"
  using gate_bounds(1)
  by (simp add: QuestRevert_rho_shear_def QuestRevert_pisize_def QuestRevert_eq_size_def
      factor_at_threshold sheared_cell_def conformal_eos_def minus_double_def)

lemma rho_bulk_sheared_cell:
  "QuestRevert_rho_bulk example_DATA conformal_eos sheared_cell
     = Fin (1 / (10 * (1 / 2 - 1 / (exp 2 + 1))))"
  using gate_bounds(1)
  by (simp add: QuestRevert_rho_bulk_def QuestRevert_eq_size_def
      factor_at_threshold sheared_cell_def conformal_eos_def minus_double_def)

lemma rho_shear_sheared_cell_gt:
  "QuestRevert_rho_shear example_DATA conformal_eos sheared_cell > Fin (1 / 10)"
proof -
  have "1 / 10 < 2 / (10 * (1 / 2 - 1 / (exp (2::real) + 1)))"
    using gate_bounds by (simp add: field_simps)
  then show ?thesis by (simp only: rho_shear_sheared_cell less_double.simps)
qed

lemma rho_bulk_sheared_cell_gt:
  "QuestRevert_rho_bulk example_DATA conformal_eos sheared_cell > Fin (1 / 10)"
proof -
  have "1 / 10 < 1 / (10 * (1 / 2 - 1 / (exp (2::real) + 1)))"
    using gate_bounds by (simp add: field_simps)
  then show ?thesis by (simp only: rho_bulk_sheared_cell less_double.simps)
qed

text \<open>
  Claim C4. In \<^verbatim>\<open>QuestRevert\<close>, for every cell: if the shear ratio \<^verbatim>\<open>rho_shear\<close> is
  not-a-number, the 10 shear components are set to zero; if it exceeds the ceiling 0.1,
  the 10 shear components are all multiplied by \<open>0.1 / rho_shear\<close>; and if the bulk ratio
  \<^verbatim>\<open>rho_bulk\<close> exceeds 0.1, the bulk pressure is multiplied by \<open>0.1 / rho_bulk\<close>.
\<close>

theorem QuestRevert_ratio_handling:
  "(isnan (QuestRevert_rho_shear DATA eos grid_pt) \<longrightarrow>
      (\<forall>mu<10. Wmunu (fst (QuestRevert DATA eos util tau grid_pt ieta ix iy)) mu = Fin 0))
   \<and> (QuestRevert_rho_shear DATA eos grid_pt > Fin (1 / 10) \<longrightarrow>
      (\<forall>mu<10. Wmunu (fst (QuestRevert DATA eos util tau grid_pt ieta ix iy)) mu
          = (Fin (1 / 10) / QuestRevert_rho_shear DATA eos grid_pt) * Wmunu grid_pt mu))
   \<and> (QuestRevert_rho_bulk DATA eos grid_pt > Fin (1 / 10) \<longrightarrow>
      pi_b (fst (QuestRevert DATA eos util tau grid_pt ieta ix iy))
        = (Fin (1 / 10) / QuestRevert_rho_bulk DATA eos grid_pt) * pi_b grid_pt)"
  by (auto simp add: QuestRevert_def Let_def isnan_iff split: prod.splits)

theorem QuestRevert_ratio_handling_witness:
  "isnan (QuestRevert_rho_shear example_DATA conformal_eos empty_cell)
   \<and> map (Wmunu (fst (QuestRevert example_DATA conformal_eos example_util (Fin 1)
                        empty_cell 0 0 0))) [0..<10]
       = replicate 10 (Fin 0)
   \<and> QuestRevert_rho_shear example_DATA conformal_eos sheared_cell > Fin (1 / 10)
   \<and> Wmunu (fst (QuestRevert example_DATA conformal_eos example_util (Fin 1)
                   sheared_cell 0 0 0)) 4
       = (Fin (1 / 10) / QuestRevert_rho_shear example_DATA conformal_eos sheared_cell)
           * Fin (2 / 15)
   \<and> QuestRevert_rho_bulk example_DATA conformal_eos sheared_cell > Fin (1 / 10)
   \<and> pi_b (fst (QuestRevert example_DATA conformal_eos example_util (Fin 1)
                  sheared_cell 0 0 0))
       = (Fin (1 / 10) / QuestRevert_rho_bulk example_DATA conformal_eos sheared_cell)
           * Fin (1 / 15)"
proof -
  have a: "isnan (QuestRevert_rho_shear example_DATA conformal_eos empty_cell)"
    by (simp add: rho_shear_empty_cell)
  note b = rho_shear_sheared_cell_gt and c = rho_bulk_sheared_cell_gt
  have W: "Wmunu sheared_cell 4 = Fin (2 / 15)" and P: "pi_b sheared_cell = Fin (1 / 15)"
    by (simp_all add: sheared_cell_def)
  from QuestRevert_ratio_handling
         [of example_DATA conformal_eos empty_cell example_util "Fin 1" 0 0 0] a
  have A: "\<forall>mu<10. Wmunu (fst (QuestRevert example_DATA conformal_eos example_util (Fin 1)
                                   empty_cell 0 0 0)) mu = Fin 0"
    by blast
  have A': "map (Wmunu (fst (QuestRevert example_DATA conformal_eos example_util (Fin 1)
                               empty_cell 0 0 0))) [0..<10]
              = replicate 10 (Fin 0)"
    by (rule nth_equalityI) (simp_all add: A)
  from QuestRevert_ratio_handling
         [of example_DATA conformal_eos sheared_cell example_util "Fin 1" 0 0 0] b c W P
  have B: "Wmunu (fst (QuestRevert example_DATA conformal_eos example_util (Fin 1)
                         sheared_cell 0 0 0)) 4
             = (Fin (1 / 10) / QuestRevert_rho_shear example_DATA conformal_eos sheared_cell)
                 * Fin (2 / 15)"
    "pi_b (fst (QuestRevert example_DATA conformal_eos example_util (Fin 1)
                  sheared_cell 0 0 0))
       = (Fin (1 / 10) / QuestRevert_rho_bulk example_DATA conformal_eos sheared_cell)
           * Fin (1 / 15)"
    by auto
  show ?thesis using a b c A' B by blast
qed

text \<open>
  Claim C10. The handling of not-a-number in \<^verbatim>\<open>QuestRevert\<close> is asymmetric: when
  \<^verbatim>\<open>rho_shear\<close> is not-a-number the 10 shear components are zeroed, but when
  \<^verbatim>\<open>rho_bulk\<close> is not-a-number the comparison \<^verbatim>\<open>rho_bulk > 0.1\<close> is false, no branch is
  taken and the bulk pressure is left as it was.
\<close>

theorem QuestRevert_nan_asymmetry:
  "(isnan (QuestRevert_rho_shear DATA eos grid_pt) \<longrightarrow>
      (\<forall>mu<10. Wmunu (fst (QuestRevert DATA eos util tau grid_pt ieta ix iy)) mu = Fin 0))
   \<and> (isnan (QuestRevert_rho_bulk DATA eos grid_pt) \<longrightarrow>
      \<not> QuestRevert_rho_bulk DATA eos grid_pt > Fin (1 / 10)
      \<and> pi_b (fst (QuestRevert DATA eos util tau grid_pt ieta ix iy)) = pi_b grid_pt)"
  by (auto simp add: QuestRevert_def Let_def isnan_iff split: prod.splits)

theorem QuestRevert_nan_asymmetry_witness:
  "isnan (QuestRevert_rho_shear example_DATA conformal_eos (empty_cell\<lparr>pi_b := NaN\<rparr>))
   \<and> Wmunu (fst (QuestRevert example_DATA conformal_eos example_util (Fin 1)
                   (empty_cell\<lparr>pi_b := NaN\<rparr>) 0 0 0)) 9 = Fin 0
   \<and> isnan (QuestRevert_rho_bulk example_DATA conformal_eos (empty_cell\<lparr>pi_b := NaN\<rparr>))
   \<and> pi_b (fst (QuestRevert example_DATA conformal_eos example_util (Fin 1)
                  (empty_cell\<lparr>pi_b := NaN\<rparr>) 0 0 0)) = NaN"
proof -
  have a: "isnan (QuestRevert_rho_shear example_DATA conformal_eos (empty_cell\<lparr>pi_b := NaN\<rparr>))"
    by (simp add: QuestRevert_rho_shear_def QuestRevert_pisize_def QuestRevert_eq_size_def
        empty_cell_def conformal_eos_def minus_double_def)
  have b: "isnan (QuestRevert_rho_bulk example_DATA conformal_eos (empty_cell\<lparr>pi_b := NaN\<rparr>))"
    by (simp add: QuestRevert_rho_bulk_def)
  from QuestRevert_nan_asymmetry
         [of example_DATA conformal_eos "empty_cell\<lparr>pi_b := NaN\<rparr>" example_util "Fin 1" 0 0 0]
       a b
  show ?thesis by simp
qed


subsection \<open>The bisection and the sufficient conditions\<close>

lemmas coeffs = get_shear_relax_time_factor_def get_bulk_relax_time_factor_def
  get_tau_pipi_coeff_def get_delta_pipi_coeff_def get_lambda_piPi_coeff_def
  get_lambda_Pipi_coeff_def get_delta_PiPi_coeff_def

text \<open>On a finite bracket the bisection ends: each round halves the width.\<close>

lemma BinarySearch_bounded_width:
  "r - l \<le> 2 ^ k / 10000 \<Longrightarrow>
     \<exists>st y out. BinarySearch (Fin l) (Fin r) func (Fin x) = Some (st, Fin y, out)"
proof (induction k arbitrary: l r x)
  case 0
  then show ?case
    by (subst BinarySearch.simps) (auto simp add: minus_double_def)
next
  case (Suc k)
  have half: "r - (l + r) / 2 \<le> 2 ^ k / 10000" "(l + r) / 2 - l \<le> 2 ^ k / 10000"
    using Suc.prems by (simp_all add: field_simps)
  from Suc.IH [OF half(1), of "(l + r) / 2"] Suc.IH [OF half(2), of "(l + r) / 2"]
  show ?case
    by (subst BinarySearch.simps) (auto simp add: minus_double_def)
qed

lemma BinarySearch_terminates:
  "\<exists>st y out. BinarySearch (Fin l) (Fin r) func (Fin x) = Some (st, Fin y, out)"
proof -
  obtain k where "(r - l) * 10000 < 2 ^ k"
    using real_arch_pow [of 2 "(r - l) * 10000"] by auto
  then have "r - l \<le> 2 ^ k / 10000" by (simp add: field_simps)
  then show ?thesis by (rule BinarySearch_bounded_width)
qed

text \<open>The running minimum of the candidate loop is always finite.\<close>

lemma min_step_Fin: "\<exists>m'. min_step (Fin m) alp = Fin m'"
  by (cases alp) (simp_all add: min_step_def)

lemma foldl_min_step_Fin: "\<exists>m'. foldl min_step (Fin m) cs = Fin m'"
proof (induction cs arbitrary: m)
  case Nil
  then show ?case by simp
next
  case (Cons c cs)
  obtain m1 where "min_step (Fin m) c = Fin m1" using min_step_Fin by blast
  with Cons.IH [of m1] show ?case by simp
qed

text \<open>Hence each block returns, and so does \<^verbatim>\<open>sCausalityConstraints\<close>, on every cell.\<close>

lemma Suff5_block_total: "\<exists>m' out. Suff5_block tc eos grid_pt (Fin m) = Some (Fin m', out)"
proof -
  obtain st y out where
    "BinarySearch (Fin 0) (Fin m) (\<lambda>beta. Suff5 tc eos beta grid_pt) (Fin 0)
       = Some (st, Fin y, out)"
    using BinarySearch_terminates by blast
  then show ?thesis
    by (simp add: Suff5_block_def Suff5_status_def)
qed

lemma Suff7_block_total: "\<exists>m' out. Suff7_block tc eos grid_pt (Fin m) = Some (Fin m', out)"
proof -
  obtain st y out where
    "BinarySearch (Fin 0) (Fin m) (\<lambda>beta. Suff7 tc eos beta grid_pt) (Fin 0)
       = Some (st, Fin y, out)"
    using BinarySearch_terminates by blast
  then show ?thesis
    by (simp add: Suff7_block_def Suff7_status_def)
qed

lemma Suff8_block_total: "\<exists>m' out. Suff8_block tc eos grid_pt (Fin m) = Some (Fin m', out)"
proof -
  obtain st y out where
    "BinarySearch (Fin 0) (Fin m) (\<lambda>beta. Suff8 tc eos beta grid_pt) (Fin 0)
       = Some (st, Fin y, out)"
    using BinarySearch_terminates by blast
  then show ?thesis
    by (simp add: Suff8_block_def Suff8_status_def)
qed

lemma sCausalityConstraints_total:
  "\<exists>beta out. sCausalityConstraints tc eos grid_pt tau
                 = Some (rescale (Fin beta) grid_pt, out)"
proof -
  obtain m0 where m0: "sCausality_minBeta tc eos grid_pt = Fin m0"
    unfolding sCausality_minBeta_def using foldl_min_step_Fin by blast
  obtain m5 out5 where b5: "Suff5_block tc eos grid_pt (Fin m0) = Some (Fin m5, out5)"
    using Suff5_block_total by blast
  obtain m7 out7 where b7: "Suff7_block tc eos grid_pt (Fin m5) = Some (Fin m7, out7)"
    using Suff7_block_total by blast
  obtain m8 out8 where b8: "Suff8_block tc eos grid_pt (Fin m7) = Some (Fin m8, out8)"
    using Suff8_block_total by blast
  show ?thesis
    by (auto simp add: sCausalityConstraints_def m0 b5 b7 b8)
qed

text \<open>
  Claim C8. \<^verbatim>\<open>QuestRevert\<close>, \<^verbatim>\<open>nCausalityConstraints\<close> and \<^verbatim>\<open>sCausalityConstraints\<close>
  never modify the primitive variables of the cell (energy density \<^verbatim>\<open>epsilon\<close>, charge
  density \<^verbatim>\<open>rhob\<close>, four-velocity \<^verbatim>\<open>u\<close>), for any input cell: they write only to
  \<^verbatim>\<open>Wmunu\<close>, \<^verbatim>\<open>pi_b\<close> and \<^verbatim>\<open>Lambdas\<close>. For \<^verbatim>\<open>sCausalityConstraints\<close> this includes
  that the call returns.
\<close>

theorem regularization_keeps_primitives:
  "epsilon (fst (QuestRevert DATA eos util tau grid_pt ieta ix iy)) = epsilon grid_pt
   \<and> rhob (fst (QuestRevert DATA eos util tau grid_pt ieta ix iy)) = rhob grid_pt
   \<and> u (fst (QuestRevert DATA eos util tau grid_pt ieta ix iy)) = u grid_pt
   \<and> epsilon (fst (nCausalityConstraints tc eos grid_pt tau)) = epsilon grid_pt
   \<and> rhob (fst (nCausalityConstraints tc eos grid_pt tau)) = rhob grid_pt
   \<and> u (fst (nCausalityConstraints tc eos grid_pt tau)) = u grid_pt
   \<and> (\<exists>grid_pt' out. sCausalityConstraints tc eos grid_pt tau = Some (grid_pt', out)
        \<and> epsilon grid_pt' = epsilon grid_pt \<and> rhob grid_pt' = rhob grid_pt
        \<and> u grid_pt' = u grid_pt)"
proof -
  have q: "epsilon (fst (QuestRevert DATA eos util tau grid_pt ieta ix iy)) = epsilon grid_pt
   \<and> rhob (fst (QuestRevert DATA eos util tau grid_pt ieta ix iy)) = rhob grid_pt
   \<and> u (fst (QuestRevert DATA eos util tau grid_pt ieta ix iy)) = u grid_pt"
    by (simp add: QuestRevert_def Let_def split: prod.splits)
  have n: "epsilon (fst (nCausalityConstraints tc eos grid_pt tau)) = epsilon grid_pt
   \<and> rhob (fst (nCausalityConstraints tc eos grid_pt tau)) = rhob grid_pt
   \<and> u (fst (nCausalityConstraints tc eos grid_pt tau)) = u grid_pt"
    by (simp add: nCausalityConstraints_def rescale_def Let_def)
  obtain beta out where
    "sCausalityConstraints tc eos grid_pt tau = Some (rescale (Fin beta) grid_pt, out)"
    using sCausalityConstraints_total by blast
  then have s: "\<exists>grid_pt' out. sCausalityConstraints tc eos grid_pt tau = Some (grid_pt', out)
        \<and> epsilon grid_pt' = epsilon grid_pt \<and> rhob grid_pt' = rhob grid_pt
        \<and> u grid_pt' = u grid_pt"
    by (simp add: rescale_def)
  from q n s show ?thesis by blast
qed

theorem regularization_keeps_primitives_witness:
  "epsilon (fst (QuestRevert example_DATA conformal_eos example_util (Fin 1)
                   sheared_cell 0 0 0)) = Fin (1 / 10)
   \<and> epsilon (fst (nCausalityConstraints (tc_of 5 1) conformal_eos sheared_cell (Fin 1)))
       = Fin (1 / 10)
   \<and> (\<exists>grid_pt' out.
         sCausalityConstraints (tc_of 5 1) conformal_eos sheared_cell (Fin 1)
           = Some (grid_pt', out)
         \<and> epsilon grid_pt' = Fin (1 / 10))"
proof -
  have e: "epsilon sheared_cell = Fin (1 / 10)" by (simp add: sheared_cell_def)
  from regularization_keeps_primitives
          [of example_DATA conformal_eos example_util "Fin 1" sheared_cell 0 0 0 "tc_of 5 1"]
  show ?thesis unfolding e by blast
qed

text \<open>
  When the function is negative at the right end of the bracket and not negative at the
  left end, the test on the product of the two values cannot fire; this stays so in every
  round, and the bisection ends with success.
\<close>

lemma neg_times_nonneg: "x < Fin 0 \<Longrightarrow> \<not> y < Fin 0 \<Longrightarrow> \<not> x * y > Fin 0"
  by (cases x; cases y) (auto simp add: mult_less_0_iff not_less mult_nonpos_nonneg)

lemma neg_times_neg: "x < Fin 0 \<Longrightarrow> y < Fin 0 \<Longrightarrow> x * y > Fin 0"
  by (cases x; cases y) (auto simp add: mult_neg_neg)

lemma BinarySearch_sign_change:
  "r - l \<le> 2 ^ k / 10000 \<Longrightarrow> l \<le> r \<Longrightarrow> func (Fin r) < Fin 0 \<Longrightarrow> \<not> func (Fin l) < Fin 0 \<Longrightarrow>
   l \<le> x \<Longrightarrow> x \<le> r \<Longrightarrow>
     \<exists>y. l \<le> y \<and> y \<le> r \<and> BinarySearch (Fin l) (Fin r) func (Fin x) = Some (True, Fin y, [])"
proof (induction k arbitrary: l r x)
  case 0
  then show ?case
    by (subst BinarySearch.simps) auto
next
  case (Suc k)
  define mid where "mid = (l + r) / 2"
  have mid: "l \<le> mid" "mid \<le> r" "r - mid \<le> 2 ^ k / 10000" "mid - l \<le> 2 ^ k / 10000"
    using Suc.prems(1,2) by (simp_all add: mid_def field_simps)
  have m: "(Fin l + Fin r) / Fin 2 = Fin mid"
    by (simp add: mid_def)
  have prod: "\<not> func (Fin r) * func (Fin l) > Fin 0"
    using Suc.prems(3,4) by (rule neg_times_nonneg)
  show ?case
  proof (cases "r - l > 1 / 10000")
    case False
    with Suc.prems show ?thesis
      by (subst BinarySearch.simps) auto
  next
    case wide: True
    have step: "BinarySearch (Fin l) (Fin r) func (Fin x)
                  = (if func (Fin mid) < Fin 0
                     then BinarySearch (Fin l) (Fin mid) func (Fin mid)
                     else BinarySearch (Fin mid) (Fin r) func (Fin mid))"
      using wide prod Suc.prems(2) by (subst BinarySearch.simps) (simp add: mid_def)
    show ?thesis
    proof (cases "func (Fin mid) < Fin 0")
      case True
      from Suc.IH [OF mid(4) mid(1) True Suc.prems(4) mid(1) order_refl] obtain y where
        "l \<le> y" "y \<le> mid" "BinarySearch (Fin l) (Fin mid) func (Fin mid) = Some (True, Fin y, [])"
        by auto
      with True mid(2) show ?thesis
        unfolding step by auto
    next
      case False
      from Suc.IH [OF mid(3) mid(2) Suc.prems(3) False order_refl mid(2)] obtain y where
        "mid \<le> y" "y \<le> r" "BinarySearch (Fin mid) (Fin r) func (Fin mid) = Some (True, Fin y, [])"
        by auto
      with False mid(1) show ?thesis
        unfolding step by auto
    qed
  qed
qed

text \<open>
  The outcome of the bisection on \<open>[0, m]\<close> with \<open>m \<ge> 0\<close> for a function that is negative
  at \<open>m\<close>: it fails in its first round if the bracket is wider than \<open>10\<^sup>-\<^sup>4\<close> and
  the product of the values at the two ends is positive, and succeeds otherwise with a
  result in the bracket. Inside the loop the upper end is above the lower end, so the
  line about the bounds is never printed.
\<close>

lemma BinarySearch_bracket_order: "right - left > Fin (1 / 10000) \<Longrightarrow> \<not> right < left"
  by (cases right; cases left) (auto simp add: minus_double_def split: if_splits)

lemma BinarySearch_fails:
  "1 / 10000 < m \<Longrightarrow> func (Fin m) * func (Fin 0) > Fin 0 \<Longrightarrow>
     BinarySearch (Fin 0) (Fin m) func (Fin 0) = Some (False, Fin 0, [])"
  by (subst BinarySearch.simps) simp

lemma BinarySearch_succeeds:
  assumes "0 \<le> m" and "func (Fin m) < Fin 0"
    and "\<not> (1 / 10000 < m \<and> func (Fin m) * func (Fin 0) > Fin 0)"
  shows "\<exists>y. 0 \<le> y \<and> y \<le> m \<and> BinarySearch (Fin 0) (Fin m) func (Fin 0) = Some (True, Fin y, [])"
proof (cases "1 / 10000 < m")
  case False
  with assms(1) show ?thesis
    by (subst BinarySearch.simps) auto
next
  case True
  with assms(3) have "\<not> func (Fin m) * func (Fin 0) > Fin 0" by simp
  with assms(2) have left: "\<not> func (Fin 0) < Fin 0"
    using neg_times_neg by blast
  obtain k where "(m - 0) * 10000 < 2 ^ k"
    using real_arch_pow [of 2 "(m - 0) * 10000"] by auto
  then have "m - 0 \<le> 2 ^ k / 10000" by (simp add: field_simps)
  from BinarySearch_sign_change [OF this assms(1,2) left, of 0] assms(1)
  show ?thesis by simp
qed

text \<open>
  The second sufficiency function at \<open>beta = 0\<close> is the square of the shear relaxation
  term, less a zero: it is never negative, whatever the cell holds.
\<close>

lemma zero_or_nan_times:
  "z = Fin 0 \<or> z = MZero \<or> z = NaN \<Longrightarrow> z * a = Fin 0 \<or> z * a = MZero \<or> z * a = NaN"
  by (cases a) (auto split: if_splits)

lemma square_minus_zero:
  "z = Fin 0 \<or> z = MZero \<or> z = NaN \<Longrightarrow> \<not> y * y - z < Fin 0"
  by (cases y) (auto simp add: minus_double_def not_less)

lemma Suff7_at_zero: "\<not> Suff7 tc eos (Fin 0) grid_pt < Fin 0"
proof -
  have z: "Fin 0 * Fin 0 = Fin 0 \<or> Fin 0 * Fin 0 = MZero \<or> Fin 0 * Fin 0 = NaN" by simp
  show ?thesis
    unfolding Suff7_def Let_def
    by (intro square_minus_zero zero_or_nan_times z)
qed


lemma Suff7_bisection_succeeds:
  assumes "0 \<le> m" and "Suff7 tc eos (Fin m) g < Fin 0"
  shows "\<exists>y. 0 \<le> y \<and> y \<le> m
           \<and> BinarySearch (Fin 0) (Fin m) (\<lambda>beta. Suff7 tc eos beta g) (Fin 0)
               = Some (True, Fin y, [])"
proof -
  have "\<not> Suff7 tc eos (Fin m) g * Suff7 tc eos (Fin 0) g > Fin 0"
    using assms(2) Suff7_at_zero by (rule neg_times_nonneg)
  then have "\<not> (1 / 10000 < m \<and> Suff7 tc eos (Fin m) g * Suff7 tc eos (Fin 0) g > Fin 0)"
    by simp
  from BinarySearch_succeeds [where func = "\<lambda>beta. Suff7 tc eos beta g", OF assms this]
  show ?thesis .
qed

text \<open>Each block leaves a factor between 0 and the one it was given.\<close>

lemma Suff5_block_range:
  assumes "0 \<le> m"
  shows "\<exists>y out. 0 \<le> y \<and> y \<le> m \<and> Suff5_block tc eos g (Fin m) = Some (Fin y, out)"
proof (cases "Suff5 tc eos (Fin m) g < Fin 0")
  case False
  with assms show ?thesis by (simp add: Suff5_block_def)
next
  case neg: True
  show ?thesis
  proof (cases "1 / 10000 < m \<and> Suff5 tc eos (Fin m) g * Suff5 tc eos (Fin 0) g > Fin 0")
    case True
    then have "BinarySearch (Fin 0) (Fin m) (\<lambda>beta. Suff5 tc eos beta g) (Fin 0)
                 = Some (False, Fin 0, [])"
      by (intro BinarySearch_fails) simp_all
    with neg assms show ?thesis by (simp add: Suff5_block_def Suff5_status_def)
  next
    case False
    from BinarySearch_succeeds [where func = "\<lambda>beta. Suff5 tc eos beta g", OF assms neg False]
    obtain y where "0 \<le> y" "y \<le> m"
      "BinarySearch (Fin 0) (Fin m) (\<lambda>beta. Suff5 tc eos beta g) (Fin 0) = Some (True, Fin y, [])"
      by blast
    with neg show ?thesis by (simp add: Suff5_block_def Suff5_status_def)
  qed
qed

lemma Suff7_block_range:
  assumes "0 \<le> m"
  shows "\<exists>y. 0 \<le> y \<and> y \<le> m \<and> Suff7_block tc eos g (Fin m) = Some (Fin y, [])"
proof (cases "Suff7 tc eos (Fin m) g < Fin 0")
  case False
  with assms show ?thesis by (simp add: Suff7_block_def)
next
  case True
  from Suff7_bisection_succeeds [OF assms True] obtain y where "0 \<le> y" "y \<le> m"
    "BinarySearch (Fin 0) (Fin m) (\<lambda>beta. Suff7 tc eos beta g) (Fin 0) = Some (True, Fin y, [])"
    by blast
  with True show ?thesis by (simp add: Suff7_block_def Suff7_status_def)
qed

lemma Suff8_block_range:
  assumes "0 \<le> m"
  shows "\<exists>y out. 0 \<le> y \<and> y \<le> m \<and> Suff8_block tc eos g (Fin m) = Some (Fin y, out)"
proof (cases "Suff8 tc eos (Fin m) g < Fin 0")
  case False
  with assms show ?thesis by (simp add: Suff8_block_def)
next
  case neg: True
  show ?thesis
  proof (cases "1 / 10000 < m \<and> Suff8 tc eos (Fin m) g * Suff8 tc eos (Fin 0) g > Fin 0")
    case True
    then have "BinarySearch (Fin 0) (Fin m) (\<lambda>beta. Suff8 tc eos beta g) (Fin 0)
                 = Some (False, Fin 0, [])"
      by (intro BinarySearch_fails) simp_all
    with neg assms show ?thesis by (simp add: Suff8_block_def Suff8_status_def)
  next
    case False
    from BinarySearch_succeeds [where func = "\<lambda>beta. Suff8 tc eos beta g", OF assms neg False]
    obtain y where "0 \<le> y" "y \<le> m"
      "BinarySearch (Fin 0) (Fin m) (\<lambda>beta. Suff8 tc eos beta g) (Fin 0) = Some (True, Fin y, [])"
      by blast
    with neg show ?thesis by (simp add: Suff8_block_def Suff8_status_def)
  qed
qed


lemma sCausality_minBeta_range:
  "\<exists>m0. sCausality_minBeta tc eos g = Fin m0 \<and> 0 \<le> m0 \<and> m0 \<le> 1"
proof -
  have "(0::real) \<le> 1" by simp
  from foldl_min_step_props [OF this, of "map (sCandidate tc eos g) [0, 1, 2]"]
  show ?thesis unfolding sCausality_minBeta_def by blast
qed

text \<open>
  Claim C6, as amended. In \<^verbatim>\<open>sCausalityConstraints\<close> every bisection runs on a
  bracket \<open>[0, m]\<close> with \<open>0 \<le> m \<le> 1\<close>, \<open>m\<close> being the current factor, so no bracket is
  malformed. When a sufficiency function is negative at \<open>m\<close>, the bisection fails exactly
  when the bracket is wider than \<open>10\<^sup>-\<^sup>4\<close> and the product of the function values at
  its two ends is positive, in the first round. Then the first block (\<^verbatim>\<open>Suff5\<close>) sets
  the factor to 0 if the sound speed squared is below 0.15 and otherwise prints its
  message and leaves the factor as it was; the third block (\<^verbatim>\<open>Suff8\<close>) prints its
  message and leaves the factor as it was. The bisection of the second block
  (\<^verbatim>\<open>Suff7\<close>) never fails, so its message, which the text of the block holds for a
  false flag, is never printed. In every other case, that of a bracket no wider than
  \<open>10\<^sup>-\<^sup>4\<close> among them, the bisection succeeds, nothing is printed and the factor
  is replaced by the result, which lies in \<open>[0, m]\<close>. The last part gives the chain of
  the three blocks that makes up \<^verbatim>\<open>sCausalityConstraints\<close>.
\<close>

theorem bisection_failure_handling:
  assumes "0 \<le> m"
  shows
    "(Suff5 tc eos (Fin m) g < Fin 0 \<and> 1 / 10000 < m
        \<and> Suff5 tc eos (Fin m) g * Suff5 tc eos (Fin 0) g > Fin 0 \<longrightarrow>
          BinarySearch (Fin 0) (Fin m) (\<lambda>beta. Suff5 tc eos beta g) (Fin 0)
            = Some (False, Fin 0, [])
          \<and> Suff5_block tc eos g (Fin m)
              = Some (if get_cs2 eos (epsilon g) (rhob g) < Fin (15 / 100) then (Fin 0, [])
                      else (Fin m, [Stdout ''Suff5 Fails Binary Search''])))
     \<and> (Suff5 tc eos (Fin m) g < Fin 0
        \<and> \<not> (1 / 10000 < m \<and> Suff5 tc eos (Fin m) g * Suff5 tc eos (Fin 0) g > Fin 0) \<longrightarrow>
          (\<exists>y. 0 \<le> y \<and> y \<le> m
             \<and> BinarySearch (Fin 0) (Fin m) (\<lambda>beta. Suff5 tc eos beta g) (Fin 0)
                 = Some (True, Fin y, [])
             \<and> Suff5_block tc eos g (Fin m) = Some (Fin y, [])))
     \<and> (Suff7 tc eos (Fin m) g < Fin 0 \<longrightarrow>
          (\<exists>y. 0 \<le> y \<and> y \<le> m
             \<and> BinarySearch (Fin 0) (Fin m) (\<lambda>beta. Suff7 tc eos beta g) (Fin 0)
                 = Some (True, Fin y, [])
             \<and> Suff7_block tc eos g (Fin m) = Some (Fin y, [])))
     \<and> Suff7_status (Fin m) False result = (Fin m, [Stdout ''Suff7 Fails Binary Search''])
     \<and> (Suff8 tc eos (Fin m) g < Fin 0 \<and> 1 / 10000 < m
        \<and> Suff8 tc eos (Fin m) g * Suff8 tc eos (Fin 0) g > Fin 0 \<longrightarrow>
          BinarySearch (Fin 0) (Fin m) (\<lambda>beta. Suff8 tc eos beta g) (Fin 0)
            = Some (False, Fin 0, [])
          \<and> Suff8_block tc eos g (Fin m)
              = Some (Fin m, [Stdout ''Suff8 Fails Binary Search'']))
     \<and> (Suff8 tc eos (Fin m) g < Fin 0
        \<and> \<not> (1 / 10000 < m \<and> Suff8 tc eos (Fin m) g * Suff8 tc eos (Fin 0) g > Fin 0) \<longrightarrow>
          (\<exists>y. 0 \<le> y \<and> y \<le> m
             \<and> BinarySearch (Fin 0) (Fin m) (\<lambda>beta. Suff8 tc eos beta g) (Fin 0)
                 = Some (True, Fin y, [])
             \<and> Suff8_block tc eos g (Fin m) = Some (Fin y, [])))
     \<and> (\<exists>m0 m5 m7 m8 out5 out8.
          sCausality_minBeta tc eos g = Fin m0 \<and> 0 \<le> m0 \<and> m0 \<le> 1
          \<and> Suff5_block tc eos g (Fin m0) = Some (Fin m5, out5) \<and> 0 \<le> m5 \<and> m5 \<le> m0
          \<and> Suff7_block tc eos g (Fin m5) = Some (Fin m7, []) \<and> 0 \<le> m7 \<and> m7 \<le> m5
          \<and> Suff8_block tc eos g (Fin m7) = Some (Fin m8, out8) \<and> 0 \<le> m8 \<and> m8 \<le> m7
          \<and> sCausalityConstraints tc eos g tau
              = Some (rescale (Fin m8) g,
                      out5 @ out8
                        @ (if epsilon g > Fin (1 / 100)
                           then [File_record ''sufficient_causality_reduction_factor_wtau.dat''
                                   (Fin m8) (epsilon g) tau]
                           else [])))"
proof -
  have f5: "Suff5 tc eos (Fin m) g < Fin 0 \<and> 1 / 10000 < m
        \<and> Suff5 tc eos (Fin m) g * Suff5 tc eos (Fin 0) g > Fin 0 \<longrightarrow>
          BinarySearch (Fin 0) (Fin m) (\<lambda>beta. Suff5 tc eos beta g) (Fin 0)
            = Some (False, Fin 0, [])
          \<and> Suff5_block tc eos g (Fin m)
              = Some (if get_cs2 eos (epsilon g) (rhob g) < Fin (15 / 100) then (Fin 0, [])
                      else (Fin m, [Stdout ''Suff5 Fails Binary Search'']))"
  proof (intro impI, elim conjE)
    assume neg: "Suff5 tc eos (Fin m) g < Fin 0" and "1 / 10000 < m"
      and "Suff5 tc eos (Fin m) g * Suff5 tc eos (Fin 0) g > Fin 0"
    then have b: "BinarySearch (Fin 0) (Fin m) (\<lambda>beta. Suff5 tc eos beta g) (Fin 0)
                    = Some (False, Fin 0, [])"
      by (intro BinarySearch_fails)
    with neg show "BinarySearch (Fin 0) (Fin m) (\<lambda>beta. Suff5 tc eos beta g) (Fin 0)
            = Some (False, Fin 0, [])
          \<and> Suff5_block tc eos g (Fin m)
              = Some (if get_cs2 eos (epsilon g) (rhob g) < Fin (15 / 100) then (Fin 0, [])
                      else (Fin m, [Stdout ''Suff5 Fails Binary Search'']))"
      by (simp add: Suff5_block_def Suff5_status_def)
  qed
  have s5: "Suff5 tc eos (Fin m) g < Fin 0
        \<and> \<not> (1 / 10000 < m \<and> Suff5 tc eos (Fin m) g * Suff5 tc eos (Fin 0) g > Fin 0) \<longrightarrow>
          (\<exists>y. 0 \<le> y \<and> y \<le> m
             \<and> BinarySearch (Fin 0) (Fin m) (\<lambda>beta. Suff5 tc eos beta g) (Fin 0)
                 = Some (True, Fin y, [])
             \<and> Suff5_block tc eos g (Fin m) = Some (Fin y, []))"
  proof (intro impI, elim conjE)
    assume neg: "Suff5 tc eos (Fin m) g < Fin 0"
      and no: "\<not> (1 / 10000 < m \<and> Suff5 tc eos (Fin m) g * Suff5 tc eos (Fin 0) g > Fin 0)"
    from BinarySearch_succeeds [where func = "\<lambda>beta. Suff5 tc eos beta g", OF assms neg no]
    obtain y where "0 \<le> y" "y \<le> m"
      "BinarySearch (Fin 0) (Fin m) (\<lambda>beta. Suff5 tc eos beta g) (Fin 0) = Some (True, Fin y, [])"
      by blast
    with neg show "\<exists>y. 0 \<le> y \<and> y \<le> m
             \<and> BinarySearch (Fin 0) (Fin m) (\<lambda>beta. Suff5 tc eos beta g) (Fin 0)
                 = Some (True, Fin y, [])
             \<and> Suff5_block tc eos g (Fin m) = Some (Fin y, [])"
      by (simp add: Suff5_block_def Suff5_status_def)
  qed
  have s7: "Suff7 tc eos (Fin m) g < Fin 0 \<longrightarrow>
          (\<exists>y. 0 \<le> y \<and> y \<le> m
             \<and> BinarySearch (Fin 0) (Fin m) (\<lambda>beta. Suff7 tc eos beta g) (Fin 0)
                 = Some (True, Fin y, [])
             \<and> Suff7_block tc eos g (Fin m) = Some (Fin y, []))"
  proof
    assume neg: "Suff7 tc eos (Fin m) g < Fin 0"
    from Suff7_bisection_succeeds [OF assms neg] obtain y where "0 \<le> y" "y \<le> m"
      "BinarySearch (Fin 0) (Fin m) (\<lambda>beta. Suff7 tc eos beta g) (Fin 0) = Some (True, Fin y, [])"
      by blast
    with neg show "\<exists>y. 0 \<le> y \<and> y \<le> m
             \<and> BinarySearch (Fin 0) (Fin m) (\<lambda>beta. Suff7 tc eos beta g) (Fin 0)
                 = Some (True, Fin y, [])
             \<and> Suff7_block tc eos g (Fin m) = Some (Fin y, [])"
      by (simp add: Suff7_block_def Suff7_status_def)
  qed
  have t7: "Suff7_status (Fin m) False result = (Fin m, [Stdout ''Suff7 Fails Binary Search''])"
    by (simp add: Suff7_status_def)
  have f8: "Suff8 tc eos (Fin m) g < Fin 0 \<and> 1 / 10000 < m
        \<and> Suff8 tc eos (Fin m) g * Suff8 tc eos (Fin 0) g > Fin 0 \<longrightarrow>
          BinarySearch (Fin 0) (Fin m) (\<lambda>beta. Suff8 tc eos beta g) (Fin 0)
            = Some (False, Fin 0, [])
          \<and> Suff8_block tc eos g (Fin m)
              = Some (Fin m, [Stdout ''Suff8 Fails Binary Search''])"
  proof (intro impI, elim conjE)
    assume neg: "Suff8 tc eos (Fin m) g < Fin 0" and "1 / 10000 < m"
      and "Suff8 tc eos (Fin m) g * Suff8 tc eos (Fin 0) g > Fin 0"
    then have b: "BinarySearch (Fin 0) (Fin m) (\<lambda>beta. Suff8 tc eos beta g) (Fin 0)
                    = Some (False, Fin 0, [])"
      by (intro BinarySearch_fails)
    with neg show "BinarySearch (Fin 0) (Fin m) (\<lambda>beta. Suff8 tc eos beta g) (Fin 0)
            = Some (False, Fin 0, [])
          \<and> Suff8_block tc eos g (Fin m)
              = Some (Fin m, [Stdout ''Suff8 Fails Binary Search''])"
      by (simp add: Suff8_block_def Suff8_status_def)
  qed
  have s8: "Suff8 tc eos (Fin m) g < Fin 0
        \<and> \<not> (1 / 10000 < m \<and> Suff8 tc eos (Fin m) g * Suff8 tc eos (Fin 0) g > Fin 0) \<longrightarrow>
          (\<exists>y. 0 \<le> y \<and> y \<le> m
             \<and> BinarySearch (Fin 0) (Fin m) (\<lambda>beta. Suff8 tc eos beta g) (Fin 0)
                 = Some (True, Fin y, [])
             \<and> Suff8_block tc eos g (Fin m) = Some (Fin y, []))"
  proof (intro impI, elim conjE)
    assume neg: "Suff8 tc eos (Fin m) g < Fin 0"
      and no: "\<not> (1 / 10000 < m \<and> Suff8 tc eos (Fin m) g * Suff8 tc eos (Fin 0) g > Fin 0)"
    from BinarySearch_succeeds [where func = "\<lambda>beta. Suff8 tc eos beta g", OF assms neg no]
    obtain y where "0 \<le> y" "y \<le> m"
      "BinarySearch (Fin 0) (Fin m) (\<lambda>beta. Suff8 tc eos beta g) (Fin 0) = Some (True, Fin y, [])"
      by blast
    with neg show "\<exists>y. 0 \<le> y \<and> y \<le> m
             \<and> BinarySearch (Fin 0) (Fin m) (\<lambda>beta. Suff8 tc eos beta g) (Fin 0)
                 = Some (True, Fin y, [])
             \<and> Suff8_block tc eos g (Fin m) = Some (Fin y, [])"
      by (simp add: Suff8_block_def Suff8_status_def)
  qed
  have chain: "\<exists>m0 m5 m7 m8 out5 out8.
          sCausality_minBeta tc eos g = Fin m0 \<and> 0 \<le> m0 \<and> m0 \<le> 1
          \<and> Suff5_block tc eos g (Fin m0) = Some (Fin m5, out5) \<and> 0 \<le> m5 \<and> m5 \<le> m0
          \<and> Suff7_block tc eos g (Fin m5) = Some (Fin m7, []) \<and> 0 \<le> m7 \<and> m7 \<le> m5
          \<and> Suff8_block tc eos g (Fin m7) = Some (Fin m8, out8) \<and> 0 \<le> m8 \<and> m8 \<le> m7
          \<and> sCausalityConstraints tc eos g tau
              = Some (rescale (Fin m8) g,
                      out5 @ out8
                        @ (if epsilon g > Fin (1 / 100)
                           then [File_record ''sufficient_causality_reduction_factor_wtau.dat''
                                   (Fin m8) (epsilon g) tau]
                           else []))"
  proof -
    obtain m0 where m0: "sCausality_minBeta tc eos g = Fin m0" "0 \<le> m0" "m0 \<le> 1"
      using sCausality_minBeta_range by blast
    obtain m5 out5 where m5: "Suff5_block tc eos g (Fin m0) = Some (Fin m5, out5)"
      "0 \<le> m5" "m5 \<le> m0"
      using Suff5_block_range [OF m0(2)] by blast
    obtain m7 where m7: "Suff7_block tc eos g (Fin m5) = Some (Fin m7, [])" "0 \<le> m7" "m7 \<le> m5"
      using Suff7_block_range [OF m5(2)] by blast
    obtain m8 out8 where m8: "Suff8_block tc eos g (Fin m7) = Some (Fin m8, out8)"
      "0 \<le> m8" "m8 \<le> m7"
      using Suff8_block_range [OF m7(2)] by blast
    have "sCausalityConstraints tc eos g tau
              = Some (rescale (Fin m8) g,
                      out5 @ out8
                        @ (if epsilon g > Fin (1 / 100)
                           then [File_record ''sufficient_causality_reduction_factor_wtau.dat''
                                   (Fin m8) (epsilon g) tau]
                           else []))"
      by (simp add: sCausalityConstraints_def m0(1) m5(1) m7(1) m8(1))
    with m0 m5 m7 m8 show ?thesis by blast
  qed
  show ?thesis
    by (intro conjI f5 s5 s7 t7 f8 s8 chain)
qed


text \<open>The sufficiency functions at the example inputs.\<close>

lemma Suff5_quiet_conformal:
  "Suff5 (tc_of (1 / 2) 1) conformal_eos (Fin 1) quiet_cell = Fin (- 2)"
  "Suff5 (tc_of (1 / 2) 1) conformal_eos (Fin 0) quiet_cell = Fin (- 2)"
  by (simp_all add: Suff5_def Let_def tc_of_def conformal_eos_def quiet_cell_def coeffs)

lemma Suff5_quiet_soft:
  "Suff5 (tc_of (1 / 2) 1) soft_eos (Fin 1) quiet_cell = Fin (- 1639 / 900)"
  "Suff5 (tc_of (1 / 2) 1) soft_eos (Fin 0) quiet_cell = Fin (- 1639 / 900)"
  by (simp_all add: Suff5_def Let_def tc_of_def soft_eos_def quiet_cell_def coeffs)

lemma Suff5_swollen:
  "Suff5 (tc_of 5 1) conformal_eos (Fin 1) swollen_cell = Fin (- 2 / 5)"
  "Suff5 (tc_of 5 1) conformal_eos (Fin 0) swollen_cell = Fin (2 / 5)"
  by (simp_all add: Suff5_def Let_def tc_of_def conformal_eos_def swollen_cell_def quiet_cell_def
      coeffs)

lemma Suff7_pulled:
  "Suff7 (tc_of 1 1) conformal_eos (Fin 1) pulled_cell = Fin (- 2079 / 980)"
  by (simp add: Suff7_def Let_def tc_of_def conformal_eos_def pulled_cell_def quiet_cell_def
      coeffs)

lemma Suff8_quiet_soft:
  "Suff8 (tc_of 5 1) soft_eos (Fin 1) quiet_cell = Fin (- 41 / 900)"
  "Suff8 (tc_of 5 1) soft_eos (Fin 0) quiet_cell = Fin (- 41 / 900)"
  "Suff8 (tc_of 5 1) soft_eos (Fin (- 1)) quiet_cell = Fin (- 41 / 900)"
  by (simp_all add: Suff8_def Let_def tc_of_def soft_eos_def quiet_cell_def coeffs)

lemma Suff8_compressed:
  "Suff8 (tc_of 5 1) conformal_eos (Fin 1) compressed_cell = Fin (- 7 / 30)"
  "Suff8 (tc_of 5 1) conformal_eos (Fin 0) compressed_cell = Fin (2 / 15)"
  by (simp_all add: Suff8_def Let_def tc_of_def conformal_eos_def compressed_cell_def
      quiet_cell_def coeffs)


theorem bisection_failure_handling_witness:
  "(0::real) \<le> 1
   \<and> Suff5 (tc_of (1 / 2) 1) conformal_eos (Fin 1) quiet_cell < Fin 0
   \<and> Suff5 (tc_of (1 / 2) 1) conformal_eos (Fin 1) quiet_cell
        * Suff5 (tc_of (1 / 2) 1) conformal_eos (Fin 0) quiet_cell > Fin 0
   \<and> BinarySearch (Fin 0) (Fin 1)
        (\<lambda>beta. Suff5 (tc_of (1 / 2) 1) conformal_eos beta quiet_cell) (Fin 0)
       = Some (False, Fin 0, [])
   \<and> Suff5_block (tc_of (1 / 2) 1) conformal_eos quiet_cell (Fin 1)
       = Some (Fin 1, [Stdout ''Suff5 Fails Binary Search''])
   \<and> Suff5_block (tc_of (1 / 2) 1) soft_eos quiet_cell (Fin 1) = Some (Fin 0, [])
   \<and> Suff5 (tc_of 5 1) conformal_eos (Fin 1) swollen_cell < Fin 0
   \<and> (\<exists>y. 0 \<le> y \<and> y \<le> 1
         \<and> Suff5_block (tc_of 5 1) conformal_eos swollen_cell (Fin 1) = Some (Fin y, []))
   \<and> Suff7 (tc_of 1 1) conformal_eos (Fin 1) pulled_cell < Fin 0
   \<and> (\<exists>y. 0 \<le> y \<and> y \<le> 1
         \<and> BinarySearch (Fin 0) (Fin 1)
              (\<lambda>beta. Suff7 (tc_of 1 1) conformal_eos beta pulled_cell) (Fin 0)
             = Some (True, Fin y, [])
         \<and> Suff7_block (tc_of 1 1) conformal_eos pulled_cell (Fin 1) = Some (Fin y, []))
   \<and> Suff8 (tc_of 5 1) soft_eos (Fin 1) quiet_cell < Fin 0
   \<and> Suff8_block (tc_of 5 1) soft_eos quiet_cell (Fin 1)
       = Some (Fin 1, [Stdout ''Suff8 Fails Binary Search''])
   \<and> Suff8 (tc_of 5 1) conformal_eos (Fin 1) compressed_cell < Fin 0
   \<and> (\<exists>y. 0 \<le> y \<and> y \<le> 1
         \<and> Suff8_block (tc_of 5 1) conformal_eos compressed_cell (Fin 1) = Some (Fin y, []))
   \<and> (\<exists>m8 out. 0 \<le> m8 \<and> m8 \<le> 1
         \<and> sCausalityConstraints (tc_of (1 / 2) 1) soft_eos quiet_cell (Fin 1)
             = Some (rescale (Fin m8) quiet_cell, out))"
proof -
  have one: "(0::real) \<le> 1" by simp
  have wide: "(1::real) / 10000 < 1" by simp
  have c: "\<not> get_cs2 conformal_eos (epsilon quiet_cell) (rhob quiet_cell) < Fin (15 / 100)"
    "get_cs2 soft_eos (epsilon quiet_cell) (rhob quiet_cell) < Fin (15 / 100)"
    by (simp_all add: conformal_eos_def soft_eos_def)
  note a = bisection_failure_handling
             [OF one, where tc = "tc_of (1 / 2) 1" and eos = conformal_eos and g = quiet_cell]
  have a1: "BinarySearch (Fin 0) (Fin 1)
              (\<lambda>beta. Suff5 (tc_of (1 / 2) 1) conformal_eos beta quiet_cell) (Fin 0)
             = Some (False, Fin 0, [])"
    and a2: "Suff5_block (tc_of (1 / 2) 1) conformal_eos quiet_cell (Fin 1)
             = Some (Fin 1, [Stdout ''Suff5 Fails Binary Search''])"
    using a [THEN conjunct1] wide c(1) by (simp_all add: Suff5_quiet_conformal)
  note b = bisection_failure_handling
             [OF one, where tc = "tc_of (1 / 2) 1" and eos = soft_eos and g = quiet_cell
                and tau = "Fin 1"]
  have b1: "Suff5_block (tc_of (1 / 2) 1) soft_eos quiet_cell (Fin 1) = Some (Fin 0, [])"
    using b [THEN conjunct1] wide c(2) by (simp add: Suff5_quiet_soft)
  have b2: "\<exists>m8 out. 0 \<le> m8 \<and> m8 \<le> 1
         \<and> sCausalityConstraints (tc_of (1 / 2) 1) soft_eos quiet_cell (Fin 1)
             = Some (rescale (Fin m8) quiet_cell, out)"
  proof -
    from b obtain m0 m5 m7 m8 :: real and out where
      "0 \<le> m0" "m0 \<le> 1" "0 \<le> m5" "m5 \<le> m0" "0 \<le> m7" "m7 \<le> m5" "0 \<le> m8" "m8 \<le> m7"
      "sCausalityConstraints (tc_of (1 / 2) 1) soft_eos quiet_cell (Fin 1)
         = Some (rescale (Fin m8) quiet_cell, out)"
      by blast
    then have "0 \<le> m8 \<and> m8 \<le> 1
         \<and> sCausalityConstraints (tc_of (1 / 2) 1) soft_eos quiet_cell (Fin 1)
             = Some (rescale (Fin m8) quiet_cell, out)"
      by simp
    then show ?thesis by blast
  qed
  note d = bisection_failure_handling
             [OF one, where tc = "tc_of 5 1" and eos = conformal_eos and g = swollen_cell]
  have d1: "\<exists>y. 0 \<le> y \<and> y \<le> 1
         \<and> Suff5_block (tc_of 5 1) conformal_eos swollen_cell (Fin 1) = Some (Fin y, [])"
    using d [THEN conjunct2, THEN conjunct1] by (auto simp add: Suff5_swollen)
  note e = bisection_failure_handling
             [OF one, where tc = "tc_of 1 1" and eos = conformal_eos and g = pulled_cell]
  have e1: "\<exists>y. 0 \<le> y \<and> y \<le> 1
         \<and> BinarySearch (Fin 0) (Fin 1)
              (\<lambda>beta. Suff7 (tc_of 1 1) conformal_eos beta pulled_cell) (Fin 0)
             = Some (True, Fin y, [])
         \<and> Suff7_block (tc_of 1 1) conformal_eos pulled_cell (Fin 1) = Some (Fin y, [])"
    using e [THEN conjunct2, THEN conjunct2, THEN conjunct1] by (simp add: Suff7_pulled)
  note f = bisection_failure_handling
             [OF one, where tc = "tc_of 5 1" and eos = soft_eos and g = quiet_cell]
  have f1: "Suff8_block (tc_of 5 1) soft_eos quiet_cell (Fin 1)
       = Some (Fin 1, [Stdout ''Suff8 Fails Binary Search''])"
    using f [THEN conjunct2, THEN conjunct2, THEN conjunct2, THEN conjunct2, THEN conjunct1] wide
    by (simp add: Suff8_quiet_soft)
  note h = bisection_failure_handling
             [OF one, where tc = "tc_of 5 1" and eos = conformal_eos and g = compressed_cell]
  have h1: "\<exists>y. 0 \<le> y \<and> y \<le> 1
         \<and> Suff8_block (tc_of 5 1) conformal_eos compressed_cell (Fin 1) = Some (Fin y, [])"
    using h [THEN conjunct2, THEN conjunct2, THEN conjunct2, THEN conjunct2, THEN conjunct2,
             THEN conjunct1]
    by (auto simp add: Suff8_compressed)
  show ?thesis
    using a1 a2 b1 b2 d1 e1 f1 h1
    by (simp add: Suff5_quiet_conformal Suff5_swollen Suff7_pulled Suff8_quiet_soft
        Suff8_compressed)
qed

text \<open>
  The claim as written counts a malformed bracket and a bracket with values of the same
  sign at its ends among the failures. A bracket whose upper end is below its lower end
  never enters the loop of \<^verbatim>\<open>BinarySearch\<close>, which then reports success: on the
  bracket \<open>[0, -1]\<close> the third block prints nothing and replaces the factor by the
  untouched result 0. The same happens on a bracket no wider than \<open>10\<^sup>-\<^sup>4\<close>, which a
  run of \<^verbatim>\<open>sCausalityConstraints\<close> does reach: at the cell below the candidate loop
  leaves the factor \<open>7/75000\<close>, the second block finds \<^verbatim>\<open>Suff7\<close> negative there and
  replaces the factor by 0 without a search, and the third block finds \<^verbatim>\<open>Suff8\<close>
  negative at both ends of \<open>[0, 0]\<close> and prints nothing.
\<close>

lemma hauled_values:
  "sCausality_minBeta (tc_of 5 1) soft_eos hauled_cell = Fin (7 / 75000)"
  "Suff5 (tc_of 5 1) soft_eos (Fin (7 / 75000)) hauled_cell = Fin (553 / 58500)"
  "Suff7 (tc_of 5 1) soft_eos (Fin (7 / 75000)) hauled_cell = Fin (- 1411 / 9375)"
  "Suff8 (tc_of 5 1) soft_eos (Fin 0) hauled_cell = Fin (- 41 / 900)"
  by (simp_all add: sCausality_minBeta_def sCandidate_def sCondition_def min_step_def
      Suff5_def Suff7_def Suff8_def Let_def tc_of_def soft_eos_def hauled_cell_def
      quiet_cell_def coeffs)

lemma BinarySearch_narrow:
  "m \<le> 1 / 10000 \<Longrightarrow> BinarySearch (Fin 0) (Fin m) func (Fin 0) = Some (True, Fin 0, [])"
  by (subst BinarySearch.simps) simp

theorem bisection_failure_counterexample:
  "Suff8 (tc_of 5 1) soft_eos (Fin (- 1)) quiet_cell < Fin 0
   \<and> BinarySearch (Fin 0) (Fin (- 1))
        (\<lambda>beta. Suff8 (tc_of 5 1) soft_eos beta quiet_cell) (Fin 0)
       = Some (True, Fin 0, [])
   \<and> Suff8_block (tc_of 5 1) soft_eos quiet_cell (Fin (- 1)) = Some (Fin 0, [])
   \<and> sCausality_minBeta (tc_of 5 1) soft_eos hauled_cell = Fin (7 / 75000)
   \<and> Suff5_block (tc_of 5 1) soft_eos hauled_cell (Fin (7 / 75000))
       = Some (Fin (7 / 75000), [])
   \<and> Suff7 (tc_of 5 1) soft_eos (Fin (7 / 75000)) hauled_cell < Fin 0
   \<and> Suff7_block (tc_of 5 1) soft_eos hauled_cell (Fin (7 / 75000)) = Some (Fin 0, [])
   \<and> Suff8 (tc_of 5 1) soft_eos (Fin 0) hauled_cell < Fin 0
   \<and> BinarySearch (Fin 0) (Fin 0)
        (\<lambda>beta. Suff8 (tc_of 5 1) soft_eos beta hauled_cell) (Fin 0)
       = Some (True, Fin 0, [])
   \<and> Suff8_block (tc_of 5 1) soft_eos hauled_cell (Fin 0) = Some (Fin 0, [])
   \<and> sCausalityConstraints (tc_of 5 1) soft_eos hauled_cell (Fin 1)
       = Some (rescale (Fin 0) hauled_cell,
               [File_record ''sufficient_causality_reduction_factor_wtau.dat''
                  (Fin 0) (Fin (3 / 4)) (Fin 1)])"
proof -
  have n: "Suff8 (tc_of 5 1) soft_eos (Fin (- 1)) quiet_cell < Fin 0"
    by (simp add: Suff8_quiet_soft)
  have b: "BinarySearch (Fin 0) (Fin (- 1))
        (\<lambda>beta. Suff8 (tc_of 5 1) soft_eos beta quiet_cell) (Fin 0)
       = Some (True, Fin 0, [])"
    by (rule BinarySearch_narrow) simp
  from n b have m: "Suff8_block (tc_of 5 1) soft_eos quiet_cell (Fin (- 1)) = Some (Fin 0, [])"
    by (simp add: Suff8_block_def Suff8_status_def)
  have b5: "Suff5_block (tc_of 5 1) soft_eos hauled_cell (Fin (7 / 75000))
       = Some (Fin (7 / 75000), [])"
    by (simp add: Suff5_block_def hauled_values)
  have n7: "Suff7 (tc_of 5 1) soft_eos (Fin (7 / 75000)) hauled_cell < Fin 0"
    by (simp add: hauled_values)
  have s7: "BinarySearch (Fin 0) (Fin (7 / 75000))
        (\<lambda>beta. Suff7 (tc_of 5 1) soft_eos beta hauled_cell) (Fin 0)
       = Some (True, Fin 0, [])"
    by (rule BinarySearch_narrow) simp
  from n7 s7 have b7: "Suff7_block (tc_of 5 1) soft_eos hauled_cell (Fin (7 / 75000))
       = Some (Fin 0, [])"
    by (simp add: Suff7_block_def Suff7_status_def)
  have n8: "Suff8 (tc_of 5 1) soft_eos (Fin 0) hauled_cell < Fin 0"
    by (simp add: hauled_values)
  have s8: "BinarySearch (Fin 0) (Fin 0)
        (\<lambda>beta. Suff8 (tc_of 5 1) soft_eos beta hauled_cell) (Fin 0)
       = Some (True, Fin 0, [])"
    by (rule BinarySearch_narrow) simp
  from n8 s8 have b8: "Suff8_block (tc_of 5 1) soft_eos hauled_cell (Fin 0) = Some (Fin 0, [])"
    by (simp add: Suff8_block_def Suff8_status_def)
  have e: "epsilon hauled_cell = Fin (3 / 4)"
    by (simp add: hauled_cell_def quiet_cell_def)
  have run: "sCausalityConstraints (tc_of 5 1) soft_eos hauled_cell (Fin 1)
       = Some (rescale (Fin 0) hauled_cell,
               [File_record ''sufficient_causality_reduction_factor_wtau.dat''
                  (Fin 0) (Fin (3 / 4)) (Fin 1)])"
    by (simp add: sCausalityConstraints_def hauled_values(1) b5 b7 b8 e)
  from n b m hauled_values(1) b5 n7 b7 n8 s8 b8 run show ?thesis by blast
qed

subsection \<open>The ideal update\<close>

text \<open>
  Claim C1. When the collaborators return, \<^verbatim>\<open>FirstRKStepT\<close> hands the
  reconstruction a vector whose component \<open>alpha < 5\<close> is: for sub-step 0, the raw update
  (flux update minus dissipative source plus external source); for sub-step 1, the raw
  update plus the previous cell's component times the proper time, multiplied by one
  half. The reconstructed primitives are stored in the future cell. At sub-step 0 the
  code adds the weight 0 times the previous component times the proper time; both are
  finite in the cells of a run, so the term is a zero and the sum is the raw update
  itself. Only a raw update that is the negative zero can come out as the positive zero,
  which compares equal to it.
\<close>

theorem sub_step_weighting:
  assumes "MakeDeltaQI co (tau + of_int_d rk_flag * delta_tau DATA) rk_flag = Inr qi"
    and "FirstRKStepT_source DATA co (tau + of_int_d rk_flag * delta_tau DATA)
           x_local y_local eta_s_local cell_current = Inr qi_source"
    and "alpha < 5"
  shows "\<exists>qi'.
      FirstRKStepT_qi DATA eos co tau x_local y_local eta_s_local cell_current cell_prev
          rk_flag = Inr qi'
      \<and> FirstRKStepT DATA eos co tau x_local y_local eta_s_local cell_current cell_future
          cell_prev rk_flag
          = Inr (UpdateTJbRK (ReconstIt_shell co (tau + delta_tau DATA) qi' cell_current)
                   cell_future)
      \<and> (rk_flag = 0 \<and> isfinite (get_TJb eos cell_prev alpha 0) \<and> isfinite tau \<longrightarrow>
           qi' alpha
             = FirstRKStepT_raw DATA qi
                 (MakeWSource co (tau + of_int_d rk_flag * delta_tau DATA)) qi_source alpha
           \<or> (FirstRKStepT_raw DATA qi
                 (MakeWSource co (tau + of_int_d rk_flag * delta_tau DATA)) qi_source alpha
                = MZero
              \<and> qi' alpha = Fin 0))
      \<and> (rk_flag = 1 \<longrightarrow>
           qi' alpha
             = (FirstRKStepT_raw DATA qi
                  (MakeWSource co (tau + of_int_d rk_flag * delta_tau DATA)) qi_source alpha
                + get_TJb eos cell_prev alpha 0 * tau) * Fin (1 / 2))"
proof -
  define raw where
    "raw = FirstRKStepT_raw DATA qi
             (MakeWSource co (tau + of_int_d rk_flag * delta_tau DATA)) qi_source alpha"
  define qi' where
    "qi' = (\<lambda>alpha. if alpha < 5 then
              (FirstRKStepT_raw DATA qi
                 (MakeWSource co (tau + of_int_d rk_flag * delta_tau DATA)) qi_source alpha
               + of_int_d rk_flag * get_TJb eos cell_prev alpha 0 * tau)
                * (Fin 1 / (Fin 1 + of_int_d rk_flag))
            else qi alpha)"
  have run: "FirstRKStepT_qi DATA eos co tau x_local y_local eta_s_local cell_current cell_prev
          rk_flag = Inr qi'"
    using assms(1,2) by (simp add: FirstRKStepT_qi_def Let_def qi'_def)
  then have store: "FirstRKStepT DATA eos co tau x_local y_local eta_s_local cell_current
          cell_future cell_prev rk_flag
          = Inr (UpdateTJbRK (ReconstIt_shell co (tau + delta_tau DATA) qi' cell_current)
                   cell_future)"
    by (simp add: FirstRKStepT_def Let_def)
  have val: "qi' alpha = (raw + of_int_d rk_flag * get_TJb eos cell_prev alpha 0 * tau)
                           * (Fin 1 / (Fin 1 + of_int_d rk_flag))"
    using assms(3) by (simp add: qi'_def raw_def)
  have zero: "rk_flag = 0 \<and> isfinite (get_TJb eos cell_prev alpha 0) \<and> isfinite tau \<longrightarrow>
                qi' alpha = raw \<or> (raw = MZero \<and> qi' alpha = Fin 0)"
  proof (intro impI, elim conjE)
    assume "rk_flag = 0" and fin: "isfinite (get_TJb eos cell_prev alpha 0)" "isfinite tau"
    then have v: "qi' alpha = raw + Fin 0 * get_TJb eos cell_prev alpha 0 * tau"
      by (simp add: val of_int_d_def)
    from add_zero_cases [OF zero_weight [OF fin], of raw]
    show "qi' alpha = raw \<or> (raw = MZero \<and> qi' alpha = Fin 0)"
      unfolding v by blast
  qed
  have one: "rk_flag = 1 \<longrightarrow> qi' alpha = (raw + get_TJb eos cell_prev alpha 0 * tau) * Fin (1 / 2)"
    by (simp add: val of_int_d_def)
  from run store zero one show ?thesis
    unfolding raw_def by blast
qed

theorem sub_step_weighting_witness:
  "MakeDeltaQI plain_ideal (Fin 1 + of_int_d 0 * delta_tau example_DATA) 0 = Inr (\<lambda>alpha. Fin 1)
   \<and> FirstRKStepT_source example_DATA plain_ideal (Fin 1 + of_int_d 0 * delta_tau example_DATA)
        (Fin 0) (Fin 0) (Fin 0) quiet_cell = Inr (\<lambda>i. Fin 0)
   \<and> (0::nat) < 5
   \<and> isfinite (get_TJb conformal_eos quiet_cell 0 0) \<and> isfinite (Fin 1)
   \<and> (\<exists>qi'. FirstRKStepT_qi example_DATA conformal_eos plain_ideal (Fin 1) (Fin 0) (Fin 0)
               (Fin 0) quiet_cell quiet_cell 0 = Inr qi'
             \<and> qi' 0 = Fin 1)
   \<and> (\<exists>qi'. FirstRKStepT_qi example_DATA conformal_eos plain_ideal (Fin 1) (Fin 0) (Fin 0)
               (Fin 0) quiet_cell quiet_cell 1 = Inr qi'
             \<and> qi' 0 = Fin (7 / 8))"
proof -
  have T: "get_TJb conformal_eos quiet_cell 0 0 = Fin (3 / 4)"
    by (simp add: get_TJb_def conformal_eos_def quiet_cell_def)
  have m: "\<And>t k. MakeDeltaQI plain_ideal t k = Inr (\<lambda>alpha. Fin 1)"
    by (simp add: plain_ideal_def)
  have s: "\<And>t. FirstRKStepT_source example_DATA plain_ideal t (Fin 0) (Fin 0) (Fin 0) quiet_cell
             = Inr (\<lambda>i. Fin 0)"
    by (simp add: FirstRKStepT_source_def plain_ideal_def)
  have raw: "\<And>t. FirstRKStepT_raw example_DATA (\<lambda>alpha. Fin 1) (MakeWSource plain_ideal t)
               (\<lambda>i. Fin 0) 0 = Fin 1"
    by (simp add: FirstRKStepT_raw_def plain_ideal_def example_DATA_def minus_double_def)
  from sub_step_weighting
         [where co = plain_ideal and tau = "Fin 1" and rk_flag = 0 and DATA = example_DATA
            and qi = "\<lambda>alpha. Fin 1" and qi_source = "\<lambda>i. Fin 0" and alpha = 0
            and x_local = "Fin 0" and y_local = "Fin 0" and eta_s_local = "Fin 0"
            and cell_current = quiet_cell and cell_prev = quiet_cell and eos = conformal_eos,
          OF m s]
  have w0: "\<exists>qi'. FirstRKStepT_qi example_DATA conformal_eos plain_ideal (Fin 1) (Fin 0) (Fin 0)
               (Fin 0) quiet_cell quiet_cell 0 = Inr qi' \<and> qi' 0 = Fin 1"
    by (auto simp add: T raw)
  from sub_step_weighting
         [where co = plain_ideal and tau = "Fin 1" and rk_flag = 1 and DATA = example_DATA
            and qi = "\<lambda>alpha. Fin 1" and qi_source = "\<lambda>i. Fin 0" and alpha = 0
            and x_local = "Fin 0" and y_local = "Fin 0" and eta_s_local = "Fin 0"
            and cell_current = quiet_cell and cell_prev = quiet_cell and eos = conformal_eos,
          OF m s]
  have w1: "\<exists>qi'. FirstRKStepT_qi example_DATA conformal_eos plain_ideal (Fin 1) (Fin 0) (Fin 0)
               (Fin 0) quiet_cell quiet_cell 1 = Inr qi' \<and> qi' 0 = Fin (7 / 8)"
    by (auto simp add: T raw)
  from m s T w0 w1 show ?thesis by simp
qed

text \<open>
  Claim C7. A not-a-number in one of the four energy-momentum sources ends the process;
  the charge source is stored without the test.
\<close>

lemma qi_source_loop_nan:
  "ii \<in> set iis \<Longrightarrow> isnan (tau_rk * j_mu ii) \<Longrightarrow>
     \<exists>k \<in> set iis. qi_source_loop tau_rk j_mu iis qi_source = Inl (Qi_source_is_nan k)"
  by (induction iis arbitrary: qi_source) auto

lemma energy_momentum_source_nan_is_fatal:
  assumes "flag_add_hydro_source co" and "ii < 4"
    and "isnan ((tau + of_int_d rk_flag * delta_tau DATA)
                * get_hydro_energy_source co (tau + of_int_d rk_flag * delta_tau DATA)
                    x_local y_local eta_s_local (u cell_current) ii)"
  shows "\<exists>stop. FirstRKStepT DATA eos co tau x_local y_local eta_s_local cell_current
                   cell_future cell_prev rk_flag = Inl stop"
proof -
  define tau_rk where "tau_rk = tau + of_int_d rk_flag * delta_tau DATA"
  define j_mu where
    "j_mu = get_hydro_energy_source co tau_rk x_local y_local eta_s_local (u cell_current)"
  have "ii \<in> set [0, 1, 2, 3]" using assms(2) by auto
  moreover have "isnan (tau_rk * j_mu ii)"
    using assms(3) by (simp add: tau_rk_def j_mu_def)
  ultimately obtain k where
    "qi_source_loop tau_rk j_mu [0, 1, 2, 3] (\<lambda>i. Fin 0) = Inl (Qi_source_is_nan k)"
    using qi_source_loop_nan
            [where ii = ii and iis = "[0, 1, 2, 3]" and tau_rk = tau_rk and j_mu = j_mu
               and qi_source = "\<lambda>i. Fin 0"]
    by blast
  then show ?thesis
    using assms(1)
    by (simp add: FirstRKStepT_def FirstRKStepT_qi_def FirstRKStepT_source_def Let_def
        tau_rk_def j_mu_def split: sum.splits)
qed

text \<open>
  At a charge source that is not-a-number (with finite energy-momentum sources and
  \<^verbatim>\<open>turn_on_rhob = 1\<close>) \<^verbatim>\<open>FirstRKStepT\<close> returns: the charge component of the
  conserved vector is not-a-number and so is the charge density stored in the future
  cell.
\<close>

theorem charge_source_nan_not_fatal:
  "\<exists>qi cell.
     FirstRKStepT_qi example_DATA conformal_eos nan_charge_source (Fin 1) (Fin 0) (Fin 0)
         (Fin 0) quiet_cell quiet_cell 0 = Inr qi
     \<and> isnan (qi 4)
     \<and> FirstRKStepT example_DATA conformal_eos nan_charge_source (Fin 1) (Fin 0) (Fin 0)
         (Fin 0) quiet_cell quiet_cell quiet_cell 0 = Inr cell
     \<and> isnan (rhob cell)"
  by (simp add: FirstRKStepT_def FirstRKStepT_qi_def FirstRKStepT_source_def
      FirstRKStepT_raw_def UpdateTJbRK_def Let_def
      nan_charge_source_def example_DATA_def of_int_d_def minus_double_def)

subsection \<open>The dissipative update\<close>

lemma evolve_pi_b:
  "pi_b (FirstRKStepW_evolve DATA util diss tau_now rk_flag grid_pt_prev grid_pt_c grid_pt_f)
     = (if turn_on_bulk DATA = 1
        then bulk_update DATA diss tau_now rk_flag grid_pt_prev grid_pt_c grid_pt_f
        else Fin 0)"
  by (simp add: FirstRKStepW_evolve_def Let_def)

lemma evolve_Wmunu:
  "Wmunu (FirstRKStepW_evolve DATA util diss tau_now rk_flag grid_pt_prev grid_pt_c grid_pt_f) idx_1d
     = (if 4 \<le> idx_1d \<and> idx_1d < 9 then
          (if turn_on_shear DATA = 1
           then shear_update DATA util diss tau_now rk_flag grid_pt_prev grid_pt_c grid_pt_f idx_1d
           else Fin 0)
        else if 11 \<le> idx_1d \<and> idx_1d < 14 then
          (if turn_on_diff DATA = 1
           then diff_update DATA diss tau_now rk_flag grid_pt_prev grid_pt_c grid_pt_f idx_1d
           else Fin 0)
        else if idx_1d = 10 \<and> turn_on_diff DATA \<noteq> 1 then Fin 0
        else Wmunu grid_pt_f idx_1d)"
  by (simp add: FirstRKStepW_evolve_def Let_def)

lemma evolve_u: "u (FirstRKStepW_evolve DATA util diss tau_now rk_flag p c f) = u f"
  by (simp add: FirstRKStepW_evolve_def Let_def)

lemma make_W33_frame:
  "pi_b (make_W33 g) = pi_b g" "u (make_W33 g) = u g"
  "idx \<noteq> 9 \<Longrightarrow> Wmunu (make_W33 g) idx = Wmunu g idx"
  by (simp_all add: make_W33_def)

lemma make_Wi0_round_frame:
  "pi_b (make_Wi0_round util g mu) = pi_b g" "u (make_Wi0_round util g mu) = u g"
  "idx \<noteq> mu \<Longrightarrow> Wmunu (make_Wi0_round util g mu) idx = Wmunu g idx"
  by (simp_all add: make_Wi0_round_def Let_def)

lemma make_Wi0_frame:
  "pi_b (make_Wi0 util g) = pi_b g" "u (make_Wi0 util g) = u g"
  "3 < idx \<Longrightarrow> Wmunu (make_Wi0 util g) idx = Wmunu g idx"
  by (simp_all add: make_Wi0_def make_Wi0_round_frame)

lemma make_W00_frame:
  "pi_b (make_W00 g) = pi_b g" "u (make_W00 g) = u g"
  "idx \<noteq> 0 \<Longrightarrow> Wmunu (make_W00 g) idx = Wmunu g idx"
  by (simp_all add: make_W00_def Let_def)

lemma solveEigenvaluesWmunu_frame:
  "pi_b (solveEigenvaluesWmunu diss g) = pi_b g" "u (solveEigenvaluesWmunu diss g) = u g"
  "Wmunu (solveEigenvaluesWmunu diss g) = Wmunu g"
  by (simp_all add: solveEigenvaluesWmunu_def Let_def split: prod.splits)

lemma make_q0_frame:
  "pi_b (make_q0 DATA util g) = pi_b g" "u (make_q0 DATA util g) = u g"
  "idx \<noteq> 10 \<Longrightarrow> Wmunu (make_q0 DATA util g) idx = Wmunu g idx"
  by (simp_all add: make_q0_def Let_def)

lemma derived_steps_frame:
  "pi_b (make_q0 DATA util (solveEigenvaluesWmunu diss (make_W00 (make_Wi0 util (make_W33 f)))))
     = pi_b f"
  "3 < idx \<Longrightarrow> idx \<noteq> 9 \<Longrightarrow> idx \<noteq> 10 \<Longrightarrow>
   Wmunu (make_q0 DATA util (solveEigenvaluesWmunu diss (make_W00 (make_Wi0 util (make_W33 f))))) idx
     = Wmunu f idx"
  by (simp_all add: make_q0_frame solveEigenvaluesWmunu_frame make_W00_frame make_Wi0_frame
      make_W33_frame)

lemma FirstRKStepW_unregularized:
  "Initial_profile DATA = 0 \<or> Initial_profile DATA = 1 \<Longrightarrow>
   FirstRKStepW DATA eos util tc diss tau grid_pt_prev grid_pt_c grid_pt_f rk_flag ieta ix iy
     = Some (make_q0 DATA util (solveEigenvaluesWmunu diss (make_W00 (make_Wi0 util (make_W33
               (FirstRKStepW_evolve DATA util diss (tau + of_int_d rk_flag * delta_tau DATA)
                  rk_flag grid_pt_prev grid_pt_c grid_pt_f))))), [])"
  by (auto simp add: FirstRKStepW_def regularize_def Let_def)

text \<open>
  Claim C2, as amended. For each enabled dissipative quantity (the shear components 4 to
  8, the bulk pressure, the diffusion components 11 to 13), \<^verbatim>\<open>FirstRKStepW\<close> computes
  the future value as
  \<open>[(1 - w) (current u\<^sup>0) + w (previous u\<^sup>0\<^sub>p\<^sub>r\<^sub>e\<^sub>v) + source \<Delta>\<tau> + flux + w (current u\<^sup>0)]\<close>
  times \<open>1 / (1 + w)\<close>, divided by the future \<open>u\<^sup>0\<close>. When the regularization is off
  (initial profile 0 or 1) these are the values of the cell that \<^verbatim>\<open>FirstRKStepW\<close>
  returns.
\<close>

theorem dissipative_update_formula:
  "(turn_on_shear DATA = 1 \<and> 4 \<le> idx_1d \<and> idx_1d < 9 \<longrightarrow>
      Wmunu (FirstRKStepW_evolve DATA util diss (tau + of_int_d rk_flag * delta_tau DATA) rk_flag
               grid_pt_prev grid_pt_c grid_pt_f) idx_1d
        = rk_dissipative_update (of_int_d rk_flag)
            (Wmunu grid_pt_c idx_1d) (u grid_pt_c 0) (Wmunu grid_pt_prev idx_1d) (u grid_pt_prev 0)
            (Make_uWRHS diss (tau + of_int_d rk_flag * delta_tau DATA)
               (fst (map_1d_idx_to_2d util idx_1d)) (snd (map_1d_idx_to_2d util idx_1d)))
            (Make_uWSource diss (tau + of_int_d rk_flag * delta_tau DATA) grid_pt_c grid_pt_prev
               (fst (map_1d_idx_to_2d util idx_1d)) (snd (map_1d_idx_to_2d util idx_1d)) rk_flag)
            (delta_tau DATA) (u grid_pt_f 0))
   \<and> (turn_on_bulk DATA = 1 \<longrightarrow>
      pi_b (FirstRKStepW_evolve DATA util diss (tau + of_int_d rk_flag * delta_tau DATA) rk_flag
              grid_pt_prev grid_pt_c grid_pt_f)
        = rk_dissipative_update (of_int_d rk_flag)
            (pi_b grid_pt_c) (u grid_pt_c 0) (pi_b grid_pt_prev) (u grid_pt_prev 0)
            (Make_uPRHS diss (tau + of_int_d rk_flag * delta_tau DATA))
            (Make_uPiSource diss (tau + of_int_d rk_flag * delta_tau DATA) grid_pt_c grid_pt_prev
               rk_flag)
            (delta_tau DATA) (u grid_pt_f 0))
   \<and> (turn_on_diff DATA = 1 \<and> 11 \<le> idx_1d \<and> idx_1d < 14 \<longrightarrow>
      Wmunu (FirstRKStepW_evolve DATA util diss (tau + of_int_d rk_flag * delta_tau DATA) rk_flag
               grid_pt_prev grid_pt_c grid_pt_f) idx_1d
        = rk_dissipative_update (of_int_d rk_flag)
            (Wmunu grid_pt_c idx_1d) (u grid_pt_c 0) (Wmunu grid_pt_prev idx_1d) (u grid_pt_prev 0)
            (Make_uqRHS diss (tau + of_int_d rk_flag * delta_tau DATA) 4 (idx_1d - 10))
            (Make_uqSource diss (tau + of_int_d rk_flag * delta_tau DATA) grid_pt_c grid_pt_prev
               (idx_1d - 10) rk_flag)
            (delta_tau DATA) (u grid_pt_f 0))
   \<and> (Initial_profile DATA = 0 \<or> Initial_profile DATA = 1 \<longrightarrow>
      (\<exists>grid_pt' out.
         FirstRKStepW DATA eos util tc diss tau grid_pt_prev grid_pt_c grid_pt_f rk_flag ieta ix iy
           = Some (grid_pt', out)
         \<and> pi_b grid_pt'
             = pi_b (FirstRKStepW_evolve DATA util diss (tau + of_int_d rk_flag * delta_tau DATA)
                       rk_flag grid_pt_prev grid_pt_c grid_pt_f)
         \<and> ((4 \<le> idx_1d \<and> idx_1d < 9) \<or> (11 \<le> idx_1d \<and> idx_1d < 14) \<longrightarrow>
              Wmunu grid_pt' idx_1d
                = Wmunu (FirstRKStepW_evolve DATA util diss
                           (tau + of_int_d rk_flag * delta_tau DATA) rk_flag grid_pt_prev
                           grid_pt_c grid_pt_f) idx_1d)))"
proof -
  have shear: "turn_on_shear DATA = 1 \<and> 4 \<le> idx_1d \<and> idx_1d < 9 \<longrightarrow>
      Wmunu (FirstRKStepW_evolve DATA util diss (tau + of_int_d rk_flag * delta_tau DATA) rk_flag
               grid_pt_prev grid_pt_c grid_pt_f) idx_1d
        = rk_dissipative_update (of_int_d rk_flag)
            (Wmunu grid_pt_c idx_1d) (u grid_pt_c 0) (Wmunu grid_pt_prev idx_1d) (u grid_pt_prev 0)
            (Make_uWRHS diss (tau + of_int_d rk_flag * delta_tau DATA)
               (fst (map_1d_idx_to_2d util idx_1d)) (snd (map_1d_idx_to_2d util idx_1d)))
            (Make_uWSource diss (tau + of_int_d rk_flag * delta_tau DATA) grid_pt_c grid_pt_prev
               (fst (map_1d_idx_to_2d util idx_1d)) (snd (map_1d_idx_to_2d util idx_1d)) rk_flag)
            (delta_tau DATA) (u grid_pt_f 0)"
    by (simp add: evolve_Wmunu shear_update_def rk_dissipative_update_def Let_def
        split: prod.splits)
  have bulk: "turn_on_bulk DATA = 1 \<longrightarrow>
      pi_b (FirstRKStepW_evolve DATA util diss (tau + of_int_d rk_flag * delta_tau DATA) rk_flag
              grid_pt_prev grid_pt_c grid_pt_f)
        = rk_dissipative_update (of_int_d rk_flag)
            (pi_b grid_pt_c) (u grid_pt_c 0) (pi_b grid_pt_prev) (u grid_pt_prev 0)
            (Make_uPRHS diss (tau + of_int_d rk_flag * delta_tau DATA))
            (Make_uPiSource diss (tau + of_int_d rk_flag * delta_tau DATA) grid_pt_c grid_pt_prev
               rk_flag)
            (delta_tau DATA) (u grid_pt_f 0)"
    by (simp add: evolve_pi_b bulk_update_def rk_dissipative_update_def Let_def)
  have diff: "turn_on_diff DATA = 1 \<and> 11 \<le> idx_1d \<and> idx_1d < 14 \<longrightarrow>
      Wmunu (FirstRKStepW_evolve DATA util diss (tau + of_int_d rk_flag * delta_tau DATA) rk_flag
               grid_pt_prev grid_pt_c grid_pt_f) idx_1d
        = rk_dissipative_update (of_int_d rk_flag)
            (Wmunu grid_pt_c idx_1d) (u grid_pt_c 0) (Wmunu grid_pt_prev idx_1d) (u grid_pt_prev 0)
            (Make_uqRHS diss (tau + of_int_d rk_flag * delta_tau DATA) 4 (idx_1d - 10))
            (Make_uqSource diss (tau + of_int_d rk_flag * delta_tau DATA) grid_pt_c grid_pt_prev
               (idx_1d - 10) rk_flag)
            (delta_tau DATA) (u grid_pt_f 0)"
    by (simp add: evolve_Wmunu diff_update_def rk_dissipative_update_def Let_def)
  have whole: "Initial_profile DATA = 0 \<or> Initial_profile DATA = 1 \<longrightarrow>
      (\<exists>grid_pt' out.
         FirstRKStepW DATA eos util tc diss tau grid_pt_prev grid_pt_c grid_pt_f rk_flag ieta ix iy
           = Some (grid_pt', out)
         \<and> pi_b grid_pt'
             = pi_b (FirstRKStepW_evolve DATA util diss (tau + of_int_d rk_flag * delta_tau DATA)
                       rk_flag grid_pt_prev grid_pt_c grid_pt_f)
         \<and> ((4 \<le> idx_1d \<and> idx_1d < 9) \<or> (11 \<le> idx_1d \<and> idx_1d < 14) \<longrightarrow>
              Wmunu grid_pt' idx_1d
                = Wmunu (FirstRKStepW_evolve DATA util diss
                           (tau + of_int_d rk_flag * delta_tau DATA) rk_flag grid_pt_prev
                           grid_pt_c grid_pt_f) idx_1d))"
    by (auto simp add: FirstRKStepW_unregularized derived_steps_frame)
  from shear bulk diff whole show ?thesis by blast
qed

theorem dissipative_update_formula_witness:
  "turn_on_shear example_DATA = 1 \<and> (4::nat) \<le> 4 \<and> (4::nat) < 9
   \<and> Wmunu (FirstRKStepW_evolve example_DATA example_util still_diss
              (Fin 1 + of_int_d 1 * delta_tau example_DATA) 1
              quiet_cell (quiet_cell\<lparr>Wmunu := (\<lambda>i. Fin 2), pi_b := Fin 2\<rparr>) quiet_cell) 4 = Fin 1
   \<and> turn_on_bulk example_DATA = 1
   \<and> pi_b (FirstRKStepW_evolve example_DATA example_util still_diss
              (Fin 1 + of_int_d 1 * delta_tau example_DATA) 1
              quiet_cell (quiet_cell\<lparr>Wmunu := (\<lambda>i. Fin 2), pi_b := Fin 2\<rparr>) quiet_cell) = Fin 1
   \<and> turn_on_diff (example_DATA\<lparr>turn_on_diff := 1\<rparr>) = 1 \<and> (11::nat) \<le> 11 \<and> (11::nat) < 14
   \<and> Wmunu (FirstRKStepW_evolve (example_DATA\<lparr>turn_on_diff := 1\<rparr>) example_util still_diss
              (Fin 1 + of_int_d 1 * delta_tau (example_DATA\<lparr>turn_on_diff := 1\<rparr>)) 1
              quiet_cell (quiet_cell\<lparr>Wmunu := (\<lambda>i. Fin 2), pi_b := Fin 2\<rparr>) quiet_cell) 11 = Fin 1
   \<and> Initial_profile example_DATA = 0
   \<and> (\<exists>grid_pt' out.
         FirstRKStepW example_DATA conformal_eos example_util (tc_of 5 1) still_diss (Fin 1)
             quiet_cell (quiet_cell\<lparr>Wmunu := (\<lambda>i. Fin 2), pi_b := Fin 2\<rparr>) quiet_cell 1 0 0 0
           = Some (grid_pt', out)
         \<and> pi_b grid_pt' = Fin 1 \<and> Wmunu grid_pt' 4 = Fin 1)"
proof -
  let ?c = "quiet_cell\<lparr>Wmunu := (\<lambda>i. Fin 2), pi_b := Fin 2\<rparr>"
  let ?D = "example_DATA\<lparr>turn_on_diff := 1\<rparr>"
  have flags: "turn_on_shear example_DATA = 1" "turn_on_bulk example_DATA = 1"
    "Initial_profile example_DATA = 0" "turn_on_diff ?D = 1"
    by (simp_all add: example_DATA_def)
  have dt: "delta_tau ?D = delta_tau example_DATA" by simp
  have v: "rk_dissipative_update (of_int_d 1) (Fin 2) (Fin 1) (Fin 0) (Fin 1) (Fin 0) (Fin 0)
             (delta_tau example_DATA) (Fin 1) = Fin 1"
    by (simp add: rk_dissipative_update_def of_int_d_def example_DATA_def minus_double_def)
  have cells: "Wmunu ?c 4 = Fin 2" "Wmunu ?c 11 = Fin 2" "pi_b ?c = Fin 2" "u ?c 0 = Fin 1"
    "Wmunu quiet_cell 4 = Fin 0" "Wmunu quiet_cell 11 = Fin 0"
    "pi_b quiet_cell = Fin 0" "u quiet_cell 0 = Fin 1"
    by (simp_all add: quiet_cell_def)
  have d: "\<And>t a b. Make_uWRHS still_diss t a b = Fin 0"
    "\<And>t c p a b k. Make_uWSource still_diss t c p a b k = Fin 0"
    "\<And>t. Make_uPRHS still_diss t = Fin 0"
    "\<And>t c p k. Make_uPiSource still_diss t c p k = Fin 0"
    "\<And>t a b. Make_uqRHS still_diss t a b = Fin 0"
    "\<And>t c p a k. Make_uqSource still_diss t c p a k = Fin 0"
    by (simp_all add: still_diss_def)
  from dissipative_update_formula
         [where DATA = example_DATA and idx_1d = 4 and util = example_util and diss = still_diss
            and tau = "Fin 1" and rk_flag = 1 and grid_pt_prev = quiet_cell and grid_pt_c = ?c
            and grid_pt_f = quiet_cell and eos = conformal_eos and tc = "tc_of 5 1"
            and ieta = 0 and ix = 0 and iy = 0]
  have A: "Wmunu (FirstRKStepW_evolve example_DATA example_util still_diss
              (Fin 1 + of_int_d 1 * delta_tau example_DATA) 1 quiet_cell ?c quiet_cell) 4 = Fin 1"
    "pi_b (FirstRKStepW_evolve example_DATA example_util still_diss
              (Fin 1 + of_int_d 1 * delta_tau example_DATA) 1 quiet_cell ?c quiet_cell) = Fin 1"
    "\<exists>grid_pt' out.
         FirstRKStepW example_DATA conformal_eos example_util (tc_of 5 1) still_diss (Fin 1)
             quiet_cell ?c quiet_cell 1 0 0 0 = Some (grid_pt', out)
         \<and> pi_b grid_pt' = Fin 1 \<and> Wmunu grid_pt' 4 = Fin 1"
    unfolding cells d v using flags by auto
  from dissipative_update_formula
         [where DATA = ?D and idx_1d = 11 and util = example_util and diss = still_diss
            and tau = "Fin 1" and rk_flag = 1 and grid_pt_prev = quiet_cell and grid_pt_c = ?c
            and grid_pt_f = quiet_cell]
  have B: "Wmunu (FirstRKStepW_evolve ?D example_util still_diss
              (Fin 1 + of_int_d 1 * delta_tau ?D) 1 quiet_cell ?c quiet_cell) 11 = Fin 1"
    unfolding cells d dt v using flags by auto
  from A B flags show ?thesis by simp
qed

text \<open>
  The claim as written fails at sub-step 1: with current bulk pressure 2, previous bulk
  pressure 0, all \<open>u\<^sup>0 = 1\<close> and no flux or source, the code stores 1 where the
  rule of the specification gives 0.
\<close>

theorem dissipative_update_counterexample:
  "\<exists>grid_pt' out.
     FirstRKStepW example_DATA conformal_eos example_util (tc_of 5 1) still_diss (Fin 1)
         quiet_cell (quiet_cell\<lparr>pi_b := Fin 2\<rparr>) quiet_cell 1 0 0 0
       = Some (grid_pt', out)
     \<and> pi_b grid_pt' = Fin 1
     \<and> spec_dissipative_update (of_int_d 1)
          (pi_b (quiet_cell\<lparr>pi_b := Fin 2\<rparr>)) (u (quiet_cell\<lparr>pi_b := Fin 2\<rparr>) 0)
          (pi_b quiet_cell) (u quiet_cell 0)
          (Make_uPRHS still_diss (Fin 1 + of_int_d 1 * delta_tau example_DATA))
          (Make_uPiSource still_diss (Fin 1 + of_int_d 1 * delta_tau example_DATA)
             (quiet_cell\<lparr>pi_b := Fin 2\<rparr>) quiet_cell 1)
          (delta_tau example_DATA) (u quiet_cell 0)
        = Fin 0"
proof -
  let ?c = "quiet_cell\<lparr>pi_b := Fin 2\<rparr>"
  let ?t = "Fin 1 + of_int_d 1 * delta_tau example_DATA"
  have cells: "pi_b ?c = Fin 2" "u ?c 0 = Fin 1" "pi_b quiet_cell = Fin 0"
    "u quiet_cell 0 = Fin 1"
    by (simp_all add: quiet_cell_def)
  have d: "Make_uPRHS still_diss ?t = Fin 0" "Make_uPiSource still_diss ?t ?c quiet_cell 1 = Fin 0"
    by (simp_all add: still_diss_def)
  have code: "bulk_update example_DATA still_diss ?t 1 quiet_cell ?c quiet_cell = Fin 1"
    unfolding bulk_update_def Let_def cells d
    by (simp add: of_int_d_def example_DATA_def minus_double_def)
  have spec: "spec_dissipative_update (of_int_d 1) (Fin 2) (Fin 1) (Fin 0) (Fin 1) (Fin 0) (Fin 0)
                (delta_tau example_DATA) (Fin 1) = Fin 0"
    by (simp add: spec_dissipative_update_def of_int_d_def example_DATA_def minus_double_def)
  have "Initial_profile example_DATA = 0 \<or> Initial_profile example_DATA = 1"
    by (simp add: example_DATA_def)
  from FirstRKStepW_unregularized [OF this]
  have run: "FirstRKStepW example_DATA conformal_eos example_util (tc_of 5 1) still_diss (Fin 1)
               quiet_cell ?c quiet_cell 1 0 0 0
             = Some (make_q0 example_DATA example_util (solveEigenvaluesWmunu still_diss
                 (make_W00 (make_Wi0 example_util (make_W33
                   (FirstRKStepW_evolve example_DATA example_util still_diss ?t 1 quiet_cell ?c
                      quiet_cell))))), [])"
    by simp
  have bulk_on: "turn_on_bulk example_DATA = 1" by (simp add: example_DATA_def)
  show ?thesis
    unfolding run cells d spec
    by (simp add: derived_steps_frame(1) evolve_pi_b bulk_on code)
qed

subsection \<open>The maximum signal speed\<close>

text \<open>The numerator and the quotient of \<^verbatim>\<open>MaxSpeed\<close> at the example faces.\<close>

lemma num_normal: "MaxSpeed_num conformal_eos 1 (face 1 (5/2) (3/2)) = Inr (Fin (7/2))"
  by (simp add: MaxSpeed_num_def Let_def conformal_eos_def face_def minus_double_def)

lemma quot_normal: "MaxSpeed_quotient conformal_eos example_util 1 (face 1 (5/2) (3/2)) (Fin (7/2)) = Fin (7/9)"
  by (simp add: MaxSpeed_quotient_def Let_def conformal_eos_def face_def minus_double_def std_max_def example_util_def)

lemma num_vac: "MaxSpeed_num dilute_eos 1 (face 0 (5/4) (3/4)) = Inr (Fin 0)"
  by (simp add: MaxSpeed_num_def Let_def dilute_eos_def face_def minus_double_def)

lemma quot_vac: "MaxSpeed_quotient dilute_eos example_util 1 (face 0 (5/4) (3/4)) (Fin 0) = Fin 0"
  by (simp add: MaxSpeed_quotient_def Let_def dilute_eos_def face_def minus_double_def std_max_def example_util_def)

lemma num_snap: "MaxSpeed_num dilute_eos 1 (face (19999/20000) 1 (1/2)) = Inr (Fin (19999/40000))"
  by (simp add: MaxSpeed_num_def Let_def dilute_eos_def face_def minus_double_def)

lemma quot_snap: "MaxSpeed_quotient dilute_eos example_util 1 (face (19999/20000) 1 (1/2)) (Fin (19999/40000)) = Fin (19999/40000)"
  by (simp add: MaxSpeed_quotient_def Let_def dilute_eos_def face_def minus_double_def std_max_def example_util_def)

lemma num_fast: "MaxSpeed_num dilute_eos 1 (face 1 1 1) = Inr (Fin 3)"
  by (simp add: MaxSpeed_num_def Let_def dilute_eos_def face_def minus_double_def)

lemma quot_fast: "MaxSpeed_quotient dilute_eos example_util 1 (face 1 1 1) (Fin 3) = Fin 3"
  by (simp add: MaxSpeed_quotient_def Let_def dilute_eos_def face_def minus_double_def std_max_def example_util_def)


lemma le_iff_not_less: "\<not> isnan x \<Longrightarrow> \<not> isnan y \<Longrightarrow> x \<le> y \<longleftrightarrow> \<not> y < x"
  by (cases x; cases y) auto

lemma le_refl_double: "\<not> isnan x \<Longrightarrow> x \<le> x"
  by (cases x) auto

text \<open>
  Claim C5, as amended. When the numerator is computed (no exit in the inner branch), the
  checks on the quotient \<open>f\<close> against \<open>v = ux/utau\<close> are: a negative \<open>f\<close> ends the
  process; \<open>f < v\<close> with a nonzero numerator is snapped to \<open>v\<close> when the deficit is
  within \<open>10\<^sup>-\<^sup>4\<close> and ends the process otherwise; \<open>f < v\<close> with a numerator equal to
  zero is returned as it is (the test is skipped); \<open>f > 1\<close> (and not below \<open>v\<close>) ends the
  process. Hence, when \<^verbatim>\<open>MaxSpeed\<close> returns, the numerator is nonzero and neither \<open>f\<close>
  nor \<open>v\<close> is not-a-number, the speed before the geometric factor is at least \<open>v\<close>, and
  it is at most 1 or equal to the snapped \<open>v\<close>.
\<close>

theorem MaxSpeed_bounds:
  assumes "MaxSpeed_num eos direc grid_p = Inr num"
  shows
    "let f = MaxSpeed_quotient eos util direc grid_p num;
         v = \<bar>ReconstCell.u grid_p direc\<bar> / ReconstCell.u grid_p 0;
         r = MaxSpeed_f eos util direc grid_p
     in (f < Fin 0 \<longrightarrow> r = Inl SpeedMax_is_negative)
        \<and> (\<not> f < Fin 0 \<and> f < v \<and> \<not> eq_d num (Fin 0) \<and> \<bar>f - v\<bar> < Fin (1 / 10000) \<longrightarrow> r = Inr v)
        \<and> (\<not> f < Fin 0 \<and> f < v \<and> \<not> eq_d num (Fin 0) \<and> \<not> \<bar>f - v\<bar> < Fin (1 / 10000) \<longrightarrow>
              r = Inl SpeedMax_is_smaller_than_v)
        \<and> (\<not> f < Fin 0 \<and> f < v \<and> eq_d num (Fin 0) \<longrightarrow> r = Inr f)
        \<and> (\<not> f < Fin 0 \<and> \<not> f < v \<and> f > Fin 1 \<longrightarrow> r = Inl SpeedMax_is_bigger_than_1)
        \<and> (\<not> f < Fin 0 \<and> \<not> f < v \<and> \<not> f > Fin 1 \<longrightarrow> r = Inr f)
        \<and> (\<forall>f'. r = Inr f' \<and> \<not> eq_d num (Fin 0) \<and> \<not> isnan f \<and> \<not> isnan v \<longrightarrow>
              v \<le> f' \<and> (f' \<le> Fin 1 \<or> f' = v))
        \<and> MaxSpeed eos util tau direc grid_p
            = (case r of Inl stop \<Rightarrow> Inl stop
               | Inr f' \<Rightarrow> Inr (f' * (if direc - 1 = 2 then Fin 1 / tau else Fin 1)))"
proof -
  define f where "f = MaxSpeed_quotient eos util direc grid_p num"
  define v where "v = \<bar>ReconstCell.u grid_p direc\<bar> / ReconstCell.u grid_p 0"
  have r: "MaxSpeed_f eos util direc grid_p
             = MaxSpeed_check num f \<bar>ReconstCell.u grid_p direc\<bar> (ReconstCell.u grid_p 0)"
    using assms by (simp add: MaxSpeed_f_def f_def)
  have branches:
    "f < Fin 0 \<longrightarrow> MaxSpeed_f eos util direc grid_p = Inl SpeedMax_is_negative"
    "\<not> f < Fin 0 \<and> f < v \<and> \<not> eq_d num (Fin 0) \<and> \<bar>f - v\<bar> < Fin (1 / 10000) \<longrightarrow>
       MaxSpeed_f eos util direc grid_p = Inr v"
    "\<not> f < Fin 0 \<and> f < v \<and> \<not> eq_d num (Fin 0) \<and> \<not> \<bar>f - v\<bar> < Fin (1 / 10000) \<longrightarrow>
       MaxSpeed_f eos util direc grid_p = Inl SpeedMax_is_smaller_than_v"
    "\<not> f < Fin 0 \<and> f < v \<and> eq_d num (Fin 0) \<longrightarrow> MaxSpeed_f eos util direc grid_p = Inr f"
    "\<not> f < Fin 0 \<and> \<not> f < v \<and> f > Fin 1 \<longrightarrow>
       MaxSpeed_f eos util direc grid_p = Inl SpeedMax_is_bigger_than_1"
    "\<not> f < Fin 0 \<and> \<not> f < v \<and> \<not> f > Fin 1 \<longrightarrow> MaxSpeed_f eos util direc grid_p = Inr f"
    by (simp_all add: r MaxSpeed_check_def v_def)
  have bounds: "\<forall>f'. MaxSpeed_f eos util direc grid_p = Inr f' \<and> \<not> eq_d num (Fin 0) \<and> \<not> isnan f
                    \<and> \<not> isnan v \<longrightarrow> v \<le> f' \<and> (f' \<le> Fin 1 \<or> f' = v)"
  proof (intro allI impI, elim conjE)
    fix f'
    assume ret: "MaxSpeed_f eos util direc grid_p = Inr f'" and num: "\<not> eq_d num (Fin 0)"
      and nf: "\<not> isnan f" and nv: "\<not> isnan v"
    show "v \<le> f' \<and> (f' \<le> Fin 1 \<or> f' = v)"
    proof (cases "f < v")
      case True
      with ret num have "f' = v"
        by (simp add: r MaxSpeed_check_def v_def split: if_splits)
      then show ?thesis using nv by (simp add: le_refl_double)
    next
      case False
      with ret have f': "f' = f" and "\<not> f > Fin 1"
        by (simp_all add: r MaxSpeed_check_def v_def split: if_splits)
      then show ?thesis using False nf nv by (simp add: le_iff_not_less)
    qed
  qed
  have whole: "MaxSpeed eos util tau direc grid_p
            = (case MaxSpeed_f eos util direc grid_p of Inl stop \<Rightarrow> Inl stop
               | Inr f' \<Rightarrow> Inr (f' * (if direc - 1 = 2 then Fin 1 / tau else Fin 1)))"
    by (simp add: MaxSpeed_def Let_def)
  from branches bounds whole show ?thesis
    unfolding Let_def f_def [symmetric] v_def [symmetric] by blast
qed

theorem MaxSpeed_bounds_witness:
  "MaxSpeed_num conformal_eos 1 (face 1 (5 / 2) (3 / 2)) = Inr (Fin (7 / 2))
   \<and> MaxSpeed_f conformal_eos example_util 1 (face 1 (5 / 2) (3 / 2)) = Inr (Fin (7 / 9))
   \<and> Fin (3 / 5) \<le> Fin (7 / 9) \<and> Fin (7 / 9) \<le> Fin 1
   \<and> MaxSpeed conformal_eos example_util (Fin 2) 1 (face 1 (5 / 2) (3 / 2)) = Inr (Fin (7 / 9))
   \<and> MaxSpeed_f dilute_eos example_util 1 (face (19999 / 20000) 1 (1 / 2)) = Inr (Fin (1 / 2))
   \<and> MaxSpeed_f dilute_eos example_util 1 (face 1 1 1) = Inl SpeedMax_is_bigger_than_1
   \<and> MaxSpeed_f dilute_eos example_util 1 (face 0 (5 / 4) (3 / 4)) = Inr (Fin 0)"
proof -
  have v1: "\<bar>ReconstCell.u (face 1 (5 / 2) (3 / 2)) 1\<bar> / ReconstCell.u (face 1 (5 / 2) (3 / 2)) 0
              = Fin (3 / 5)"
    and v2: "\<bar>ReconstCell.u (face (19999 / 20000) 1 (1 / 2)) 1\<bar>
               / ReconstCell.u (face (19999 / 20000) 1 (1 / 2)) 0 = Fin (1 / 2)"
    and v3: "\<bar>ReconstCell.u (face 1 1 1) 1\<bar> / ReconstCell.u (face 1 1 1) 0 = Fin 1"
    and v4: "\<bar>ReconstCell.u (face 0 (5 / 4) (3 / 4)) 1\<bar> / ReconstCell.u (face 0 (5 / 4) (3 / 4)) 0
               = Fin (3 / 5)"
    by (simp_all add: face_def)
  from MaxSpeed_bounds [OF num_normal, of example_util "Fin 2"]
  have a: "MaxSpeed_f conformal_eos example_util 1 (face 1 (5 / 2) (3 / 2)) = Inr (Fin (7 / 9))"
    and a': "MaxSpeed conformal_eos example_util (Fin 2) 1 (face 1 (5 / 2) (3 / 2))
               = Inr (Fin (7 / 9))"
    unfolding Let_def quot_normal v1 by simp_all
  from MaxSpeed_bounds [OF num_normal, of example_util "Fin 2"] a
  have b: "Fin (3 / 5) \<le> Fin (7 / 9) \<and> Fin (7 / 9) \<le> Fin 1"
    unfolding Let_def quot_normal v1 by simp
  from MaxSpeed_bounds [OF num_snap, of example_util "Fin 2"]
  have c: "MaxSpeed_f dilute_eos example_util 1 (face (19999 / 20000) 1 (1 / 2))
             = Inr (Fin (1 / 2))"
    unfolding Let_def quot_snap v2 by (simp add: minus_double_def)
  from MaxSpeed_bounds [OF num_fast, of example_util "Fin 2"]
  have d: "MaxSpeed_f dilute_eos example_util 1 (face 1 1 1) = Inl SpeedMax_is_bigger_than_1"
    unfolding Let_def quot_fast v3 by simp
  from MaxSpeed_bounds [OF num_vac, of example_util "Fin 2"]
  have e: "MaxSpeed_f dilute_eos example_util 1 (face 0 (5 / 4) (3 / 4)) = Inr (Fin 0)"
    unfolding Let_def quot_vac v4 by simp
  from num_normal a a' b c d e show ?thesis by simp
qed

text \<open>
  The claim as written fails when the numerator is zero: for a face with no enthalpy
  (\<open>e = P = 0\<close>), a negative sound speed squared and velocity \<open>u\<^sup>0 = 5/4\<close>,
  \<open>u\<^sup>1 = 3/4\<close>, \<^verbatim>\<open>MaxSpeed\<close> returns speed 0, below \<open>ux/utau = 3/5\<close>.
\<close>

theorem MaxSpeed_bounds_counterexample:
  "MaxSpeed_f dilute_eos example_util 1 (face 0 (5 / 4) (3 / 4)) = Inr (Fin 0)
   \<and> \<bar>ReconstCell.u (face 0 (5 / 4) (3 / 4)) 1\<bar> / ReconstCell.u (face 0 (5 / 4) (3 / 4)) 0
       = Fin (3 / 5)
   \<and> \<not> Fin (3 / 5) \<le> Fin 0"
proof -
  have v: "\<bar>ReconstCell.u (face 0 (5 / 4) (3 / 4)) 1\<bar> / ReconstCell.u (face 0 (5 / 4) (3 / 4)) 0
             = Fin (3 / 5)"
    by (simp add: face_def)
  have "MaxSpeed_f dilute_eos example_util 1 (face 0 (5 / 4) (3 / 4)) = Inr (Fin 0)"
    unfolding MaxSpeed_f_def num_vac sum.case quot_vac MaxSpeed_check_def v
    by simp
  with v show ?thesis by simp
qed

subsection \<open>The necessary causality conditions\<close>

text \<open>Each condition is its transport part plus its dissipative part: the sums of the
  model are associative.\<close>

lemma nCondition_split:
  "nCondition tc eos grid_pt i = nTransport tc eos grid_pt i + nViscous tc eos grid_pt i"
  by (simp add: nCondition_def nTransport_def nViscous_def Let_def add_assoc_double)

text \<open>
  The candidate of a negative condition is the quotient of the negated transport part by
  the dissipative part. The quotient \<open>- t / d\<close> of two reals is the root of
  \<open>a \<mapsto> t + a d\<close>. When the dissipative part of a negative condition is a zero, the
  candidate is an infinity: the negative one for the negative zero, the positive one for
  the positive zero.
\<close>

lemma quotient_is_root: "d \<noteq> 0 \<Longrightarrow> t + (- t / d) * d = (0::real)"
  by simp

lemma candidate_MZero: "t + MZero < Fin 0 \<Longrightarrow> (- t) / MZero = NInf"
  by (cases t) (simp_all split: if_splits)

lemma candidate_PZero: "t + Fin 0 < Fin 0 \<Longrightarrow> (- t) / Fin 0 = PInf"
  by (cases t) (simp_all split: if_splits)

lemma in_candidates:
  "c \<in> set (map f [0, 1, 2, 3::nat]) \<longleftrightarrow> (\<exists>i<4. c = f i)"
proof
  assume "c \<in> set (map f [0, 1, 2, 3::nat])"
  then have "c = f 0 \<or> c = f 1 \<or> c = f 2 \<or> c = f 3" by simp
  moreover have "(0::nat) < 4" "(1::nat) < 4" "(2::nat) < 4" "(3::nat) < 4" by simp_all
  ultimately show "\<exists>i<4. c = f i" by blast
next
  assume "\<exists>i<4. c = f i"
  then obtain i where "i < 4" "c = f i" by blast
  moreover from \<open>i < 4\<close> have "i = 0 \<or> i = 1 \<or> i = 2 \<or> i = 3" by arith
  ultimately show "c \<in> set (map f [0, 1, 2, 3::nat])" by auto
qed

lemma nCausality_minAlp_props:
  "\<exists>a. nCausality_minAlp tc eos grid_pt = Fin a \<and> 0 \<le> a \<and> a \<le> 1
       \<and> ((\<exists>i<4. nCandidate tc eos grid_pt i < Fin 0) \<longrightarrow> a = 0)
       \<and> (\<forall>i<4. Fin 0 < nCandidate tc eos grid_pt i \<longrightarrow> Fin a \<le> nCandidate tc eos grid_pt i)
       \<and> ((\<forall>i<4. \<not> nCandidate tc eos grid_pt i < Fin 0) \<longrightarrow>
             a = 1 \<or> (\<exists>i<4. nCandidate tc eos grid_pt i = Fin a \<and> 0 < a))"
proof -
  define cand where "cand = nCandidate tc eos grid_pt"
  define cs where "cs = map cand [0, 1, 2, 3]"
  have mem: "\<And>c. c \<in> set cs \<longleftrightarrow> (\<exists>i<4. c = cand i)"
    unfolding cs_def by (rule in_candidates)
  have "(0::real) \<le> 1" by simp
  from foldl_min_step_props [OF this, of cs]
  obtain a where a: "foldl min_step (Fin 1) cs = Fin a" "0 \<le> a" "a \<le> 1"
    and b: "\<forall>c\<in>set cs. (Fin 0 < c \<longrightarrow> Fin a \<le> c) \<and> (c < Fin 0 \<longrightarrow> a = 0)"
    and c: "a = 1 \<or> (\<exists>c\<in>set cs. c < Fin 0 \<and> a = 0) \<or> (\<exists>c\<in>set cs. c = Fin a \<and> 0 < a)"
    by blast
  have m: "nCausality_minAlp tc eos grid_pt = Fin a"
    using a(1) by (simp add: nCausality_minAlp_def cs_def cand_def)
  have neg: "(\<exists>i<4. cand i < Fin 0) \<longrightarrow> a = 0"
    using b mem by auto
  have pos: "\<forall>i<4. Fin 0 < cand i \<longrightarrow> Fin a \<le> cand i"
    using b mem by auto
  have hit: "(\<forall>i<4. \<not> cand i < Fin 0) \<longrightarrow> a = 1 \<or> (\<exists>i<4. cand i = Fin a \<and> 0 < a)"
  proof (intro impI)
    assume nn: "\<forall>i<4. \<not> cand i < Fin 0"
    from c consider "a = 1"
      | c' where "c' \<in> set cs" "c' < Fin 0"
      | c' where "c' \<in> set cs" "c' = Fin a" "0 < a"
      by blast
    then show "a = 1 \<or> (\<exists>i<4. cand i = Fin a \<and> 0 < a)"
    proof cases
      case 1
      then show ?thesis by simp
    next
      case 2
      from 2(1) mem obtain i where "i < 4" "c' = cand i" by blast
      with nn 2(2) show ?thesis by auto
    next
      case 3
      from 3(1) mem obtain i where "i < 4" "c' = cand i" by blast
      with 3(2,3) show ?thesis by auto
    qed
  qed
  show ?thesis
    using m a(2,3) neg pos hit unfolding cand_def
    by (intro exI [of _ a] conjI)
qed



text \<open>
  Claim C3, as amended. Whenever \<^verbatim>\<open>nCausalityConstraints\<close> runs on a cell: a
  condition that is not negative has the candidate 1, and a negative condition yields
  the candidate \<open>- transport / dissipative\<close>, the quotient of its negated transport part
  by its dissipative part. With a finite nonzero dissipative part \<open>d\<close> and a finite
  transport part \<open>t\<close> this is the quotient at which \<open>t + a d\<close> vanishes. With a
  dissipative part that is a zero no factor does that: the candidate is \<open>-\<infinity>\<close> for the
  negative zero, and the applied factor is then 0, and \<open>+\<infinity>\<close> for the positive zero. The
  applied factor lies in \<open>[0, 1]\<close>, is 0 as soon as one candidate is negative, is at
  most every positive candidate, and otherwise is 1 or one of the positive candidates;
  the bulk pressure, all components of \<^verbatim>\<open>Wmunu\<close> and the cached eigenvalues are
  multiplied by the factor; and when the energy density exceeds 0.01 one record (factor,
  energy density, proper time) is appended to the reduction-factor file.
\<close>

theorem nCausalityConstraints_damping:
  "(\<forall>i<4. (\<not> nCondition tc eos grid_pt i < Fin 0 \<longrightarrow> nCandidate tc eos grid_pt i = Fin 1)
          \<and> (nCondition tc eos grid_pt i < Fin 0 \<longrightarrow>
                nCandidate tc eos grid_pt i
                  = (- nTransport tc eos grid_pt i) / nViscous tc eos grid_pt i)
          \<and> (\<forall>t d. nTransport tc eos grid_pt i = Fin t \<and> nViscous tc eos grid_pt i = Fin d
                     \<and> d \<noteq> 0 \<longrightarrow> t + (- t / d) * d = 0)
          \<and> (nCondition tc eos grid_pt i < Fin 0 \<and> nViscous tc eos grid_pt i = MZero
             \<longrightarrow> nCandidate tc eos grid_pt i = NInf
                 \<and> nCausality_minAlp tc eos grid_pt = Fin 0)
          \<and> (nCondition tc eos grid_pt i < Fin 0 \<and> nViscous tc eos grid_pt i = Fin 0
             \<longrightarrow> nCandidate tc eos grid_pt i = PInf))
   \<and> (\<exists>a. nCausality_minAlp tc eos grid_pt = Fin a \<and> 0 \<le> a \<and> a \<le> 1
         \<and> ((\<exists>i<4. nCandidate tc eos grid_pt i < Fin 0) \<longrightarrow> a = 0)
         \<and> (\<forall>i<4. Fin 0 < nCandidate tc eos grid_pt i \<longrightarrow> Fin a \<le> nCandidate tc eos grid_pt i)
         \<and> ((\<forall>i<4. \<not> nCandidate tc eos grid_pt i < Fin 0) \<longrightarrow>
               a = 1 \<or> (\<exists>i<4. nCandidate tc eos grid_pt i = Fin a \<and> 0 < a)))
   \<and> pi_b (fst (nCausalityConstraints tc eos grid_pt tau))
       = pi_b grid_pt * nCausality_minAlp tc eos grid_pt
   \<and> (\<forall>i. Wmunu (fst (nCausalityConstraints tc eos grid_pt tau)) i
            = Wmunu grid_pt i * nCausality_minAlp tc eos grid_pt)
   \<and> (\<forall>i. Lambdas (fst (nCausalityConstraints tc eos grid_pt tau)) i
            = Lambdas grid_pt i * nCausality_minAlp tc eos grid_pt)
   \<and> snd (nCausalityConstraints tc eos grid_pt tau)
       = (if epsilon grid_pt > Fin (1 / 100)
          then [File_record ''necessary_causality_reduction_factor_wtau.dat''
                  (nCausality_minAlp tc eos grid_pt) (epsilon grid_pt) tau]
          else [])"
proof -
  have wipe: "nCausality_minAlp tc eos grid_pt = Fin 0"
    if "i < 4" "nCandidate tc eos grid_pt i = NInf" for i
  proof -
    from that have "\<exists>i<4. nCandidate tc eos grid_pt i < Fin 0" by auto
    with nCausality_minAlp_props [of tc eos grid_pt] show ?thesis by auto
  qed
  have cand: "\<forall>i<4. (\<not> nCondition tc eos grid_pt i < Fin 0 \<longrightarrow> nCandidate tc eos grid_pt i = Fin 1)
          \<and> (nCondition tc eos grid_pt i < Fin 0 \<longrightarrow>
                nCandidate tc eos grid_pt i
                  = (- nTransport tc eos grid_pt i) / nViscous tc eos grid_pt i)
          \<and> (\<forall>t d. nTransport tc eos grid_pt i = Fin t \<and> nViscous tc eos grid_pt i = Fin d
                     \<and> d \<noteq> 0 \<longrightarrow> t + (- t / d) * d = 0)
          \<and> (nCondition tc eos grid_pt i < Fin 0 \<and> nViscous tc eos grid_pt i = MZero
             \<longrightarrow> nCandidate tc eos grid_pt i = NInf
                 \<and> nCausality_minAlp tc eos grid_pt = Fin 0)
          \<and> (nCondition tc eos grid_pt i < Fin 0 \<and> nViscous tc eos grid_pt i = Fin 0
             \<longrightarrow> nCandidate tc eos grid_pt i = PInf)"
  proof (intro allI impI conjI)
    fix i
    show "nCandidate tc eos grid_pt i = Fin 1" if "\<not> nCondition tc eos grid_pt i < Fin 0"
      using that by (simp add: nCandidate_def)
    show "nCandidate tc eos grid_pt i = (- nTransport tc eos grid_pt i) / nViscous tc eos grid_pt i"
      if "nCondition tc eos grid_pt i < Fin 0"
      using that by (simp add: nCandidate_def)
    show "t + (- t / d) * d = 0"
      if "nTransport tc eos grid_pt i = Fin t \<and> nViscous tc eos grid_pt i = Fin d \<and> d \<noteq> 0"
      for t d
      using that by (simp add: quotient_is_root)
    show "nCandidate tc eos grid_pt i = PInf"
      if "nCondition tc eos grid_pt i < Fin 0 \<and> nViscous tc eos grid_pt i = Fin 0"
      using that candidate_PZero [of "nTransport tc eos grid_pt i"]
      by (auto simp add: nCandidate_def nCondition_split)
    assume i: "i < 4"
      and z: "nCondition tc eos grid_pt i < Fin 0 \<and> nViscous tc eos grid_pt i = MZero"
    show c: "nCandidate tc eos grid_pt i = NInf"
      using z candidate_MZero [of "nTransport tc eos grid_pt i"]
      by (auto simp add: nCandidate_def nCondition_split)
    show "nCausality_minAlp tc eos grid_pt = Fin 0"
      using i c by (rule wipe)
  qed
  have cell: "pi_b (fst (nCausalityConstraints tc eos grid_pt tau))
       = pi_b grid_pt * nCausality_minAlp tc eos grid_pt"
    "\<forall>i. Wmunu (fst (nCausalityConstraints tc eos grid_pt tau)) i
            = Wmunu grid_pt i * nCausality_minAlp tc eos grid_pt"
    "\<forall>i. Lambdas (fst (nCausalityConstraints tc eos grid_pt tau)) i
            = Lambdas grid_pt i * nCausality_minAlp tc eos grid_pt"
    by (simp_all add: nCausalityConstraints_def rescale_def Let_def)
  have log: "snd (nCausalityConstraints tc eos grid_pt tau)
       = (if epsilon grid_pt > Fin (1 / 100)
          then [File_record ''necessary_causality_reduction_factor_wtau.dat''
                  (nCausality_minAlp tc eos grid_pt) (epsilon grid_pt) tau]
          else [])"
    by (simp add: nCausalityConstraints_def Let_def)
  show ?thesis
    by (intro conjI cand nCausality_minAlp_props cell log)
qed

text \<open>The conditions at the example cells.\<close>

lemma nTransport_conformal:
  "nTransport (tc_of 5 1) conformal_eos g 0 = Fin (2 / 5)"
  "nTransport (tc_of 5 1) conformal_eos g (Suc 0) = Fin (2 / 5)"
  "nTransport (tc_of 5 1) conformal_eos g 2 = Fin (3 / 5)"
  "nTransport (tc_of 5 1) conformal_eos g 3 = Fin (2 / 5)"
  "nTransport (tc_of 1 1) conformal_eos g 0 = Fin 2"
  "nTransport (tc_of 1 1) conformal_eos g (Suc 0) = Fin 2"
  "nTransport (tc_of 1 1) conformal_eos g 2 = Fin (5 / 3)"
  "nTransport (tc_of 1 1) conformal_eos g 3 = Fin (- 2 / 3)"
  by (simp_all add: nTransport_def transportPart_n13_def transportPart_n56_def Let_def
      tc_of_def conformal_eos_def coeffs)

lemma nViscous_stretched:
  "nViscous tc conformal_eos stretched_cell 0 = Fin 0"
  "nViscous tc conformal_eos stretched_cell (Suc 0) = Fin (- 1)"
  "nViscous tc conformal_eos stretched_cell 2 = Fin 0"
  "nViscous tc conformal_eos stretched_cell 3 = Fin (- 8 / 5)"
  by (simp_all add: nViscous_def viscousPart1_n13_def viscousPart2_n13_def viscousPart1_n56_def
      viscousPart2_n56_def Let_def conformal_eos_def stretched_cell_def quiet_cell_def coeffs)

lemma nViscous_quiet:
  "nViscous tc conformal_eos quiet_cell 0 = Fin 0"
  "nViscous tc conformal_eos quiet_cell (Suc 0) = Fin 0"
  "nViscous tc conformal_eos quiet_cell 2 = Fin 0"
  "nViscous tc conformal_eos quiet_cell 3 = MZero"
  by (simp_all add: nViscous_def viscousPart1_n13_def viscousPart2_n13_def viscousPart1_n56_def
      viscousPart2_n56_def Let_def conformal_eos_def quiet_cell_def coeffs)

lemma nViscous_pulled:
  "nViscous tc conformal_eos pulled_cell 0 = Fin (- 5 / 7)"
  "nViscous tc conformal_eos pulled_cell (Suc 0) = Fin 0"
  "nViscous tc conformal_eos pulled_cell 2 = Fin (15 / 7)"
  "nViscous tc conformal_eos pulled_cell 3 = MZero"
  by (simp_all add: nViscous_def viscousPart1_n13_def viscousPart2_n13_def viscousPart1_n56_def
      viscousPart2_n56_def Let_def conformal_eos_def pulled_cell_def quiet_cell_def coeffs)

lemma nCandidate_stretched:
  "nCandidate (tc_of 5 1) conformal_eos stretched_cell 0 = Fin 1"
  "nCandidate (tc_of 5 1) conformal_eos stretched_cell (Suc 0) = Fin (2 / 5)"
  "nCandidate (tc_of 5 1) conformal_eos stretched_cell 2 = Fin 1"
  "nCandidate (tc_of 5 1) conformal_eos stretched_cell 3 = Fin (1 / 4)"
  "nCandidate (tc_of 1 1) conformal_eos stretched_cell 0 = Fin 1"
  "nCandidate (tc_of 1 1) conformal_eos stretched_cell (Suc 0) = Fin 1"
  "nCandidate (tc_of 1 1) conformal_eos stretched_cell 2 = Fin 1"
  "nCandidate (tc_of 1 1) conformal_eos stretched_cell 3 = Fin (- 5 / 12)"
  by (simp_all add: nCandidate_def nCondition_split nTransport_conformal nViscous_stretched)

lemma minAlp_stretched:
  "nCausality_minAlp (tc_of 5 1) conformal_eos stretched_cell = Fin (1 / 4)"
  "nCausality_minAlp (tc_of 1 1) conformal_eos stretched_cell = Fin 0"
  by (simp_all add: nCausality_minAlp_def nCandidate_stretched min_step_def)

lemma nCandidate_quiet:
  "nCandidate (tc_of 1 1) conformal_eos quiet_cell 0 = Fin 1"
  "nCandidate (tc_of 1 1) conformal_eos quiet_cell (Suc 0) = Fin 1"
  "nCandidate (tc_of 1 1) conformal_eos quiet_cell 2 = Fin 1"
  "nCandidate (tc_of 1 1) conformal_eos quiet_cell 3 = NInf"
  by (simp_all add: nCandidate_def nCondition_split nTransport_conformal nViscous_quiet)

lemma minAlp_quiet: "nCausality_minAlp (tc_of 1 1) conformal_eos quiet_cell = Fin 0"
  by (simp add: nCausality_minAlp_def nCandidate_quiet min_step_def)


lemma nViscous_negative_zero_bulk:
  "nViscous tc conformal_eos (quiet_cell\<lparr>pi_b := MZero\<rparr>) 3 = Fin 0"
  by (simp add: nViscous_def viscousPart1_n56_def viscousPart2_n56_def Let_def
      conformal_eos_def quiet_cell_def coeffs)

theorem nCausalityConstraints_damping_witness:
  "(1::nat) < 4
   \<and> nCondition (tc_of 5 1) conformal_eos stretched_cell 1 < Fin 0
   \<and> nTransport (tc_of 5 1) conformal_eos stretched_cell 1 = Fin (2 / 5)
   \<and> nViscous (tc_of 5 1) conformal_eos stretched_cell 1 = Fin (- 1)
   \<and> nCandidate (tc_of 5 1) conformal_eos stretched_cell 1 = Fin (- 2 / 5) / Fin (- 1)
   \<and> (2 / 5 + (- (2 / 5) / (- 1)) * (- 1) = (0::real))
   \<and> \<not> nCondition (tc_of 5 1) conformal_eos stretched_cell 0 < Fin 0
   \<and> nCandidate (tc_of 5 1) conformal_eos stretched_cell 0 = Fin 1
   \<and> nCausality_minAlp (tc_of 5 1) conformal_eos stretched_cell = Fin (1 / 4)
   \<and> Lambdas (fst (nCausalityConstraints (tc_of 5 1) conformal_eos stretched_cell (Fin 1))) 2
       = Fin (7 / 20)
   \<and> snd (nCausalityConstraints (tc_of 5 1) conformal_eos stretched_cell (Fin 1))
       = [File_record ''necessary_causality_reduction_factor_wtau.dat''
            (Fin (1 / 4)) (Fin (3 / 4)) (Fin 1)]
   \<and> (3::nat) < 4
   \<and> nCandidate (tc_of 1 1) conformal_eos stretched_cell 3 < Fin 0
   \<and> nCausality_minAlp (tc_of 1 1) conformal_eos stretched_cell = Fin 0
   \<and> nCondition (tc_of 1 1) conformal_eos pulled_cell 3 < Fin 0
   \<and> nViscous (tc_of 1 1) conformal_eos pulled_cell 3 = MZero
   \<and> nCandidate (tc_of 1 1) conformal_eos pulled_cell 3 = NInf
   \<and> nCausality_minAlp (tc_of 1 1) conformal_eos pulled_cell = Fin 0
   \<and> Lambdas (fst (nCausalityConstraints (tc_of 1 1) conformal_eos pulled_cell (Fin 1))) 0
       = Fin 0
   \<and> snd (nCausalityConstraints (tc_of 1 1) conformal_eos pulled_cell (Fin 1))
       = [File_record ''necessary_causality_reduction_factor_wtau.dat''
            (Fin 0) (Fin (3 / 4)) (Fin 1)]
   \<and> nCondition (tc_of 1 1) conformal_eos (quiet_cell\<lparr>pi_b := MZero\<rparr>) 3 < Fin 0
   \<and> nViscous (tc_of 1 1) conformal_eos (quiet_cell\<lparr>pi_b := MZero\<rparr>) 3 = Fin 0
   \<and> nCandidate (tc_of 1 1) conformal_eos (quiet_cell\<lparr>pi_b := MZero\<rparr>) 3 = PInf"
proof -
  have T: "nTransport (tc_of 5 1) conformal_eos stretched_cell 1 = Fin (2 / 5)"
    and V: "nViscous (tc_of 5 1) conformal_eos stretched_cell 1 = Fin (- 1)"
    and C: "nCandidate (tc_of 5 1) conformal_eos stretched_cell 1 = Fin (2 / 5)"
    by (simp_all add: nTransport_conformal nViscous_stretched nCandidate_stretched)
  have neg: "nCondition (tc_of 5 1) conformal_eos stretched_cell 1 < Fin 0"
    unfolding nCondition_split T V by simp
  have cell: "Lambdas stretched_cell 2 = Fin (7 / 5)" "epsilon stretched_cell = Fin (3 / 4)"
    "Lambdas pulled_cell 0 = Fin 1" "epsilon pulled_cell = Fin (3 / 4)"
    by (simp_all add: stretched_cell_def pulled_cell_def quiet_cell_def)
  have one: "(1::nat) < 4" and three: "(3::nat) < 4" by simp_all
  note s5 = nCausalityConstraints_damping [of "tc_of 5 1" conformal_eos stretched_cell "Fin 1"]
  have zero: "(0::nat) < 4" by simp
  have pos: "\<not> nCondition (tc_of 5 1) conformal_eos stretched_cell 0 < Fin 0"
    by (simp add: nCondition_split nTransport_conformal nViscous_stretched)
  from s5 [THEN conjunct1, rule_format, OF zero] pos
  have idle: "nCandidate (tc_of 5 1) conformal_eos stretched_cell 0 = Fin 1"
    by blast
  from s5 [THEN conjunct1, rule_format, OF one] neg
  have quot: "nCandidate (tc_of 5 1) conformal_eos stretched_cell 1 = Fin (- 2 / 5) / Fin (- 1)"
    unfolding T V by auto
  have nz: "(- 1::real) \<noteq> 0" by simp
  from s5 [THEN conjunct1, rule_format, OF one, THEN conjunct2, THEN conjunct2, THEN conjunct1,
           rule_format, of "2 / 5" "- 1"] T V nz
  have solve: "2 / 5 + (- (2 / 5) / (- 1)) * (- 1) = (0::real)"
    by blast
  from s5 [THEN conjunct2, THEN conjunct2, THEN conjunct2, THEN conjunct2, THEN conjunct1,
           rule_format, of 2]
  have L: "Lambdas (fst (nCausalityConstraints (tc_of 5 1) conformal_eos stretched_cell
                                     (Fin 1))) 2 = Fin (7 / 20)"
    unfolding minAlp_stretched cell by simp
  from s5 [THEN conjunct2, THEN conjunct2, THEN conjunct2, THEN conjunct2, THEN conjunct2]
  have R: "snd (nCausalityConstraints (tc_of 5 1) conformal_eos stretched_cell (Fin 1))
       = [File_record ''necessary_causality_reduction_factor_wtau.dat''
            (Fin (1 / 4)) (Fin (3 / 4)) (Fin 1)]"
    unfolding minAlp_stretched cell by simp
  have c3: "nCandidate (tc_of 1 1) conformal_eos stretched_cell 3 < Fin 0"
    by (simp add: nCandidate_stretched)
  with three have ex: "\<exists>i<4. nCandidate (tc_of 1 1) conformal_eos stretched_cell i < Fin 0"
    by blast
  from nCausalityConstraints_damping
         [of "tc_of 1 1" conformal_eos stretched_cell "Fin 1", THEN conjunct2, THEN conjunct1] ex
  have Z: "nCausality_minAlp (tc_of 1 1) conformal_eos stretched_cell = Fin 0"
    by auto
  have pn: "nCondition (tc_of 1 1) conformal_eos pulled_cell 3 < Fin 0"
    and pv: "nViscous (tc_of 1 1) conformal_eos pulled_cell 3 = MZero"
    by (simp_all add: nCondition_split nTransport_conformal nViscous_pulled)
  note p1 = nCausalityConstraints_damping [of "tc_of 1 1" conformal_eos pulled_cell "Fin 1"]
  from p1 [THEN conjunct1, rule_format, OF three] pn pv
  have pc: "nCandidate (tc_of 1 1) conformal_eos pulled_cell 3 = NInf"
    and pm: "nCausality_minAlp (tc_of 1 1) conformal_eos pulled_cell = Fin 0"
    by auto
  from p1 [THEN conjunct2, THEN conjunct2, THEN conjunct2, THEN conjunct2, THEN conjunct1,
           rule_format, of 0]
  have pL: "Lambdas (fst (nCausalityConstraints (tc_of 1 1) conformal_eos pulled_cell
                                     (Fin 1))) 0 = Fin 0"
    unfolding pm cell by simp
  from p1 [THEN conjunct2, THEN conjunct2, THEN conjunct2, THEN conjunct2, THEN conjunct2]
  have pR: "snd (nCausalityConstraints (tc_of 1 1) conformal_eos pulled_cell (Fin 1))
       = [File_record ''necessary_causality_reduction_factor_wtau.dat''
            (Fin 0) (Fin (3 / 4)) (Fin 1)]"
    unfolding pm cell by simp
  have zn: "nCondition (tc_of 1 1) conformal_eos (quiet_cell\<lparr>pi_b := MZero\<rparr>) 3 < Fin 0"
    and zv: "nViscous (tc_of 1 1) conformal_eos (quiet_cell\<lparr>pi_b := MZero\<rparr>) 3 = Fin 0"
    by (simp_all add: nCondition_split nTransport_conformal nViscous_negative_zero_bulk)
  from nCausalityConstraints_damping
         [of "tc_of 1 1" conformal_eos "quiet_cell\<lparr>pi_b := MZero\<rparr>" "Fin 1", THEN conjunct1,
          rule_format, OF three] zn zv
  have zc: "nCandidate (tc_of 1 1) conformal_eos (quiet_cell\<lparr>pi_b := MZero\<rparr>) 3 = PInf"
    by auto
  from neg T V quot solve pos idle minAlp_stretched(1) L R c3 Z pn pv pc pm pL pR zn zv zc
  show ?thesis by simp
qed

text \<open>
  The claim as written fails when a condition is negative through its transport part
  alone. With both relaxation-time factors equal to 1 and the conformal equation of
  state the fourth condition of the quiet cell is \<open>1 - 5/3 < 0\<close> while its dissipative
  part is the negative zero (a negative coefficient times the vanishing bulk pressure):
  the candidate is \<open>-\<infinity>\<close>, no factor solves the condition at equality, the condition
  stays violated however the cell is rescaled, and the applied factor is 0.
\<close>

lemma quiet_rescaled:
  "is_zero (pi_b (rescale alp quiet_cell)) \<or> pi_b (rescale alp quiet_cell) = NaN"
  "is_zero (Lambdas (rescale alp quiet_cell) i) \<or> Lambdas (rescale alp quiet_cell) i = NaN"
  "epsilon (rescale alp quiet_cell) = Fin (3 / 4)" "rhob (rescale alp quiet_cell) = Fin 0"
  by (cases alp; simp add: rescale_def quiet_cell_def)+

lemma fourth_condition_quiet:
  assumes "epsilon g = Fin (3 / 4)" and "rhob g = Fin 0"
    and "is_zero (pi_b g) \<or> pi_b g = NaN" and "is_zero (Lambdas g 2) \<or> Lambdas g 2 = NaN"
  shows "\<not> Fin 0 \<le> nCondition (tc_of 1 1) conformal_eos g 3"
  using assms
  by (auto simp add: is_zero_iff nCondition_def transportPart_n56_def viscousPart1_n56_def
      viscousPart2_n56_def Let_def tc_of_def conformal_eos_def coeffs)

theorem nCausalityConstraints_damping_counterexample:
  "nCondition (tc_of 1 1) conformal_eos quiet_cell 3 < Fin 0
   \<and> nCandidate (tc_of 1 1) conformal_eos quiet_cell 3 = NInf
   \<and> (\<forall>alp. \<not> eq_d (nTransport (tc_of 1 1) conformal_eos quiet_cell 3
                       + alp * nViscous (tc_of 1 1) conformal_eos quiet_cell 3) (Fin 0))
   \<and> (\<forall>alp. \<not> Fin 0 \<le> nCondition (tc_of 1 1) conformal_eos (rescale alp quiet_cell) 3)
   \<and> nCausality_minAlp (tc_of 1 1) conformal_eos quiet_cell = Fin 0"
proof -
  have T: "nTransport (tc_of 1 1) conformal_eos quiet_cell 3 = Fin (- 2 / 3)"
    and V: "nViscous (tc_of 1 1) conformal_eos quiet_cell 3 = MZero"
    by (simp_all add: nTransport_conformal nViscous_quiet)
  have a: "nCondition (tc_of 1 1) conformal_eos quiet_cell 3 < Fin 0"
    unfolding nCondition_split T V by simp
  have c: "\<forall>alp. \<not> eq_d (nTransport (tc_of 1 1) conformal_eos quiet_cell 3
                       + alp * nViscous (tc_of 1 1) conformal_eos quiet_cell 3) (Fin 0)"
  proof
    fix alp show "\<not> eq_d (nTransport (tc_of 1 1) conformal_eos quiet_cell 3
                       + alp * nViscous (tc_of 1 1) conformal_eos quiet_cell 3) (Fin 0)"
      unfolding T V by (cases alp) (simp_all add: eq_d_def)
  qed
  have d: "\<forall>alp. \<not> Fin 0 \<le> nCondition (tc_of 1 1) conformal_eos (rescale alp quiet_cell) 3"
  proof
    fix alp
    show "\<not> Fin 0 \<le> nCondition (tc_of 1 1) conformal_eos (rescale alp quiet_cell) 3"
      by (rule fourth_condition_quiet) (rule quiet_rescaled)+
  qed
  from a c d nCandidate_quiet(4) minAlp_quiet show ?thesis by blast
qed

subsection \<open>Applying the necessary conditions twice\<close>










end
